(* ===== verification/Prelude.thy ===== *)
theory Prelude
  imports Complex_Main "HOL-Library.Code_Target_Numeral"
begin

text \<open>
  Shared vocabulary of the development: the named theorem collections the
  component theories feed, type synonyms for the quantities the application
  computes with, the pieces of the ECMAScript runtime that the sources call
  (\<open>Math.atan2\<close>, the truthiness of \<open>||\<close> on numbers, lookups in object
  literals) and the generic lemmas on reals, lists and options the component
  proofs share.  JavaScript numbers are modelled as \<^typ>\<open>real\<close>: the
  sources never depend on rounding, and NaN arises only where the model says
  so explicitly.
\<close>

named_theorems js_simps "evaluation rules of the modelled ECMAScript runtime"
named_theorems trig_bounds "bounds on the trigonometric terms of the distance formula"

type_synonym km = real
type_synonym degrees = real

text \<open>
  An object literal such as \<open>{walking: 0.0, bicycling: 0.02}\<close> is an
  association list in source order; \<open>obj[key]\<close> is \<^const>\<open>map_of\<close>, with
  \<^term>\<open>None\<close> for \<open>undefined\<close>.
\<close>

type_synonym 'v js_object = "(string \<times> 'v) list"

text \<open>
  \<open>x || d\<close> on a number read from an object: \<open>undefined\<close> and the
  falsy number \<open>0\<close> both give the default.
\<close>

definition js_num_or :: "real option \<Rightarrow> real \<Rightarrow> real" where
  "js_num_or x d = (case x of None \<Rightarrow> d | Some v \<Rightarrow> if v = 0 then d else v)"

text \<open>
  \<open>Math.atan2(y, x)\<close> as ECMAScript specifies it on finite arguments
  (signed zeros are not distinguished by reals).
\<close>

definition js_atan2 :: "real \<Rightarrow> real \<Rightarrow> real" where
  "js_atan2 y x =
     (if 0 < x then arctan (y / x)
      else if x < 0 then (if 0 \<le> y then arctan (y / x) + pi else arctan (y / x) - pi)
      else if 0 < y then pi / 2
      else if y < 0 then - (pi / 2)
      else 0)"

lemma js_num_or_simps [simp, js_simps]:
  "js_num_or None d = d"
  "v \<noteq> 0 \<Longrightarrow> js_num_or (Some v) d = v"
  "js_num_or (Some 0) d = d"
  by (simp_all add: js_num_or_def)

lemma js_atan2_nonneg_range [trig_bounds]:
  assumes "0 \<le> y" and "0 \<le> x"
  shows "0 \<le> js_atan2 y x \<and> js_atan2 y x \<le> pi / 2"
proof (cases "0 < x")
  case True
  have "0 \<le> y / x" using assms True by simp
  then have "0 \<le> arctan (y / x)" by simp
  moreover have "arctan (y / x) \<le> pi / 2" using arctan_ubound less_imp_le by blast
  ultimately show ?thesis using True by (simp add: js_atan2_def)
next
  case False
  with assms show ?thesis by (simp add: js_atan2_def)
qed

lemma js_atan2_zero_iff [trig_bounds]:
  assumes "0 \<le> y" and "0 \<le> x"
  shows "js_atan2 y x = 0 \<longleftrightarrow> y = 0"
  using assms by (auto simp: js_atan2_def)

lemma sin_half_sq_eq:
  "sin (x / 2) * sin (x / 2) = (1 - cos x) / (2::real)"
proof -
  have "cos x = cos (2 * (x / 2))" by simp
  also have "\<dots> = 1 - 2 * sin (x / 2) ^ 2" by (rule cos_double_sin)
  finally show ?thesis by (simp add: power2_eq_square)
qed

lemma sq_self_bounds [trig_bounds]:
  "0 \<le> sin x * sin x" "sin x * sin x \<le> (1::real)"
proof -
  show "0 \<le> sin x * sin x" by (rule zero_le_square)
  have "\<bar>sin x\<bar> \<le> 1" by (rule abs_sin_le_one)
  then have "\<bar>sin x\<bar> * \<bar>sin x\<bar> \<le> 1 * 1" by (intro mult_mono) auto
  then show "sin x * sin x \<le> 1" by (simp add: abs_mult [symmetric])
qed

lemma half_one_plus_bounds:
  fixes c :: real
  assumes "-1 \<le> c" "c \<le> 1"
  shows "0 \<le> (1 + c) / 2 \<and> (1 + c) / 2 \<le> 1"
  using assms by simp

lemma convex_between:
  fixes q p s :: real
  assumes "0 \<le> s" "s \<le> 1" "0 \<le> q" "q \<le> 1" "0 \<le> q + p" "q + p \<le> 1"
  shows "0 \<le> q + p * s \<and> q + p * s \<le> 1"
proof -
  have eq: "q + p * s = (1 - s) * q + s * (q + p)" by (simp add: algebra_simps)
  have "0 \<le> (1 - s) * q + s * (q + p)" using assms by simp
  moreover have "(1 - s) * q + s * (q + p) \<le> (1 - s) * 1 + s * 1"
    using assms by (intro add_mono mult_left_mono) auto
  ultimately show ?thesis by (simp add: eq)
qed

end
