(* ===== verification/JsFloat.thy ===== *)
theory JsFloat
  imports Prelude
begin

text \<open>
  JavaScript numbers as the sources meet them: a finite value, one of the two
  infinities, or NaN.  Finite values are idealised as reals (rounding to the
  nearest double and overflow of finite arithmetic are not modelled; the
  quantities of this application stay far below \<open>2^1024\<close>).  The
  operations follow IEEE 754 / ECMAScript on the special values: NaN
  propagates, \<open>Infinity - Infinity\<close> and \<open>0 * Infinity\<close> are NaN,
  \<open>Math.sin\<close> and \<open>Math.cos\<close> of an infinity are NaN, \<open>Math.sqrt\<close> of a
  negative number is NaN.  Signed zeros are not distinguished.
\<close>

datatype js_float = Fin real | PInf | NInf | NaN

fun js_finite :: "js_float \<Rightarrow> bool" where
  "js_finite (Fin _) = True"
| "js_finite _ = False"

definition js_isNaN :: "js_float \<Rightarrow> bool" where
  "js_isNaN x \<longleftrightarrow> x = NaN"

fun js_neg :: "js_float \<Rightarrow> js_float" where
  "js_neg (Fin a) = Fin (- a)"
| "js_neg PInf = NInf"
| "js_neg NInf = PInf"
| "js_neg NaN = NaN"

fun js_add :: "js_float \<Rightarrow> js_float \<Rightarrow> js_float" where
  "js_add (Fin a) (Fin b) = Fin (a + b)"
| "js_add NaN _ = NaN"
| "js_add _ NaN = NaN"
| "js_add PInf NInf = NaN"
| "js_add NInf PInf = NaN"
| "js_add PInf _ = PInf"
| "js_add NInf _ = NInf"
| "js_add (Fin _) y = y"

definition js_sub :: "js_float \<Rightarrow> js_float \<Rightarrow> js_float" where
  "js_sub x y = js_add x (js_neg y)"

text \<open>The sign of a non-NaN operand, for the products and quotients of infinities.\<close>

fun js_pos :: "js_float \<Rightarrow> bool" where
  "js_pos (Fin a) = (0 < a)"
| "js_pos PInf = True"
| "js_pos NInf = False"
| "js_pos NaN = False"

definition js_inf_signed :: "bool \<Rightarrow> js_float" where
  "js_inf_signed p = (if p then PInf else NInf)"

fun js_mul :: "js_float \<Rightarrow> js_float \<Rightarrow> js_float" where
  "js_mul (Fin a) (Fin b) = Fin (a * b)"
| "js_mul NaN _ = NaN"
| "js_mul _ NaN = NaN"
| "js_mul (Fin a) y = (if a = 0 then NaN else js_inf_signed ((0 < a) = js_pos y))"
| "js_mul x (Fin b) = (if b = 0 then NaN else js_inf_signed (js_pos x = (0 < b)))"
| "js_mul x y = js_inf_signed (js_pos x = js_pos y)"

fun js_div :: "js_float \<Rightarrow> js_float \<Rightarrow> js_float" where
  "js_div (Fin a) (Fin b) =
     (if b \<noteq> 0 then Fin (a / b) else if a = 0 then NaN else js_inf_signed (0 < a))"
| "js_div NaN _ = NaN"
| "js_div _ NaN = NaN"
| "js_div (Fin a) _ = Fin 0"
| "js_div x (Fin b) = js_inf_signed (js_pos x = (0 \<le> b))"
| "js_div _ _ = NaN"

fun js_sin :: "js_float \<Rightarrow> js_float" where
  "js_sin (Fin a) = Fin (sin a)"
| "js_sin _ = NaN"

fun js_cos :: "js_float \<Rightarrow> js_float" where
  "js_cos (Fin a) = Fin (cos a)"
| "js_cos _ = NaN"

fun js_sqrt :: "js_float \<Rightarrow> js_float" where
  "js_sqrt (Fin a) = (if 0 \<le> a then Fin (sqrt a) else NaN)"
| "js_sqrt PInf = PInf"
| "js_sqrt _ = NaN"

text \<open>\<open>Math.atan2\<close> with the special values of ECMAScript 21.3.2.9.\<close>

fun js_atan2_f :: "js_float \<Rightarrow> js_float \<Rightarrow> js_float" where
  "js_atan2_f (Fin y) (Fin x) = Fin (js_atan2 y x)"
| "js_atan2_f NaN _ = NaN"
| "js_atan2_f _ NaN = NaN"
| "js_atan2_f (Fin y) PInf = Fin 0"
| "js_atan2_f (Fin y) NInf = Fin (if 0 \<le> y then pi else - pi)"
| "js_atan2_f PInf (Fin x) = Fin (pi / 2)"
| "js_atan2_f NInf (Fin x) = Fin (- (pi / 2))"
| "js_atan2_f PInf PInf = Fin (pi / 4)"
| "js_atan2_f PInf NInf = Fin (3 * pi / 4)"
| "js_atan2_f NInf PInf = Fin (- (pi / 4))"
| "js_atan2_f NInf NInf = Fin (- (3 * pi / 4))"

text \<open>\<open>a < b\<close> on numbers: false as soon as one side is NaN.\<close>

fun js_less :: "js_float \<Rightarrow> js_float \<Rightarrow> bool" where
  "js_less (Fin a) (Fin b) = (a < b)"
| "js_less NaN _ = False"
| "js_less _ NaN = False"
| "js_less NInf y = (y \<noteq> NInf)"
| "js_less x PInf = (x \<noteq> PInf)"
| "js_less _ _ = False"

text \<open>
  \<open>x || d\<close> on a number value: \<open>0\<close> and NaN are falsy.  (The object
  literals of the sources hold finite numbers only, see
  \<^const>\<open>js_num_or\<close>.)
\<close>

definition js_truthy_num :: "js_float \<Rightarrow> bool" where
  "js_truthy_num x \<longleftrightarrow> x \<noteq> NaN \<and> x \<noteq> Fin 0"

lemma js_fin_ops [simp, js_simps]:
  "js_sub (Fin a) (Fin b) = Fin (a - b)"
  "js_isNaN (Fin a) = False"
  "js_isNaN NaN = True"
  by (simp_all add: js_sub_def js_isNaN_def)

lemma js_nan_absorbs [simp, js_simps]:
  "js_add x NaN = NaN" "js_mul x NaN = NaN" "js_div x NaN = NaN" "js_sub x NaN = NaN"
  "js_sub NaN x = NaN" "js_atan2_f x NaN = NaN"
  by (cases x; simp add: js_sub_def)+

lemma js_nonfinite_ops [js_simps]:
  "\<not> js_finite x \<or> \<not> js_finite y \<Longrightarrow> \<not> js_finite (js_sub x y)"
  "c \<noteq> 0 \<Longrightarrow> \<not> js_finite x \<Longrightarrow> \<not> js_finite (js_mul x (Fin c))"
  "c \<noteq> 0 \<Longrightarrow> \<not> js_finite x \<Longrightarrow> \<not> js_finite (js_div x (Fin c))"
  "\<not> js_finite x \<Longrightarrow> js_sin x = NaN"
  "\<not> js_finite x \<Longrightarrow> js_cos x = NaN"
  by (cases x; cases y; simp add: js_sub_def js_inf_signed_def)+

lemma js_nan_left [simp, js_simps]:
  "js_add NaN y = NaN" "js_mul NaN y = NaN" "js_div NaN y = NaN" "js_sqrt NaN = NaN"
  "js_atan2_f NaN y = NaN"
  by simp_all

text \<open>A non-finite operand never gives back a finite sine or cosine.\<close>

lemma js_sin_cos_Fin_iff [simp]:
  "js_sin x = Fin r \<longleftrightarrow> (\<exists>a. x = Fin a \<and> r = sin a)"
  "js_cos x = Fin r \<longleftrightarrow> (\<exists>a. x = Fin a \<and> r = cos a)"
  by (cases x; auto)+

end
