(* ===== verification/Geo.thy ===== *)
theory Geo
  imports JsFloat
begin

text \<open>
  The Haversine great-circle distance of \<open>src/app/carbon-tracker/page.tsx\<close>
  (\<open>calculateDistance\<close>, lines 49--59).  The haversine term \<open>a\<close> is its own
  definition so that the bound \<open>0 \<le> a \<le> 1\<close>, which makes both square roots
  of the source real-valued, can be stated about it.  Angles are in degrees as
  in the source and converted with \<open>x * Math.PI / 180\<close>.
\<close>

definition haversine_a :: "degrees \<Rightarrow> degrees \<Rightarrow> degrees \<Rightarrow> degrees \<Rightarrow> real" where
  "haversine_a lat1 lng1 lat2 lng2 =
     (let dLat = ((lat2 - lat1) * pi) / 180;
          dLng = ((lng2 - lng1) * pi) / 180
      in sin (dLat / 2) * sin (dLat / 2) +
         cos ((lat1 * pi) / 180) * cos ((lat2 * pi) / 180) * sin (dLng / 2) * sin (dLng / 2))"

definition calculateDistance :: "degrees \<Rightarrow> degrees \<Rightarrow> degrees \<Rightarrow> degrees \<Rightarrow> km" where
  "calculateDistance lat1 lng1 lat2 lng2 =
     (let R = 6371;
          a = haversine_a lat1 lng1 lat2 lng2;
          c = 2 * js_atan2 (sqrt a) (sqrt (1 - a))
      in R * c)"

text \<open>
  The same expression read literally over JavaScript numbers
  (\<^typ>\<open>js_float\<close>), operator by operator as lines 51--58 write it.  It is
  what the page evaluates on the coordinates it holds, which may be infinite
  (the coordinate input rejects only NaN).
\<close>

definition calculateDistance_js :: "js_float \<Rightarrow> js_float \<Rightarrow> js_float \<Rightarrow> js_float \<Rightarrow> js_float" where
  "calculateDistance_js lat1 lng1 lat2 lng2 =
     (let R = Fin 6371;
          dLat = js_div (js_mul (js_sub lat2 lat1) (Fin pi)) (Fin 180);
          dLng = js_div (js_mul (js_sub lng2 lng1) (Fin pi)) (Fin 180);
          a = js_add
                (js_mul (js_sin (js_div dLat (Fin 2))) (js_sin (js_div dLat (Fin 2))))
                (js_mul (js_mul (js_mul
                   (js_cos (js_div (js_mul lat1 (Fin pi)) (Fin 180)))
                   (js_cos (js_div (js_mul lat2 (Fin pi)) (Fin 180))))
                   (js_sin (js_div dLng (Fin 2)))) (js_sin (js_div dLng (Fin 2))));
          c = js_mul (Fin 2) (js_atan2_f (js_sqrt a) (js_sqrt (js_sub (Fin 1) a)))
      in js_mul R c)"

subsection \<open>The haversine term\<close>

lemma sin_half_swap:
  "sin ((((a - b) * pi) / 180) / 2) = - sin ((((b - a) * pi) / 180) / 2)"
proof -
  have "(((a - b) * pi) / 180) / 2 = - ((((b - a) * pi) / 180) / 2)"
    by (simp add: field_simps)
  then show ?thesis by (simp only: sin_minus)
qed

lemma haversine_a_sym: "haversine_a lat2 lng2 lat1 lng1 = haversine_a lat1 lng1 lat2 lng2"
  unfolding haversine_a_def Let_def sin_half_swap [of lat1 lat2] sin_half_swap [of lng1 lng2]
  by (simp only: minus_mult_minus mult_minus_right mult_minus_left mult.commute mult.left_commute)

lemma haversine_a_self: "haversine_a lat lng lat lng = 0"
  by (simp add: haversine_a_def)

lemma haversine_lat_part:
  "sin ((((lat2 - lat1) * pi) / 180) / 2) * sin ((((lat2 - lat1) * pi) / 180) / 2) =
   (1 - cos ((lat2 * pi) / 180) * cos ((lat1 * pi) / 180)
      - sin ((lat2 * pi) / 180) * sin ((lat1 * pi) / 180)) / 2"
proof -
  have eq: "((lat2 - lat1) * pi) / 180 = (lat2 * pi) / 180 - (lat1 * pi) / 180"
    by (simp add: algebra_simps diff_divide_distrib)
  show ?thesis unfolding eq sin_half_sq_eq cos_diff by simp
qed

lemma haversine_a_bounds [trig_bounds]:
  "0 \<le> haversine_a lat1 lng1 lat2 lng2 \<and> haversine_a lat1 lng1 lat2 lng2 \<le> 1"
proof -
  define p1 p2 where "p1 = (lat1 * pi) / 180" and "p2 = (lat2 * pi) / 180"
  define q where "q = sin ((((lat2 - lat1) * pi) / 180) / 2) * sin ((((lat2 - lat1) * pi) / 180) / 2)"
  define s where "s = sin ((((lng2 - lng1) * pi) / 180) / 2) * sin ((((lng2 - lng1) * pi) / 180) / 2)"
  define p where "p = cos p1 * cos p2"
  have a: "haversine_a lat1 lng1 lat2 lng2 = q + p * s"
    by (simp add: haversine_a_def Let_def q_def s_def p_def p1_def p2_def mult.assoc)
  have q: "q = (1 - cos p2 * cos p1 - sin p2 * sin p1) / 2"
    unfolding q_def p1_def p2_def by (rule haversine_lat_part)
  have qp: "q + p = (1 + cos (p1 + p2)) / 2"
    by (simp add: q p_def cos_add field_simps)
  have "0 \<le> q + p \<and> q + p \<le> 1"
    unfolding qp by (rule half_one_plus_bounds) simp_all
  moreover have "0 \<le> q" "q \<le> 1" unfolding q_def by (rule sq_self_bounds)+
  moreover have "0 \<le> s" "s \<le> 1" unfolding s_def by (rule sq_self_bounds)+
  ultimately show ?thesis unfolding a by (intro convex_between) simp_all
qed

lemma deg_to_rad_half_range:
  assumes "-90 < d" "d < 90"
  shows "-(pi / 2) < (d * pi) / 180 \<and> (d * pi) / 180 < pi / 2"
proof -
  have "pi * (-90) < pi * d" by (rule mult_strict_left_mono) (use assms in simp_all)
  moreover have "pi * d < pi * 90" by (rule mult_strict_left_mono) (use assms in simp_all)
  ultimately show ?thesis by (simp add: field_simps)
qed

lemma half_rad_range:
  assumes "\<bar>d\<bar> < 360"
  shows "- pi < (((d * pi) / 180) / 2) \<and> (((d * pi) / 180) / 2) < pi"
proof -
  have "pi * (-360) < pi * d" by (rule mult_strict_left_mono) (use assms in simp_all)
  moreover have "pi * d < pi * 360" by (rule mult_strict_left_mono) (use assms in simp_all)
  ultimately show ?thesis by (simp add: field_simps)
qed

lemma haversine_a_eq_zero_iff:
  assumes lat1: "-90 < lat1" "lat1 < 90" and lat2: "-90 < lat2" "lat2 < 90"
    and lng: "\<bar>lng2 - lng1\<bar> < 360"
  shows "haversine_a lat1 lng1 lat2 lng2 = 0 \<longleftrightarrow> lat1 = lat2 \<and> lng1 = lng2"
proof -
  define x where "x = (((lat2 - lat1) * pi) / 180) / 2"
  define y where "y = (((lng2 - lng1) * pi) / 180) / 2"
  define p where "p = cos ((lat1 * pi) / 180) * cos ((lat2 * pi) / 180)"
  have a: "haversine_a lat1 lng1 lat2 lng2 = sin x * sin x + p * (sin y * sin y)"
    by (simp add: haversine_a_def Let_def x_def y_def p_def mult.assoc)
  have "0 < cos ((lat1 * pi) / 180)" "0 < cos ((lat2 * pi) / 180)"
    using deg_to_rad_half_range [OF lat1] deg_to_rad_half_range [OF lat2]
    by (auto intro!: cos_gt_zero_pi)
  then have p: "0 < p" by (simp add: p_def)
  have "\<bar>lat2 - lat1\<bar> < 360" using lat1 lat2 by arith
  then have x_range: "- pi < x \<and> x < pi" unfolding x_def by (rule half_rad_range)
  have y_range: "- pi < y \<and> y < pi" unfolding y_def using lng by (rule half_rad_range)
  have "sin x * sin x + p * (sin y * sin y) = 0 \<longleftrightarrow> sin x = 0 \<and> sin y = 0"
    using p by (auto simp: add_nonneg_eq_0_iff)
  also have "\<dots> \<longleftrightarrow> x = 0 \<and> y = 0"
    using x_range y_range sin_eq_0_pi by auto
  also have "\<dots> \<longleftrightarrow> lat1 = lat2 \<and> lng1 = lng2"
    by (auto simp: x_def y_def)
  finally show ?thesis by (simp add: a)
qed

subsection \<open>The distance\<close>

lemma calculateDistance_alt:
  "calculateDistance lat1 lng1 lat2 lng2 =
     6371 * (2 * js_atan2 (sqrt (haversine_a lat1 lng1 lat2 lng2))
                          (sqrt (1 - haversine_a lat1 lng1 lat2 lng2)))"
  by (simp add: calculateDistance_def Let_def)

lemma calculateDistance_atan2_range:
  "0 \<le> js_atan2 (sqrt (haversine_a lat1 lng1 lat2 lng2)) (sqrt (1 - haversine_a lat1 lng1 lat2 lng2))
   \<and> js_atan2 (sqrt (haversine_a lat1 lng1 lat2 lng2)) (sqrt (1 - haversine_a lat1 lng1 lat2 lng2)) \<le> pi / 2"
  using haversine_a_bounds [of lat1 lng1 lat2 lng2] by (intro js_atan2_nonneg_range) simp_all

subsection \<open>The literal reading agrees with the real-valued one\<close>

lemma calculateDistance_js_a_Fin:
  "js_add
     (js_mul (js_sin (js_div (js_div (js_mul (js_sub (Fin lat2) (Fin lat1)) (Fin pi)) (Fin 180)) (Fin 2)))
             (js_sin (js_div (js_div (js_mul (js_sub (Fin lat2) (Fin lat1)) (Fin pi)) (Fin 180)) (Fin 2))))
     (js_mul (js_mul (js_mul
        (js_cos (js_div (js_mul (Fin lat1) (Fin pi)) (Fin 180)))
        (js_cos (js_div (js_mul (Fin lat2) (Fin pi)) (Fin 180))))
        (js_sin (js_div (js_div (js_mul (js_sub (Fin lng2) (Fin lng1)) (Fin pi)) (Fin 180)) (Fin 2))))
        (js_sin (js_div (js_div (js_mul (js_sub (Fin lng2) (Fin lng1)) (Fin pi)) (Fin 180)) (Fin 2))))
   = Fin (haversine_a lat1 lng1 lat2 lng2)"
  by (simp add: haversine_a_def Let_def)

lemma haversine_js_nan_lat:
  "\<not> js_finite dLat \<Longrightarrow>
   js_add (js_mul (js_sin (js_div dLat (Fin 2))) (js_sin (js_div dLat (Fin 2)))) z = NaN"
  by (simp add: js_nonfinite_ops)

lemma haversine_js_nan_lng:
  "\<not> js_finite dLng \<Longrightarrow> js_add y (js_mul w (js_sin (js_div dLng (Fin 2)))) = NaN"
  by (simp add: js_nonfinite_ops)

lemma degree_diff_js_nonfinite:
  "\<not> js_finite x \<or> \<not> js_finite y \<Longrightarrow>
   \<not> js_finite (js_div (js_mul (js_sub x y) (Fin pi)) (Fin 180))"
  by (intro js_nonfinite_ops) simp_all

subsection \<open>Properties of the distance\<close>

text \<open>
  C6.  The distance is symmetric under swapping the two coordinates.
\<close>

theorem calculateDistance_symmetric:
  "calculateDistance lat2 lng2 lat1 lng1 = calculateDistance lat1 lng1 lat2 lng2"
  by (simp add: calculateDistance_alt haversine_a_sym)

text \<open>
  The distance from a coordinate to itself is exactly zero.
\<close>

theorem calculateDistance_self_zero:
  "calculateDistance lat lng lat lng = 0"
  by (simp add: calculateDistance_alt haversine_a_self js_atan2_def)


text \<open>
  C8.  Off the poles and for longitudes less than a full turn apart, the
  distance is zero exactly when the two coordinates are equal.
\<close>

theorem calculateDistance_zero_iff:
  assumes "-90 < lat1" "lat1 < 90" "-90 < lat2" "lat2 < 90" "\<bar>lng2 - lng1\<bar> < 360"
  shows "calculateDistance lat1 lng1 lat2 lng2 = 0 \<longleftrightarrow> lat1 = lat2 \<and> lng1 = lng2"
proof -
  have b: "0 \<le> haversine_a lat1 lng1 lat2 lng2" "haversine_a lat1 lng1 lat2 lng2 \<le> 1"
    using haversine_a_bounds by blast+
  have "calculateDistance lat1 lng1 lat2 lng2 = 0 \<longleftrightarrow>
        js_atan2 (sqrt (haversine_a lat1 lng1 lat2 lng2)) (sqrt (1 - haversine_a lat1 lng1 lat2 lng2)) = 0"
    by (simp add: calculateDistance_alt)
  also have "\<dots> \<longleftrightarrow> haversine_a lat1 lng1 lat2 lng2 = 0"
    using b by (simp add: js_atan2_zero_iff)
  also have "\<dots> \<longleftrightarrow> lat1 = lat2 \<and> lng1 = lng2"
    using assms by (rule haversine_a_eq_zero_iff)
  finally show ?thesis .
qed


text \<open>
  A non-finite coordinate (an infinity accepted by the coordinate input)
  makes the distance NaN.
\<close>

theorem calculateDistance_js_nonfinite:
  assumes "\<not> (js_finite lat1 \<and> js_finite lng1 \<and> js_finite lat2 \<and> js_finite lng2)"
  shows "calculateDistance_js lat1 lng1 lat2 lng2 = NaN"
proof -
  let ?dLat = "js_div (js_mul (js_sub lat2 lat1) (Fin pi)) (Fin 180)"
  let ?dLng = "js_div (js_mul (js_sub lng2 lng1) (Fin pi)) (Fin 180)"
  have "\<not> js_finite ?dLat \<or> \<not> js_finite ?dLng"
    using assms degree_diff_js_nonfinite by blast
  then show ?thesis
    unfolding calculateDistance_js_def Let_def
    by (elim disjE) (simp_all only: haversine_js_nan_lat haversine_js_nan_lng js_nan_left js_nan_absorbs not_False_eq_True)
qed

theorem calculateDistance_js_nonfinite_witness:
  "\<not> (js_finite PInf \<and> js_finite (Fin 98.9525) \<and> js_finite (Fin 18.7869) \<and> js_finite (Fin 98.9953))
   \<and> calculateDistance_js PInf (Fin 98.9525) (Fin 18.7869) (Fin 98.9953) = NaN"
proof -
  have h: "\<not> (js_finite PInf \<and> js_finite (Fin 98.9525) \<and> js_finite (Fin 18.7869) \<and> js_finite (Fin 98.9953))"
    by simp
  show ?thesis using h calculateDistance_js_nonfinite [OF h] by blast
qed

theorem calculateDistance_zero_iff_witness:
  "-90 < (18.8022::real) \<and> (18.8022::real) < 90 \<and> -90 < (18.7869::real) \<and> (18.7869::real) < 90
   \<and> \<bar>(98.9953::real) - 98.9525\<bar> < 360
   \<and> calculateDistance 18.8022 98.9525 18.7869 98.9953 \<noteq> 0"
proof -
  have h: "-90 < (18.8022::real)" "(18.8022::real) < 90" "-90 < (18.7869::real)" "(18.7869::real) < 90"
    "\<bar>(98.9953::real) - 98.9525\<bar> < 360" by simp_all
  from calculateDistance_zero_iff [OF h] have
    "calculateDistance 18.8022 98.9525 18.7869 98.9953 = 0 \<longleftrightarrow> False" by simp
  with h show ?thesis by blast
qed

end
