(* ===== verification/Carbon.thy ===== *)
theory Carbon
  imports JsFloat
begin

text \<open>
  \<open>calculateCarbonFootprint\<close> of \<open>src/app/carbon-tracker/page.tsx\<close>
  (lines 61--110) and the \<open>CarbonResult\<close> interface it returns (lines
  25--31).  The two object literals are association lists in source order;
  \<open>obj[mode] || d\<close> is \<^const>\<open>js_num_or\<close>.  The advisory strings are Thai
  text with emoji, so each distinct string of the source is one constructor of
  \<open>advice\<close>; the one string that occurs twice (the walking suggestion) is one
  constructor used twice.
\<close>

datatype advice =
    TryPublicTransit43   \<comment> \<open>line 87: try public transport, 43 percent less carbon\<close>
  | CycleSaves90         \<comment> \<open>line 88: cycling saves 90 percent\<close>
  | WalkSaves100         \<comment> \<open>lines 90, 95: walking is possible, 100 percent less carbon\<close>
  | CyclingGreener       \<comment> \<open>line 93: cycling is greener than transit\<close>
  | GreatChoiceBike      \<comment> \<open>line 98: a very good, green choice\<close>
  | ExcellentNoCarbon    \<comment> \<open>line 100: excellent, no carbon at all\<close>

record CarbonResult =
  distance :: js_float
  carbonFootprint :: js_float
  greenPoints :: real
  travelMode :: string
  recommendations :: "advice list"

definition emissionFactors :: "real js_object" where
  "emissionFactors =
     [(''walking'', 0.0), (''bicycling'', 0.02), (''driving'', 0.21),
      (''transit'', 0.12), (''motorcycle'', 0.15)]"

definition greenPointsMap :: "real js_object" where
  "greenPointsMap =
     [(''walking'', 100), (''bicycling'', 85), (''transit'', 60),
      (''motorcycle'', 40), (''driving'', 25)]"

text \<open>The \<open>if\<close>/\<open>else if\<close> chain of lines 85--101, pushes in source order.\<close>

definition carbon_recommendations :: "string \<Rightarrow> js_float \<Rightarrow> advice list" where
  "carbon_recommendations mode d =
     (if mode = ''driving'' then
        [TryPublicTransit43, CycleSaves90] @ (if js_less d (Fin 2) then [WalkSaves100] else [])
      else if mode = ''transit'' then
        [CyclingGreener] @ (if js_less d (Fin 3) then [WalkSaves100] else [])
      else if mode = ''bicycling'' then [GreatChoiceBike]
      else if mode = ''walking'' then [ExcellentNoCarbon]
      else [])"

definition calculateCarbonFootprint :: "js_float \<Rightarrow> string \<Rightarrow> CarbonResult" where
  "calculateCarbonFootprint d mode =
     (let carbonPerKm = js_num_or (map_of emissionFactors mode) 0.21;
          footprint = js_mul (js_mul d (Fin carbonPerKm)) (Fin 1000);
          points = js_num_or (map_of greenPointsMap mode) 25
      in \<lparr>distance = d, carbonFootprint = footprint,
          greenPoints = points, travelMode = mode,
          recommendations = carbon_recommendations mode d\<rparr>)"

text \<open>The five values of the mode buttons (lines 125--131), in source order.\<close>

definition travelModes :: "string list" where
  "travelModes = [''walking'', ''bicycling'', ''transit'', ''motorcycle'', ''driving'']"

subsection \<open>Evaluation lemmas\<close>

lemma carbonPerKm_cases:
  "js_num_or (map_of emissionFactors mode) dflt =
     (if mode = ''bicycling'' then 0.02 else if mode = ''transit'' then 0.12
      else if mode = ''motorcycle'' then 0.15 else if mode = ''driving'' then 0.21 else dflt)"
  by (simp add: emissionFactors_def)

lemma greenPoints_cases:
  "js_num_or (map_of greenPointsMap mode) dflt =
     (if mode = ''walking'' then 100 else if mode = ''bicycling'' then 85
      else if mode = ''transit'' then 60 else if mode = ''motorcycle'' then 40
      else if mode = ''driving'' then 25 else dflt)"
  by (simp add: greenPointsMap_def)

lemma calculateCarbonFootprint_fields [simp]:
  "CarbonResult.distance (calculateCarbonFootprint d m) = d"
  "carbonFootprint (calculateCarbonFootprint d m) =
     js_mul (js_mul d (Fin (js_num_or (map_of emissionFactors m) 0.21))) (Fin 1000)"
  "greenPoints (calculateCarbonFootprint d m) = js_num_or (map_of greenPointsMap m) 25"
  "travelMode (calculateCarbonFootprint d m) = m"
  "recommendations (calculateCarbonFootprint d m) = carbon_recommendations m d"
  by (simp_all add: calculateCarbonFootprint_def Let_def)

lemma carbonPerKm_pos: "0 < js_num_or (map_of emissionFactors mode) 0.21"
  unfolding carbonPerKm_cases by simp

lemmas carbon_evals = carbonPerKm_cases greenPoints_cases carbon_recommendations_def

subsection \<open>Properties of the footprint calculation\<close>

text \<open>
  C1.  Walking is charged at the driving rate: the walking factor \<open>0.0\<close> is
  falsy, so \<open>emissionFactors[mode] || 0.21\<close> replaces it by \<open>0.21\<close> and a
  walk of \<open>d\<close> km is reported as \<open>d * 210\<close> grams, not the \<open>0\<close> the
  table and the specification intend.
\<close>

theorem walking_charged_at_driving_rate:
  "carbonFootprint (calculateCarbonFootprint (Fin d) ''walking'') = Fin (d * 210)"
  by (simp add: carbonPerKm_cases)


text \<open>
  A non-negative distance gives a non-negative footprint, for every mode.
\<close>

theorem carbonFootprint_nonneg:
  assumes "0 \<le> d"
  shows "\<exists>c. carbonFootprint (calculateCarbonFootprint (Fin d) mode) = Fin c \<and> 0 \<le> c"
  using assms carbonPerKm_pos [of mode] by simp

theorem carbonFootprint_nonneg_witness:
  "0 \<le> (4.75::real)
   \<and> (\<exists>c. carbonFootprint (calculateCarbonFootprint (Fin 4.75) ''transit'') = Fin c \<and> 0 \<le> c)"
  using carbonFootprint_nonneg [of "4.75" "''transit''"] by simp

text \<open>
  C3.  Driving is charged \<open>d * 0.21 * 1000\<close> grams, the motorcycle and
  transit factors likewise their table entries.
\<close>

theorem motorised_footprints:
  "carbonFootprint (calculateCarbonFootprint (Fin d) ''driving'') = Fin (d * 0.21 * 1000)
   \<and> carbonFootprint (calculateCarbonFootprint (Fin d) ''transit'') = Fin (d * 0.12 * 1000)
   \<and> carbonFootprint (calculateCarbonFootprint (Fin d) ''motorcycle'') = Fin (d * 0.15 * 1000)
   \<and> carbonFootprint (calculateCarbonFootprint (Fin d) ''bicycling'') = Fin (d * 0.02 * 1000)"
  by (simp add: carbonPerKm_cases)

text \<open>
  C4.  The advice table: driving always gets the transit and cycling
  suggestions and the walking one below 2 km; transit gets the cycling one and
  the walking one below 3 km; bicycling and walking one message each; the
  motorcycle gets none.
\<close>

theorem recommendations_table:
  "recommendations (calculateCarbonFootprint (Fin d) ''driving'') =
     [TryPublicTransit43, CycleSaves90] @ (if d < 2 then [WalkSaves100] else [])
   \<and> recommendations (calculateCarbonFootprint (Fin d) ''transit'') =
     [CyclingGreener] @ (if d < 3 then [WalkSaves100] else [])
   \<and> recommendations (calculateCarbonFootprint (Fin d) ''bicycling'') = [GreatChoiceBike]
   \<and> recommendations (calculateCarbonFootprint (Fin d) ''walking'') = [ExcellentNoCarbon]
   \<and> recommendations (calculateCarbonFootprint (Fin d) ''motorcycle'') = []"
  by (simp add: carbon_recommendations_def)



end
