(* ===== verification/CoordInput.thy ===== *)
theory CoordInput
  imports JsFloat
begin

text \<open>
  The coordinate text boxes of \<open>src/app/carbon-tracker/page.tsx\<close>: the
  displayed value \<open>`${lat.toFixed(4)}, ${lng.toFixed(4)}`\<close> (lines 200,
  240) and the \<open>onChange\<close> handlers (lines 201--210, 241--250) that split the
  edited text at commas, trim both parts, read them with
  \<open>Number.parseFloat\<close> and store them unless one is NaN.  The ECMAScript
  library functions the handlers call (\<open>String.prototype.split\<close> with a
  one-character separator, \<open>trim\<close>, \<open>parseFloat\<close>, \<open>toFixed\<close>) are
  modelled here from the ECMAScript specification on strings of ASCII
  characters; white space beyond ASCII (no-break space, BOM, Unicode spaces)
  is not modelled.
\<close>

record Location =
  name :: string
  lat :: js_float
  lng :: js_float

subsection \<open>String functions of the runtime\<close>

definition js_is_ws :: "char \<Rightarrow> bool" where
  "js_is_ws c \<longleftrightarrow> c \<in> {CHR '' '', CHR 0x09, CHR 0x0A, CHR 0x0B, CHR 0x0C, CHR 0x0D}"

definition js_trim :: "string \<Rightarrow> string" where
  "js_trim s = rev (dropWhile js_is_ws (rev (dropWhile js_is_ws s)))"

fun js_split :: "char \<Rightarrow> string \<Rightarrow> string list" where
  "js_split c [] = [[]]"
| "js_split c (x # xs) =
     (if x = c then [] # js_split c xs
      else (case js_split c xs of w # ws \<Rightarrow> (x # w) # ws | [] \<Rightarrow> [[x]]))"

definition is_digit :: "char \<Rightarrow> bool" where
  "is_digit c \<longleftrightarrow> 48 \<le> (of_char c :: nat) \<and> (of_char c :: nat) \<le> 57"

definition digit_of :: "char \<Rightarrow> nat" where
  "digit_of c = of_char c - 48"

definition digits_value :: "string \<Rightarrow> nat" where
  "digits_value ds = foldl (\<lambda>n c. 10 * n + digit_of c) 0 ds"

definition pow10 :: "int \<Rightarrow> real" where
  "pow10 e = (if 0 \<le> e then 10 ^ nat e else 1 / 10 ^ nat (- e))"

text \<open>
  \<open>StrUnsignedDecimalLiteral\<close> without \<open>Infinity\<close>: the longest prefix
  \<open>digits [. digits]\<close> or \<open>. digits\<close>, as (mantissa, fraction digits,
  rest), or \<^term>\<open>None\<close> when no prefix is a literal.
\<close>

definition str_mantissa :: "string \<Rightarrow> (nat \<times> nat \<times> string) option" where
  "str_mantissa s =
     (let d1 = takeWhile is_digit s; r1 = dropWhile is_digit s
      in case r1 of
           c # r2 \<Rightarrow>
             (if c = CHR ''.'' then
                (let d2 = takeWhile is_digit r2; r3 = dropWhile is_digit r2
                 in if d1 = [] \<and> d2 = [] then None
                    else Some (digits_value (d1 @ d2), length d2, r3))
              else if d1 = [] then None else Some (digits_value d1, 0, r1))
         | [] \<Rightarrow> if d1 = [] then None else Some (digits_value d1, 0, []))"

text \<open>An \<open>ExponentPart\<close> if the rest starts with one, else exponent 0.\<close>

definition str_exponent :: "string \<Rightarrow> int" where
  "str_exponent s =
     (case s of
        c # r \<Rightarrow>
          (if c = CHR ''e'' \<or> c = CHR ''E'' then
             (let (sg, r') = (case r of
                                x # r'' \<Rightarrow> (if x = CHR ''+'' then (1, r'')
                                            else if x = CHR ''-'' then (-1, r'') else (1, r))
                              | [] \<Rightarrow> (1, r));
                  ds = takeWhile is_digit r'
              in if ds = [] then 0 else sg * int (digits_value ds))
           else 0)
      | [] \<Rightarrow> 0)"

text \<open>
  The decimal value rounded to a double: beyond the largest finite double
  (plus half an ulp) it is an infinity; below, the real value itself.
\<close>

definition js_double_of :: "bool \<Rightarrow> real \<Rightarrow> js_float" where
  "js_double_of neg v =
     (if (2::real) ^ 1024 - 2 ^ 970 \<le> v then (if neg then NInf else PInf)
      else Fin (if neg then - v else v))"

definition parseFloat :: "string \<Rightarrow> js_float" where
  "parseFloat input =
     (let s = dropWhile js_is_ws input;
          (neg, s') = (case s of
                         c # r \<Rightarrow> (if c = CHR ''+'' then (False, r)
                                   else if c = CHR ''-'' then (True, r) else (False, s))
                       | [] \<Rightarrow> (False, s))
      in if take 8 s' = ''Infinity'' then (if neg then NInf else PInf)
         else case str_mantissa s' of
                None \<Rightarrow> NaN
              | Some (m, k, rest) \<Rightarrow> js_double_of neg (real m * pow10 (str_exponent rest - int k)))"

subsection \<open>\<open>Number.prototype.toFixed\<close>\<close>

definition char_of_digit :: "nat \<Rightarrow> char" where
  "char_of_digit d = char_of (48 + d)"

fun nat_digits :: "nat \<Rightarrow> string" where
  "nat_digits n = (if n < 10 then [char_of_digit n] else nat_digits (n div 10) @ [char_of_digit (n mod 10)])"

text \<open>
  \<open>x.toFixed(f)\<close>: the integer \<open>n\<close> nearest to \<open>|x| * 10^f\<close>, ties to the
  larger, printed with at least one integer digit and \<open>f\<close> fraction digits,
  after a minus sign for \<open>x < 0\<close>.  For \<open>|x| \<ge> 10^21\<close> the source's
  runtime falls back to \<open>Number.prototype.toString\<close>, which is not modelled:
  that branch is \<^term>\<open>None\<close>.
\<close>

definition toFixed :: "nat \<Rightarrow> js_float \<Rightarrow> string option" where
  "toFixed f x =
     (case x of
        NaN \<Rightarrow> Some ''NaN''
      | PInf \<Rightarrow> Some ''Infinity''
      | NInf \<Rightarrow> Some ''-Infinity''
      | Fin v \<Rightarrow>
          (if 10 ^ 21 \<le> \<bar>v\<bar> then None
           else
             (let s = (if v < 0 then ''-'' else '''');
                  n = nat \<lfloor>\<bar>v\<bar> * 10 ^ f + 1 / 2\<rfloor>;
                  m = nat_digits n;
                  m' = (if f = 0 then m else replicate (f + 1 - length m) CHR ''0'' @ m);
                  k = length m'
              in Some (if f = 0 then s @ m'
                       else s @ take (k - f) m' @ ''.'' @ drop (k - f) m'))))"

subsection \<open>The coordinate input\<close>

text \<open>The displayed text, lines 200 and 240.\<close>

definition coord_text :: "Location \<Rightarrow> string option" where
  "coord_text loc =
     (case (toFixed 4 (lat loc), toFixed 4 (lng loc)) of
        (Some a, Some b) \<Rightarrow> Some (a @ '', '' @ b)
      | _ \<Rightarrow> None)"

text \<open>The \<open>onChange\<close> handler, lines 201--210 (and 241--250 for the end point).\<close>

definition coord_input_change :: "Location \<Rightarrow> string \<Rightarrow> Location" where
  "coord_input_change loc text =
     (let coords = js_split CHR '','' text
      in if length coords = 2 then
           (let la = parseFloat (js_trim (coords ! 0));
                ln = parseFloat (js_trim (coords ! 1))
            in if \<not> js_isNaN la \<and> \<not> js_isNaN ln then loc\<lparr>lat := la, lng := ln\<rparr> else loc)
         else loc)"

text \<open>
  The abstract reading of a printed coordinate: \<open>|v|\<close> rounded to \<open>f\<close>
  decimals, ties away from zero, with the sign of \<open>v\<close>.
\<close>

definition js_round_fixed :: "nat \<Rightarrow> real \<Rightarrow> real" where
  "js_round_fixed f v = (if v < 0 then - 1 else 1) * real (nat \<lfloor>\<bar>v\<bar> * 10 ^ f + 1 / 2\<rfloor>) / 10 ^ f"

subsection \<open>Lemmas: digits, printing and parsing\<close>

declare nat_digits.simps [simp del]


lemma digits_value_acc:
  "foldl (\<lambda>n c. 10 * n + digit_of c) a ds = a * 10 ^ length ds + digits_value ds"
proof (induction ds arbitrary: a)
  case Nil
  then show ?case by (simp add: digits_value_def)
next
  case (Cons c ds)
  have "foldl (\<lambda>n c. 10 * n + digit_of c) a (c # ds)
        = (10 * a + digit_of c) * 10 ^ length ds + digits_value ds"
    by (simp add: Cons.IH)
  also have "digits_value (c # ds) = digit_of c * 10 ^ length ds + digits_value ds"
    using Cons.IH [of "digit_of c"] by (simp add: digits_value_def)
  ultimately show ?case by (simp add: algebra_simps)
qed

lemma digits_value_append:
  "digits_value (xs @ ys) = digits_value xs * 10 ^ length ys + digits_value ys"
proof -
  have "digits_value (xs @ ys) = foldl (\<lambda>n c. 10 * n + digit_of c) (digits_value xs) ys"
    by (simp add: digits_value_def)
  then show ?thesis by (simp only: digits_value_acc)
qed

lemma digit_char_of_digit:
  assumes "d < 10"
  shows "digit_of (char_of_digit d) = d" "is_digit (char_of_digit d)"
  using assms by (simp_all add: digit_of_def char_of_digit_def is_digit_def)

lemma nat_digits_props:
  "(\<forall>c \<in> set (nat_digits n). is_digit c) \<and> digits_value (nat_digits n) = n \<and> nat_digits n \<noteq> []"
proof (induction n rule: nat_digits.induct)
  case (1 n)
  show ?case
  proof (cases "n < 10")
    case True
    then show ?thesis
      by (simp add: nat_digits.simps [of n] digit_char_of_digit digits_value_def)
  next
    case False
    with "1.IH" have ih: "(\<forall>c \<in> set (nat_digits (n div 10)). is_digit c)"
      "digits_value (nat_digits (n div 10)) = n div 10" by simp_all
    have "digits_value (nat_digits (n div 10) @ [char_of_digit (n mod 10)]) = n"
      using ih(2) by (simp add: digits_value_append digit_char_of_digit digits_value_def)
    with False ih(1) show ?thesis
      by (simp add: nat_digits.simps [of n] digit_char_of_digit)
  qed
qed

lemma digits_value_zeros: "digits_value (replicate k CHR ''0'' @ m) = digits_value m"
  by (induction k) (simp_all add: digits_value_def digit_of_def)

lemma toFixed_Fin_shape:
  assumes "0 < f" "\<bar>v\<bar> < 10 ^ 21"
  shows "\<exists>A B. toFixed f (Fin v) = Some ((if v < 0 then ''-'' else '''') @ A @ ''.'' @ B)
        \<and> A \<noteq> [] \<and> length B = f \<and> (\<forall>c \<in> set (A @ B). is_digit c)
        \<and> digits_value (A @ B) = nat \<lfloor>\<bar>v\<bar> * 10 ^ f + 1 / 2\<rfloor>"
proof -
  define n where "n = nat \<lfloor>\<bar>v\<bar> * 10 ^ f + 1 / 2\<rfloor>"
  define m' where "m' = replicate (f + 1 - length (nat_digits n)) CHR ''0'' @ nat_digits n"
  define k where "k = length m'"
  have k: "f + 1 \<le> k" by (simp add: k_def m'_def)
  have dig: "\<forall>c \<in> set m'. is_digit c"
    using nat_digits_props [of n] by (auto simp: m'_def is_digit_def)
  have val: "digits_value m' = n"
    using nat_digits_props [of n] by (simp add: m'_def digits_value_zeros)
  have A: "take (k - f) m' \<noteq> []" using k by (cases m') (simp_all add: k_def)
  have B: "length (drop (k - f) m') = f" using k by (simp add: k_def)
  have "toFixed f (Fin v) = Some ((if v < 0 then ''-'' else '''') @ take (k - f) m' @ ''.'' @ drop (k - f) m')"
    using assms by (simp add: toFixed_def Let_def n_def m'_def k_def)
  then show ?thesis using A B dig val
    by (intro exI [of _ "take (k - f) m'"] exI [of _ "drop (k - f) m'"]) (simp add: n_def)
qed

lemma takeWhile_digits_dot:
  "\<forall>c \<in> set A. is_digit c \<Longrightarrow> takeWhile is_digit (A @ CHR ''.'' # B) = A"
  "\<forall>c \<in> set A. is_digit c \<Longrightarrow> dropWhile is_digit (A @ CHR ''.'' # B) = CHR ''.'' # B"
  by (simp_all add: takeWhile_append2 dropWhile_append2 is_digit_def)

lemma str_mantissa_fixed:
  assumes "A \<noteq> []" "\<forall>c \<in> set (A @ B). is_digit c"
  shows "str_mantissa (A @ ''.'' @ B) = Some (digits_value (A @ B), length B, [])"
proof -
  have a: "\<forall>c \<in> set A. is_digit c" and b: "\<forall>c \<in> set B. is_digit c" using assms(2) by auto
  have tw: "takeWhile is_digit B = B" and dw: "dropWhile is_digit B = []" using b by simp_all
  show ?thesis using assms(1)
    by (simp add: str_mantissa_def Let_def takeWhile_digits_dot [OF a] tw dw)
qed

lemma digit_not_special:
  "is_digit c \<Longrightarrow> \<not> js_is_ws c \<and> c \<noteq> CHR ''+'' \<and> c \<noteq> CHR ''-'' \<and> c \<noteq> CHR ''I'' \<and> c \<noteq> CHR '',''"
  by (auto simp: is_digit_def js_is_ws_def)

lemma parseFloat_fixed:
  assumes "A \<noteq> []" "\<forall>c \<in> set (A @ B). is_digit c" "sg = '''' \<or> sg = ''-''"
  shows "parseFloat (sg @ A @ ''.'' @ B)
         = js_double_of (sg = ''-'') (real (digits_value (A @ B)) * pow10 (- int (length B)))"
proof -
  obtain a A' where A: "A = a # A'" using assms(1) by (cases A) auto
  have a: "is_digit a" using assms(2) A by simp
  note sp = digit_not_special [OF a]
  have m: "str_mantissa (A @ ''.'' @ B) = Some (digits_value (A @ B), length B, [])"
    using assms(1,2) by (rule str_mantissa_fixed)
  have i: "take 8 (A @ ''.'' @ B) \<noteq> ''Infinity''" using sp A by simp
  have ws: "\<not> js_is_ws CHR ''-''" by (simp add: js_is_ws_def)
  have e: "str_exponent [] = 0" by (simp add: str_exponent_def)
  from assms(3) show ?thesis
  proof
    assume "sg = ''''"
    then show ?thesis using m i sp e unfolding A by (simp add: parseFloat_def Let_def)
  next
    assume "sg = ''-''"
    then show ?thesis using m i ws e sp unfolding A by (simp add: parseFloat_def Let_def)
  qed
qed

lemma js_split_no_sep: "c \<notin> set xs \<Longrightarrow> js_split c xs = [xs]"
  by (induction xs) auto

lemma js_split_append_sep: "c \<notin> set xs \<Longrightarrow> js_split c (xs @ c # ys) = xs # js_split c ys"
  by (induction xs) auto

lemma dropWhile_hd_stop: "xs \<noteq> [] \<Longrightarrow> \<not> P (hd xs) \<Longrightarrow> dropWhile P xs = xs"
  by (cases xs) auto

lemma js_trim_id:
  assumes "xs \<noteq> []" "\<not> js_is_ws (hd xs)" "\<not> js_is_ws (last xs)"
  shows "js_trim xs = xs"
proof -
  have "dropWhile js_is_ws xs = xs" using assms(1,2) by (rule dropWhile_hd_stop)
  moreover have "dropWhile js_is_ws (rev xs) = rev xs"
    using assms(1,3) by (intro dropWhile_hd_stop) (simp_all add: hd_rev)
  ultimately show ?thesis by (simp add: js_trim_def)
qed

lemma js_trim_space: "js_trim (CHR '' '' # xs) = js_trim xs"
  by (simp add: js_trim_def js_is_ws_def)

lemma pow10_neg_nat: "pow10 (- int f) = 1 / 10 ^ f"
  unfolding pow10_def by (cases "f = 0") simp_all

lemma fixed_value_bound:
  assumes "\<bar>v\<bar> < (10::real) ^ 21"
  shows "real (nat \<lfloor>\<bar>v\<bar> * 10 ^ f + 1 / 2\<rfloor>) * pow10 (- int f) < (2::real) ^ 1024 - 2 ^ 970"
proof -
  have n: "real (nat \<lfloor>\<bar>v\<bar> * 10 ^ f + 1 / 2\<rfloor>) \<le> \<bar>v\<bar> * 10 ^ f + 1 / 2"
    by (rule of_nat_floor) simp
  have "real (nat \<lfloor>\<bar>v\<bar> * 10 ^ f + 1 / 2\<rfloor>) * pow10 (- int f)
        \<le> (\<bar>v\<bar> * 10 ^ f + 1 / 2) / 10 ^ f"
    unfolding pow10_neg_nat using n by (simp add: divide_right_mono)
  also have "\<dots> = \<bar>v\<bar> + 1 / (2 * 10 ^ f)" by (simp add: field_simps)
  also have "\<dots> \<le> \<bar>v\<bar> + 1"
  proof -
    have "1 \<le> 2 * (10::real) ^ f" using one_le_power [of "10::real" f] by linarith
    then have "1 / (2 * (10::real) ^ f) \<le> 1" by simp
    then show ?thesis by simp
  qed
  also have "\<dots> < 10 ^ 21 + 1" using assms by simp
  also have "(10::real) ^ 21 + 1 \<le> 2 ^ 1024 - 2 ^ 970" by simp
  finally show ?thesis .
qed

lemma toFixed_parse_roundtrip:
  assumes "0 < f" "\<bar>v\<bar> < 10 ^ 21"
  shows "\<exists>t. toFixed f (Fin v) = Some t \<and> parseFloat t = Fin (js_round_fixed f v)
           \<and> CHR '','' \<notin> set t \<and> t \<noteq> [] \<and> \<not> js_is_ws (hd t) \<and> \<not> js_is_ws (last t)"
proof -
  obtain A B where t: "toFixed f (Fin v) = Some ((if v < 0 then ''-'' else '''') @ A @ ''.'' @ B)"
    and A: "A \<noteq> []" and B: "length B = f" and dig: "\<forall>c \<in> set (A @ B). is_digit c"
    and val: "digits_value (A @ B) = nat \<lfloor>\<bar>v\<bar> * 10 ^ f + 1 / 2\<rfloor>"
    using toFixed_Fin_shape [OF assms] by blast
  define sg where "sg = (if v < 0 then ''-'' else '''')"
  have sg: "sg = '''' \<or> sg = ''-''" by (simp add: sg_def)
  have bound: "\<not> (2::real) ^ 1024 - 2 ^ 970 \<le> real (digits_value (A @ B)) * pow10 (- int (length B))"
    using fixed_value_bound [OF assms(2), of f] by (simp add: val B)
  have parse: "parseFloat (sg @ A @ ''.'' @ B) = Fin (js_round_fixed f v)"
    unfolding parseFloat_fixed [OF A dig sg] js_double_of_def using bound
    by (simp add: val B pow10_neg_nat js_round_fixed_def sg_def)
  obtain a A' where aA: "A = a # A'" using A by (cases A) auto
  have a: "is_digit a" using dig aA by simp
  have "B \<noteq> []" using B assms(1) by auto
  then have lastB: "is_digit (last B)" using dig by simp
  have comma: "CHR '','' \<notin> set (sg @ A @ ''.'' @ B)"
    using dig digit_not_special by (auto simp: sg_def)
  have ends: "\<not> js_is_ws (hd (sg @ A @ ''.'' @ B)) \<and> \<not> js_is_ws (last (sg @ A @ ''.'' @ B))"
    using digit_not_special [OF a] digit_not_special [OF lastB] \<open>B \<noteq> []\<close> aA
    by (auto simp: sg_def js_is_ws_def)
  show ?thesis using t parse comma ends unfolding sg_def by auto
qed

subsection \<open>Properties of the coordinate input\<close>

text \<open>
  C10.  Round trip of the coordinate box: the text the page displays for a
  location with finite coordinates below \<open>10^21\<close>, fed back to the
  \<open>onChange\<close> handler unchanged, is accepted and stores both coordinates
  rounded to four decimals (ties away from zero).  The stored coordinates
  therefore drift to the displayed precision as soon as the box is edited.
\<close>

theorem coord_input_roundtrip:
  assumes "lat loc = Fin a" "lng loc = Fin b" "\<bar>a\<bar> < 10 ^ 21" "\<bar>b\<bar> < 10 ^ 21"
  shows "\<exists>t. coord_text loc = Some t
           \<and> coord_input_change loc t = loc\<lparr>lat := Fin (js_round_fixed 4 a), lng := Fin (js_round_fixed 4 b)\<rparr>"
proof -
  obtain ta where ta: "toFixed 4 (Fin a) = Some ta" "parseFloat ta = Fin (js_round_fixed 4 a)"
    "CHR '','' \<notin> set ta" "ta \<noteq> []" "\<not> js_is_ws (hd ta)" "\<not> js_is_ws (last ta)"
    using toFixed_parse_roundtrip [of 4 a] assms(3) by auto
  obtain tb where tb: "toFixed 4 (Fin b) = Some tb" "parseFloat tb = Fin (js_round_fixed 4 b)"
    "CHR '','' \<notin> set tb" "tb \<noteq> []" "\<not> js_is_ws (hd tb)" "\<not> js_is_ws (last tb)"
    using toFixed_parse_roundtrip [of 4 b] assms(4) by auto
  have shown: "coord_text loc = Some (ta @ '', '' @ tb)"
    using assms(1,2) ta(1) tb(1) by (simp add: coord_text_def)
  have sp: "js_split CHR '','' (ta @ '', '' @ tb) = [ta, CHR '' '' # tb]"
    using ta(3) tb(3) by (simp add: js_split_append_sep js_split_no_sep)
  have trims: "js_trim ta = ta" "js_trim (CHR '' '' # tb) = tb"
    using ta(4-6) tb(4-6) by (simp_all add: js_trim_id js_trim_space)
  have "coord_input_change loc (ta @ '', '' @ tb)
        = loc\<lparr>lat := Fin (js_round_fixed 4 a), lng := Fin (js_round_fixed 4 b)\<rparr>"
    unfolding coord_input_change_def Let_def sp using trims ta(2) tb(2) by simp
  with shown show ?thesis by blast
qed

theorem coord_input_roundtrip_witness:
  "\<exists>t. coord_text \<lparr>name = ''Nimman'', lat = Fin 18.80225, lng = Fin 98.9525\<rparr> = Some t
     \<and> coord_input_change \<lparr>name = ''Nimman'', lat = Fin 18.80225, lng = Fin 98.9525\<rparr> t
         = \<lparr>name = ''Nimman'', lat = Fin (js_round_fixed 4 18.80225), lng = Fin (js_round_fixed 4 98.9525)\<rparr>"
  using coord_input_roundtrip [of "\<lparr>name = ''Nimman'', lat = Fin 18.80225, lng = Fin 98.9525\<rparr>" "18.80225" "98.9525"]
  by simp


end
