(* ===== verification/TrackerPage.thy ===== *)
theory TrackerPage
  imports Geo Carbon CoordInput
begin

text \<open>
  The state and event handlers of \<open>CarbonTrackerPage\<close> in
  \<open>src/app/carbon-tracker/page.tsx\<close>.  The five \<open>useState\<close> hooks (lines
  34--46) are the fields of \<open>tracker_state\<close>; \<open>pending\<close> holds what the
  asynchronous \<open>handleCalculate\<close> (lines 112--123) captured when it was
  clicked: it awaits a 1-second timer, and the distance and footprint are
  computed afterwards from the start, end and mode of the render in which the
  button was clicked.  A step is one user event or the timer firing.

  The place names of \<open>popularLocations\<close> are Thai; they are written here in
  transliteration.  The code only compares them for equality (in
  \<open>popularLocations.find\<close>) and displays them, and the six names are
  distinct either way.
\<close>

record tracker_state =
  startLocation :: Location
  endLocation :: Location
  selectedMode :: string      \<comment> \<open>the \<open>travelMode\<close> hook, line 44\<close>
  result :: "CarbonResult option"
  isLoading :: bool
  pending :: "(Location \<times> Location \<times> string) option"

datatype tracker_event =
    SelectStart string     \<comment> \<open>\<open>onChange\<close> of the start \<open><select>\<close>, lines 186--189\<close>
  | EditStart string       \<comment> \<open>\<open>onChange\<close> of the start coordinate box, lines 201--210\<close>
  | SelectEnd string       \<comment> \<open>lines 226--229\<close>
  | EditEnd string         \<comment> \<open>lines 241--250\<close>
  | ClickMode nat          \<comment> \<open>the button of \<open>travelModes ! i\<close>, line 269\<close>
  | ClickCalculate         \<comment> \<open>the calculate button, lines 285--289\<close>
  | TimerFires             \<comment> \<open>the awaited \<open>setTimeout\<close> of line 116 resolves\<close>

definition popularLocations :: "Location list" where
  "popularLocations =
     [\<lparr>name = ''Nimmanhaemin'', lat = Fin 18.8022, lng = Fin 98.9525\<rparr>,
      \<lparr>name = ''Tha Phae Gate'', lat = Fin 18.7869, lng = Fin 98.9953\<rparr>,
      \<lparr>name = ''Warorot Market'', lat = Fin 18.7906, lng = Fin 98.992\<rparr>,
      \<lparr>name = ''Doi Suthep'', lat = Fin 18.8048, lng = Fin 98.9216\<rparr>,
      \<lparr>name = ''Chiang Mai Airport'', lat = Fin 18.7669, lng = Fin 98.9625\<rparr>,
      \<lparr>name = ''Central Festival'', lat = Fin 18.8041, lng = Fin 98.9767\<rparr>]"

definition tracker_init :: tracker_state where
  "tracker_init =
     \<lparr>startLocation = \<lparr>name = ''Nimmanhaemin'', lat = Fin 18.8022, lng = Fin 98.9525\<rparr>,
      endLocation = \<lparr>name = ''Tha Phae Gate'', lat = Fin 18.7869, lng = Fin 98.9953\<rparr>,
      selectedMode = ''driving'', result = None, isLoading = False, pending = None\<rparr>"

text \<open>\<open>const selected = popularLocations.find(...); if (selected) set...(selected)\<close>.\<close>

definition select_location :: "Location \<Rightarrow> string \<Rightarrow> Location" where
  "select_location cur n =
     (case find (\<lambda>loc. name loc = n) popularLocations of Some sel \<Rightarrow> sel | None \<Rightarrow> cur)"

text \<open>
  The body of \<open>handleCalculate\<close> after the timer, lines 118--122, on the
  captured inputs.
\<close>

definition calculate_result :: "Location \<Rightarrow> Location \<Rightarrow> string \<Rightarrow> CarbonResult" where
  "calculate_result st en m =
     (let d = calculateDistance_js (lat st) (lng st) (lat en) (lng en)
      in calculateCarbonFootprint d m)"

fun tracker_step :: "tracker_state \<Rightarrow> tracker_event \<Rightarrow> tracker_state" where
  "tracker_step s (SelectStart n) = s\<lparr>startLocation := select_location (startLocation s) n\<rparr>"
| "tracker_step s (EditStart t) = s\<lparr>startLocation := coord_input_change (startLocation s) t\<rparr>"
| "tracker_step s (SelectEnd n) = s\<lparr>endLocation := select_location (endLocation s) n\<rparr>"
| "tracker_step s (EditEnd t) = s\<lparr>endLocation := coord_input_change (endLocation s) t\<rparr>"
| "tracker_step s (ClickMode i) =
     (if i < length travelModes then s\<lparr>selectedMode := travelModes ! i\<rparr> else s)"
| "tracker_step s ClickCalculate =
     (if isLoading s then s
      else s\<lparr>isLoading := True, pending := Some (startLocation s, endLocation s, selectedMode s)\<rparr>)"
| "tracker_step s TimerFires =
     (case pending s of
        None \<Rightarrow> s
      | Some (st, en, m) \<Rightarrow>
          s\<lparr>result := Some (calculate_result st en m), isLoading := False, pending := None\<rparr>)"

fun tracker_run :: "tracker_state \<Rightarrow> tracker_event list \<Rightarrow> tracker_state" where
  "tracker_run s [] = s"
| "tracker_run s (e # es) = tracker_run (tracker_step s e) es"

text \<open>
  The result card, lines 306--357: distance, footprint and score of the
  stored result, labelled with the names of the locations the page holds
  now (line 322).
\<close>

definition result_card :: "tracker_state \<Rightarrow> (js_float \<times> js_float \<times> real \<times> string \<times> string) option" where
  "result_card s =
     (case result s of
        None \<Rightarrow> None
      | Some r \<Rightarrow> Some (CarbonResult.distance r, carbonFootprint r, greenPoints r,
                       name (startLocation s), name (endLocation s)))"

text \<open>
  The environmental equivalents of lines 382--384: trees for a year
  (\<open>toFixed(3)\<close> of the footprint over 22000), LED bulb hours (over 10) and
  phone charges (over 8.3), both with \<open>toFixed(0)\<close>.
\<close>

definition environmental_impact :: "js_float \<Rightarrow> string option \<times> string option \<times> string option" where
  "environmental_impact fp =
     (toFixed 3 (js_div fp (Fin 22000)), toFixed 0 (js_div fp (Fin 10)), toFixed 0 (js_div fp (Fin 8.3)))"

inductive tracker_reachable :: "tracker_state \<Rightarrow> bool" where
  init: "tracker_reachable tracker_init"
| step: "tracker_reachable s \<Longrightarrow> tracker_reachable (tracker_step s e)"

text \<open>What every reachable state keeps true between its fields.\<close>

definition tracker_inv :: "tracker_state \<Rightarrow> bool" where
  "tracker_inv s \<longleftrightarrow>
     selectedMode s \<in> set travelModes
     \<and> (isLoading s \<longleftrightarrow> pending s \<noteq> None)
     \<and> (\<forall>st en m. pending s = Some (st, en, m) \<longrightarrow> m \<in> set travelModes)
     \<and> (\<forall>r. result s = Some r \<longrightarrow> travelMode r \<in> set travelModes
            \<and> greenPoints r = js_num_or (map_of greenPointsMap (travelMode r)) 25)"

subsection \<open>Lemmas\<close>

lemma tracker_run_append: "tracker_run s (xs @ ys) = tracker_run (tracker_run s xs) ys"
  by (induction xs arbitrary: s) simp_all

lemma tracker_inv_init: "tracker_inv tracker_init"
  by (simp add: tracker_inv_def tracker_init_def travelModes_def)

lemma calculate_result_fields [simp]:
  "travelMode (calculate_result st en m) = m"
  "greenPoints (calculate_result st en m) = js_num_or (map_of greenPointsMap m) 25"
  by (simp_all add: calculate_result_def Let_def)

lemma tracker_step_inv: "tracker_inv s \<Longrightarrow> tracker_inv (tracker_step s e)"
  by (cases e) (auto simp: tracker_inv_def split: option.splits)

lemma tracker_reachable_inv: "tracker_reachable s \<Longrightarrow> tracker_inv s"
  by (induction rule: tracker_reachable.induct) (simp_all add: tracker_inv_init tracker_step_inv)

lemma tracker_run_reachable: "tracker_reachable s \<Longrightarrow> tracker_reachable (tracker_run s es)"
  by (induction es arbitrary: s) (simp_all add: tracker_reachable.step)

lemma tracker_run_keeps_pending:
  assumes "isLoading s" "\<forall>e \<in> set es. e \<noteq> TimerFires"
  shows "pending (tracker_run s es) = pending s \<and> isLoading (tracker_run s es)"
  using assms
proof (induction es arbitrary: s)
  case Nil
  then show ?case by simp
next
  case (Cons e es)
  have "pending (tracker_step s e) = pending s \<and> isLoading (tracker_step s e)"
    using Cons.prems by (cases e) simp_all
  with Cons.IH [of "tracker_step s e"] Cons.prems show ?case by simp
qed

text \<open>
  The walking bug reaches the environmental panel: a 10 km walk is shown as
  the yearly absorption of 0.095 trees, 210 bulb hours and 253 phone charges.
\<close>

lemma walking_impact:
  "environmental_impact (carbonFootprint (calculateCarbonFootprint (Fin 10) ''walking''))
     = (Some ''0.095'', Some ''210'', Some ''253'')"
proof -
  have f: "carbonFootprint (calculateCarbonFootprint (Fin 10) ''walking'') = Fin 2100"
    by (simp add: carbonPerKm_cases)
  have i: "environmental_impact (Fin 2100) = (Some ''0.095'', Some ''210'', Some ''253'')"
    by code_simp
  show ?thesis unfolding f by (rule i)
qed
subsection \<open>Properties of the page\<close>

text \<open>
  C12.  In every reachable state of the page the selected mode is one of the
  five button values, the loading flag is set exactly while a calculation is
  pending, and every stored result was computed for one of the five modes (so
  the unknown-mode fallback of \<^const>\<open>calculateCarbonFootprint\<close> is never
  taken by the page).
\<close>

theorem tracker_reachable_invariant:
  assumes "tracker_reachable s"
  shows "selectedMode s \<in> set travelModes
    \<and> (isLoading s \<longleftrightarrow> pending s \<noteq> None)
    \<and> (\<forall>r. result s = Some r \<longrightarrow> travelMode r \<in> set travelModes
           \<and> greenPoints r = js_num_or (map_of greenPointsMap (travelMode r)) 25)"
  using tracker_reachable_inv [OF assms] unfolding tracker_inv_def by blast

theorem tracker_reachable_invariant_witness:
  "tracker_reachable (tracker_run tracker_init [ClickMode 2, ClickCalculate, TimerFires])
   \<and> selectedMode (tracker_run tracker_init [ClickMode 2, ClickCalculate, TimerFires]) \<in> set travelModes"
proof -
  have r: "tracker_reachable (tracker_run tracker_init [ClickMode 2, ClickCalculate, TimerFires])"
    by (rule tracker_run_reachable [OF tracker_reachable.init])
  show ?thesis using r tracker_reachable_invariant [OF r] by blast
qed

text \<open>
  C13.  Ordering of the asynchronous calculation: whatever the user does
  between the click and the timer (editing or selecting locations, switching
  the mode, clicking the disabled button again), the stored result is the one
  for the locations and mode the page held when the button was clicked.
\<close>

theorem calculate_uses_clicked_inputs:
  assumes "\<not> isLoading s" "\<forall>e \<in> set es. e \<noteq> TimerFires"
  shows "result (tracker_run s (ClickCalculate # es @ [TimerFires]))
         = Some (calculate_result (startLocation s) (endLocation s) (selectedMode s))"
proof -
  let ?s1 = "tracker_step s ClickCalculate"
  have l: "isLoading ?s1" and p: "pending ?s1 = Some (startLocation s, endLocation s, selectedMode s)"
    using assms(1) by simp_all
  have "pending (tracker_run ?s1 es) = pending ?s1"
    using tracker_run_keeps_pending [OF l assms(2)] by simp
  then show ?thesis using p by (simp add: tracker_run_append)
qed

theorem calculate_uses_clicked_inputs_witness:
  "\<not> isLoading tracker_init
   \<and> result (tracker_run tracker_init (ClickCalculate # [SelectStart ''Doi Suthep'', ClickMode 0] @ [TimerFires]))
     = Some (calculate_result (startLocation tracker_init) (endLocation tracker_init) (selectedMode tracker_init))"
proof -
  have h: "\<not> isLoading tracker_init" by (simp add: tracker_init_def)
  have h2: "\<forall>e \<in> set [SelectStart ''Doi Suthep'', ClickMode 0]. e \<noteq> TimerFires" by simp
  show ?thesis using h h2 calculate_uses_clicked_inputs [OF h h2] by blast
qed


end
