(* ===== verification/Json.thy ===== *)
theory Json
  imports CoordInput "HOL-Library.Sublist"
begin

text \<open>
  JavaScript values as the pages handle API responses: what \<open>JSON.parse\<close>
  can produce, plus \<open>undefined\<close> for missing properties.  An object is the
  list of its own properties in insertion order, keys distinct (as
  \<open>JSON.parse\<close> builds them).  Property access throws a \<open>TypeError\<close> on
  \<open>null\<close> and \<open>undefined\<close> and gives \<open>undefined\<close> for a missing key, an
  index outside an array, or a primitive; optional chaining \<open>x?.k\<close> gives \<open>undefined\<close> instead of
  throwing.  Only the property names the sources use are looked up, none of
  which is inherited from \<open>Object.prototype\<close> or is \<open>length\<close>.
\<close>

datatype jsval =
    JUndef
  | JNull
  | JBool bool
  | JNum js_float
  | JStr string
  | JArr "jsval list"
  | JObj "(string \<times> jsval) list"

datatype js_error = TypeError | SyntaxError

text \<open>\<open>JSON.parse\<close> as an interface: \<^term>\<open>None\<close> is the \<open>SyntaxError\<close> it throws.\<close>

type_synonym json_parser = "string \<Rightarrow> jsval option"

fun js_truthy :: "jsval \<Rightarrow> bool" where
  "js_truthy JUndef = False"
| "js_truthy JNull = False"
| "js_truthy (JBool b) = b"
| "js_truthy (JNum x) = js_truthy_num x"
| "js_truthy (JStr s) = (s \<noteq> [])"
| "js_truthy (JArr _) = True"
| "js_truthy (JObj _) = True"

definition js_nullish :: "jsval \<Rightarrow> bool" where
  "js_nullish v \<longleftrightarrow> v = JUndef \<or> v = JNull"

text \<open>\<open>a || b || ... || z\<close>: the first truthy operand, else the last one.\<close>

fun js_or_chain :: "jsval list \<Rightarrow> jsval" where
  "js_or_chain [] = JUndef"
| "js_or_chain [v] = v"
| "js_or_chain (v # vs) = (if js_truthy v then v else js_or_chain vs)"

text \<open>A canonical array index: the decimal form of a number below \<open>2^32 - 1\<close>.\<close>

definition js_array_index :: "string \<Rightarrow> bool" where
  "js_array_index k \<longleftrightarrow>
     k \<noteq> [] \<and> list_all is_digit k \<and> (k = ''0'' \<or> 0 < digit_of (hd k))
     \<and> digits_value k < 2 ^ 32 - 1"

text \<open>
  \<open>v.k\<close> and \<open>v[k]\<close> where \<open>v\<close> is known not to be \<open>null\<close> or
  \<open>undefined\<close>: an own property of an object, an element of an array.
\<close>

fun js_get :: "jsval \<Rightarrow> string \<Rightarrow> jsval" where
  "js_get (JObj kvs) k = (case map_of kvs k of Some v \<Rightarrow> v | None \<Rightarrow> JUndef)"
| "js_get (JArr xs) k =
     (if js_array_index k \<and> digits_value k < length xs then xs ! digits_value k else JUndef)"
| "js_get _ k = JUndef"

text \<open>\<open>v.k\<close> in general: a \<open>TypeError\<close> on \<open>null\<close> and \<open>undefined\<close>.\<close>

definition js_prop :: "jsval \<Rightarrow> string \<Rightarrow> js_error + jsval" where
  "js_prop v k = (if js_nullish v then Inl TypeError else Inr (js_get v k))"

text \<open>\<open>v?.k\<close>.\<close>

definition js_optprop :: "jsval \<Rightarrow> string \<Rightarrow> jsval" where
  "js_optprop v k = (if js_nullish v then JUndef else js_get v k)"

fun js_is_array :: "jsval \<Rightarrow> bool" where
  "js_is_array (JArr _) = True"
| "js_is_array _ = False"

text \<open>\<open>typeof v === "object"\<close>: objects, arrays and \<open>null\<close>.\<close>

fun js_typeof_object :: "jsval \<Rightarrow> bool" where
  "js_typeof_object JNull = True"
| "js_typeof_object (JArr _) = True"
| "js_typeof_object (JObj _) = True"
| "js_typeof_object _ = False"

text \<open>
  \<open>Object.values\<close> of an ordinary object lists the values of the
  array-index keys first, in ascending numeric order, then the other keys in
  insertion order (ECMAScript OrdinaryOwnPropertyKeys).
\<close>

definition js_object_values :: "(string \<times> jsval) list \<Rightarrow> jsval list" where
  "js_object_values kvs =
     map snd (sort_key (\<lambda>kv. digits_value (fst kv)) (filter (\<lambda>kv. js_array_index (fst kv)) kvs)
              @ filter (\<lambda>kv. \<not> js_array_index (fst kv)) kvs)"

text \<open>\<open>s.split("\n")\<close> on a string.\<close>

definition js_lines :: "string \<Rightarrow> string list" where
  "js_lines s = js_split CHR 0x0A s"

text \<open>
  Strings of the model are byte strings holding the UTF-8 encoding of the
  JavaScript string.  The non-ASCII literals of the sources (the Thai texts)
  are written by their Unicode code points and encoded by \<open>utf8\<close>.
\<close>

definition utf8_char :: "nat \<Rightarrow> string" where
  "utf8_char c =
     (if c < 0x80 then [char_of c]
      else if c < 0x800 then [char_of (0xC0 + c div 0x40), char_of (0x80 + c mod 0x40)]
      else if c < 0x10000 then
        [char_of (0xE0 + c div 0x1000), char_of (0x80 + c div 0x40 mod 0x40), char_of (0x80 + c mod 0x40)]
      else [char_of (0xF0 + c div 0x40000), char_of (0x80 + c div 0x1000 mod 0x40),
            char_of (0x80 + c div 0x40 mod 0x40), char_of (0x80 + c mod 0x40)])"

definition utf8 :: "nat list \<Rightarrow> string" where
  "utf8 cs = concat (map utf8_char cs)"

text \<open>
  \<open>s.toLowerCase()\<close> on the ASCII letters (the case mapping of other
  scripts is not modelled; the only callers compare the result with Thai
  keywords, which have no case) and \<open>s.includes(k)\<close>.
\<close>

definition js_lower_char :: "char \<Rightarrow> char" where
  "js_lower_char c = (if (65::nat) \<le> of_char c \<and> of_char c \<le> (90::nat) then char_of (of_char c + (32::nat)) else c)"

definition js_toLowerCase :: "string \<Rightarrow> string" where
  "js_toLowerCase s = map js_lower_char s"

definition js_includes :: "string \<Rightarrow> string \<Rightarrow> bool" where
  "js_includes s k \<longleftrightarrow> sublist k s"

text \<open>
  An \<open>||\<close> chain is unfolded one operand at a time (\<open>js_or_chain_Cons\<close>) only
  where a proof needs it: unfolding every chain of a handler at once splits
  the goal into one case per combination of truthy operands.
\<close>

declare js_or_chain.simps(3) [simp del]

lemma js_or_chain_Cons:
  "js_or_chain (v # w # vs) = (if js_truthy v then v else js_or_chain (w # vs))"
  by (simp add: js_or_chain.simps)

lemma js_or_chain_truthy_iff: "js_truthy (js_or_chain vs) \<longleftrightarrow> (\<exists>v \<in> set vs. js_truthy v)"
  by (induction vs rule: js_or_chain.induct) (auto simp: js_or_chain.simps)

lemma js_optprop_get [simp]: "\<not> js_nullish v \<Longrightarrow> js_optprop v k = js_get v k"
  by (simp add: js_optprop_def)

lemma js_nullish_simps [simp]:
  "js_nullish JUndef" "js_nullish JNull" "\<not> js_nullish (JObj kvs)" "\<not> js_nullish (JArr xs)"
  "\<not> js_nullish (JStr s)" "\<not> js_nullish (JNum x)" "\<not> js_nullish (JBool b)"
  by (simp_all add: js_nullish_def)

end
