(* ===== verification/Results.thy ===== *)
theory Results
  imports Json
begin

text \<open>
  The results page, \<open>src/app/results/page.tsx\<close>.  On mount (lines 52--106)
  it reads the stored search result from \<open>sessionStorage\<close>, parses it,
  reconciles the response shapes of the different endpoints into one object
  with the four keys of \<open>ResultData\<close> (lines 71--84), and stores it with the
  query and mode; the render (lines 118--336) turns that object into an
  analysis block, a message block, a text block, recommendation cards or a
  "no results" block.  The normalised object is kept as a \<^typ>\<open>jsval\<close>
  object literal, as the code builds it, so that reading keys it does not
  have yields \<open>undefined\<close> exactly as in the source.  \<open>sessionStorage\<close> is a
  map from keys to strings; \<open>JSON.parse\<close> is the \<^typ>\<open>json_parser\<close>
  parameter.
\<close>

subsection \<open>Mount: normalisation\<close>

text \<open>
  Lines 71--84.  Every operand reads a property of the parsed value, so the
  whole expression throws exactly when the parsed value is \<open>null\<close> (the first
  access throws); \<open>data?.\<close> and \<open>result?.\<close> never throw.
\<close>

definition normalized_fields :: "jsval \<Rightarrow> (string \<times> jsval) list" where
  "normalized_fields p =
        [(''recommendations'',
            js_or_chain [js_get p ''recommendations'', js_get p ''places'', js_get p ''suggestions'',
                         js_optprop (js_get p ''data'') ''recommendations'',
                         js_optprop (js_get p ''result'') ''recommendations'', JArr []]),
         (''recommendation'',
            js_or_chain [js_get p ''recommendation'', js_optprop (js_get p ''data'') ''recommendation'',
                         js_optprop (js_get p ''result'') ''recommendation'']),
         (''analysis'',
            js_or_chain [js_get p ''analysis'', js_optprop (js_get p ''data'') ''analysis'',
                         js_optprop (js_get p ''result'') ''analysis'']),
         (''message'',
            js_or_chain [js_get p ''message'', js_get p ''response'',
                         js_optprop (js_get p ''data'') ''message'',
                         js_optprop (js_get p ''result'') ''message''])]"

definition normalize_result :: "jsval \<Rightarrow> js_error + jsval" where
  "normalize_result p = (if js_nullish p then Inl TypeError else Inr (JObj (normalized_fields p)))"

datatype results_outcome =
    ShowResults jsval string string   \<comment> \<open>\<open>resultData\<close>, \<open>searchQuery\<close>, \<open>searchMode\<close>\<close>
  | GoError                           \<comment> \<open>\<open>router.push("/error")\<close>, line 100\<close>
  | GoHome                            \<comment> \<open>\<open>router.push("/")\<close>, line 104\<close>

text \<open>\<open>sessionStorage.getItem(k) || ""\<close>.\<close>

definition storage_or_empty :: "(string \<rightharpoonup> string) \<Rightarrow> string \<Rightarrow> string" where
  "storage_or_empty st k = (case st k of Some v \<Rightarrow> v | None \<Rightarrow> '''')"

definition results_mount :: "json_parser \<Rightarrow> (string \<rightharpoonup> string) \<Rightarrow> results_outcome" where
  "results_mount parse st =
     (case st ''searchResult'' of
        None \<Rightarrow> GoHome
      | Some stored \<Rightarrow>
          (if stored = [] then GoHome
           else (case parse stored of
                   None \<Rightarrow> GoError
                 | Some p \<Rightarrow>
                     (case normalize_result p of
                        Inl _ \<Rightarrow> GoError
                      | Inr rd \<Rightarrow> ShowResults rd (storage_or_empty st ''searchQuery'')
                                              (storage_or_empty st ''searchMode'')))))"

subsection \<open>Render\<close>

text \<open>Lines 172--184: \<open>recommendations\<close> made an array.\<close>

definition results_recommendations :: "jsval \<Rightarrow> jsval list" where
  "results_recommendations rd =
     (let rawRecs = js_get rd ''recommendations''
      in case rawRecs of
           JArr xs \<Rightarrow> xs
         | JObj kvs \<Rightarrow> js_object_values kvs
         | _ \<Rightarrow> (if js_truthy (js_get rd ''recommendation'') then [js_get rd ''recommendation''] else []))"

text \<open>
  One recommendation as the text block (lines 140--150) and the card
  (lines 187--234) show it: each field, or the page's placeholder (or no
  element) for a missing one.  Reading a field of a \<open>null\<close> entry throws.
  The home page renders its cards with the same code (\<open>src/app/page.tsx\<close>,
  lines 96--145).
\<close>

datatype shown = Given jsval | Placeholder

record rec_fields =
  rec_image :: shown
  rec_name :: shown
  rec_location :: shown
  rec_rating :: shown
  rec_description :: shown
  rec_maps_url :: jsval

definition shown_or :: "jsval \<Rightarrow> shown" where
  "shown_or v = (if js_truthy v then Given v else Placeholder)"

definition render_rec :: "jsval \<Rightarrow> js_error + rec_fields" where
  "render_rec r =
     (if js_nullish r then Inl TypeError
      else Inr \<lparr>rec_image = shown_or (js_get r ''image''), rec_name = shown_or (js_get r ''name''), rec_location = shown_or (js_get r ''location''),
                rec_rating = shown_or (js_get r ''rating''),
                rec_description = shown_or (js_get r ''description''),
                rec_maps_url = js_get r ''google_maps_url''\<rparr>)"

fun render_recs :: "jsval list \<Rightarrow> js_error + rec_fields list" where
  "render_recs [] = Inr []"
| "render_recs (r # rs) =
     (case render_rec r of
        Inl e \<Rightarrow> Inl e
      | Inr f \<Rightarrow> (case render_recs rs of Inl e \<Rightarrow> Inl e | Inr fs \<Rightarrow> Inr (f # fs)))"

datatype text_block = TextFromApi jsval | TextFromRecs "rec_fields list" | NoText

record results_view =
  analysis_paragraphs :: "string list option"
  message_block :: "jsval option"
  text_section :: text_block
  cards :: "rec_fields list"
  no_results :: bool

text \<open>\<open>renderTextRecommendations(resultData)\<close>, lines 118--166.\<close>

definition render_text_recommendations :: "jsval \<Rightarrow> jsval list \<Rightarrow> js_error + text_block" where
  "render_text_recommendations rd recs =
     (let textContent = js_or_chain [js_get rd ''recommendations_text'', js_get rd ''suggestion_text'',
                                     js_get rd ''places_text'', js_get rd ''text_recommendations'',
                                     js_get rd ''formatted_recommendations'']
      in if js_truthy textContent then Inr (TextFromApi textContent)
         else if recs \<noteq> [] then (case render_recs recs of Inl e \<Rightarrow> Inl e | Inr fs \<Rightarrow> Inr (TextFromRecs fs))
         else Inr NoText)"

text \<open>
  The page body, lines 285--336.  \<open>analysis.split("\n")\<close> throws on a truthy
  analysis that is not a string.
\<close>

definition render_results :: "jsval \<Rightarrow> js_error + results_view" where
  "render_results rd =
     (let recs = results_recommendations rd;
          analysis = js_get rd ''analysis'';
          message = js_get rd ''message''
      in case (if js_truthy analysis
               then (case analysis of JStr s \<Rightarrow> Inr (Some (js_lines s)) | _ \<Rightarrow> Inl TypeError)
               else Inr None) of
           Inl e \<Rightarrow> Inl e
         | Inr paras \<Rightarrow>
             (case render_text_recommendations rd recs of
                Inl e \<Rightarrow> Inl e
              | Inr tb \<Rightarrow>
                  (let showCards = recs \<noteq> [] \<and> \<not> js_truthy (js_get rd ''recommendations_text'')
                                   \<and> \<not> js_truthy (js_get rd ''suggestion_text'')
                   in case (if showCards then render_recs recs else Inr []) of
                        Inl e \<Rightarrow> Inl e
                      | Inr cs \<Rightarrow>
                          Inr \<lparr>analysis_paragraphs = paras,
                               message_block = (if js_truthy message then Some message else None),
                               text_section = tb, cards = cs,
                               no_results = (recs = [] \<and> \<not> js_truthy analysis \<and> \<not> js_truthy message)\<rparr>)))"


text \<open>
  The page, lines 236--336: a spinner while \<open>resultData\<close> is unset
  (lines 236--242, after a redirect), otherwise the search summary with the
  mode badge (tourist or, for any other mode, entrepreneur) and the query
  (lines 269--281), then the rendered results.
\<close>

record results_page =
  summary_tourist :: bool
  summary_query :: string
  page_body :: "js_error + results_view"

definition results_page :: "results_outcome \<Rightarrow> results_page option" where
  "results_page out =
     (case out of
        ShowResults rd q m \<Rightarrow> Some \<lparr>summary_tourist = (m = ''tourist''), summary_query = q, page_body = render_results rd\<rparr>
      | _ \<Rightarrow> None)"

subsection \<open>Properties\<close>

lemma normalized_get_other:
  "k \<notin> {''recommendations'', ''recommendation'', ''analysis'', ''message''}
   \<Longrightarrow> map_of (normalized_fields p) k = None"
  by (simp add: normalized_fields_def)

lemma normalized_get_recs:
  "map_of (normalized_fields p) ''recommendations'' = Some (
     js_or_chain [js_get p ''recommendations'', js_get p ''places'', js_get p ''suggestions'',
                  js_optprop (js_get p ''data'') ''recommendations'',
                  js_optprop (js_get p ''result'') ''recommendations'', JArr []])"
  by (simp add: normalized_fields_def)

lemma normalized_recs_falsy:
  assumes "\<not> js_truthy (js_get p ''recommendations'')" "\<not> js_truthy (js_get p ''places'')"
    "\<not> js_truthy (js_get p ''suggestions'')"
    "\<not> js_truthy (js_optprop (js_get p ''data'') ''recommendations'')"
    "\<not> js_truthy (js_optprop (js_get p ''result'') ''recommendations'')"
  shows "js_get (JObj (normalized_fields p)) ''recommendations'' = JArr []"
  using assms by (simp add: normalized_get_recs js_or_chain_Cons)

lemma render_recs_error:
  "render_recs rs = Inl e \<longleftrightarrow> (\<exists>r \<in> set rs. js_nullish r) \<and> e = TypeError"
  by (induction rs) (auto simp: render_rec_def split: sum.splits)

lemma render_recs_ok:
  "(\<forall>r \<in> set rs. \<not> js_nullish r) \<Longrightarrow> \<exists>fs. render_recs rs = Inr fs \<and> length fs = length rs"
  by (induction rs) (auto simp: render_rec_def)

lemma normalized_no_text:
  "normalize_result p = Inr rd \<Longrightarrow>
     js_get rd ''recommendations_text'' = JUndef \<and> js_get rd ''suggestion_text'' = JUndef \<and>
     render_text_recommendations rd recs =
       (if recs \<noteq> [] then (case render_recs recs of Inl e \<Rightarrow> Inl e | Inr fs \<Rightarrow> Inr (TextFromRecs fs))
        else Inr NoText)"
  by (auto simp: normalize_result_def render_text_recommendations_def normalized_get_other js_or_chain_Cons
           split: if_split_asm)

lemma render_analysis_ok:
  "(js_truthy (js_get rd ''analysis'') \<longrightarrow> (\<exists>s. js_get rd ''analysis'' = JStr s)) \<Longrightarrow>
   \<exists>paras. (if js_truthy (js_get rd ''analysis'')
             then (case js_get rd ''analysis'' of JStr s \<Rightarrow> Inr (Some (js_lines s)) | _ \<Rightarrow> Inl TypeError)
             else Inr None) = (Inr paras :: js_error + string list option)"
  by auto

text \<open>C15: A response carrying only a single \<open>recommendation\<close> (no
  \<open>recommendations\<close>, \<open>places\<close>, \<open>suggestions\<close>, \<open>data.recommendations\<close> or
  \<open>result.recommendations\<close>) yields no recommendation at all: the \<open>|| []\<close> at the end of
  line 77 makes the normalised \<open>recommendations\<close> the truthy empty array, so the
  \<open>resultData.recommendation\<close> fallback of line 182 is never taken.\<close>

lemma single_recommendation_dropped:
  assumes "normalize_result p = Inr rd"
    and "\<not> js_truthy (js_get p ''recommendations'')" "\<not> js_truthy (js_get p ''places'')"
    "\<not> js_truthy (js_get p ''suggestions'')"
    "\<not> js_truthy (js_optprop (js_get p ''data'') ''recommendations'')"
    "\<not> js_truthy (js_optprop (js_get p ''result'') ''recommendations'')"
  shows "results_recommendations rd = []"
proof -
  have "rd = JObj (normalized_fields p)"
    using assms(1) by (simp add: normalize_result_def split: if_split_asm)
  then show ?thesis
    using normalized_recs_falsy[OF assms(2-6)] by (simp add: results_recommendations_def)
qed

lemma single_recommendation_dropped_witness:
  "normalize_result (JObj [(''recommendation'', JObj [(''name'', JStr ''Doi Suthep'')])])
     = Inr (JObj [(''recommendations'', JArr []), (''recommendation'', JObj [(''name'', JStr ''Doi Suthep'')]),
                  (''analysis'', JUndef), (''message'', JUndef)])
   \<and> results_recommendations (JObj [(''recommendations'', JArr []), (''recommendation'', JObj [(''name'', JStr ''Doi Suthep'')]),
                  (''analysis'', JUndef), (''message'', JUndef)]) = []"
  using single_recommendation_dropped[of "JObj [(''recommendation'', JObj [(''name'', JStr ''Doi Suthep'')])]"
     "JObj [(''recommendations'', JArr []), (''recommendation'', JObj [(''name'', JStr ''Doi Suthep'')]),
                  (''analysis'', JUndef), (''message'', JUndef)]"]
  by (simp add: normalize_result_def normalized_fields_def js_optprop_def js_or_chain_Cons)

text \<open>C16: The text block built from an API-provided text field (lines 128--139)
  is never shown: normalisation keeps only four keys, so \<open>recommendations_text\<close> and the other
  text keys of the normalised object are always \<open>undefined\<close>.\<close>

lemma api_text_block_unreachable:
  "normalize_result p = Inr rd \<Longrightarrow> render_text_recommendations rd recs \<noteq> Inr (TextFromApi v)"
  by (auto simp: normalize_result_def render_text_recommendations_def normalized_get_other js_or_chain_Cons
           split: if_split_asm sum.splits)

lemma api_text_block_unreachable_witness:
  "normalize_result (JObj [(''recommendations_text'', JStr ''1. Doi Suthep'')])
     = Inr (JObj [(''recommendations'', JArr []), (''recommendation'', JUndef), (''analysis'', JUndef), (''message'', JUndef)])
   \<and> render_text_recommendations
       (JObj [(''recommendations'', JArr []), (''recommendation'', JUndef), (''analysis'', JUndef), (''message'', JUndef)]) []
     \<noteq> Inr (TextFromApi (JStr ''1. Doi Suthep''))"
  using api_text_block_unreachable[of "JObj [(''recommendations_text'', JStr ''1. Doi Suthep'')]"
      "JObj [(''recommendations'', JArr []), (''recommendation'', JUndef), (''analysis'', JUndef), (''message'', JUndef)]"
      "[]" "JStr ''1. Doi Suthep''"]
  by (simp add: normalize_result_def normalized_fields_def js_optprop_def js_or_chain_Cons)

text \<open>C17: A \<open>null\<close> entry among the recommendations makes the render throw a
  \<open>TypeError\<close> (reading \<open>rec.name\<close> of \<open>null\<close> on line 144).\<close>

lemma null_entry_throws:
  "normalize_result p = Inr rd \<Longrightarrow> JNull \<in> set (results_recommendations rd) \<Longrightarrow> render_results rd = Inl TypeError"
proof -
  assume n: "normalize_result p = Inr rd" and j: "JNull \<in> set (results_recommendations rd)"
  then have "render_recs (results_recommendations rd) = Inl TypeError"
    using js_nullish_simps(2) render_recs_error by blast
  moreover have "results_recommendations rd \<noteq> []"
    using j by auto
  ultimately have "render_text_recommendations rd (results_recommendations rd) = Inl TypeError"
    using normalized_no_text[OF n] by simp
  then show ?thesis
    by (simp add: render_results_def Let_def split: jsval.split)
qed

lemma null_entry_throws_witness:
  "normalize_result (JObj [(''recommendations'', JArr [JNull])])
     = Inr (JObj [(''recommendations'', JArr [JNull]), (''recommendation'', JUndef), (''analysis'', JUndef), (''message'', JUndef)])
   \<and> JNull \<in> set (results_recommendations
       (JObj [(''recommendations'', JArr [JNull]), (''recommendation'', JUndef), (''analysis'', JUndef), (''message'', JUndef)]))
   \<and> render_results
       (JObj [(''recommendations'', JArr [JNull]), (''recommendation'', JUndef), (''analysis'', JUndef), (''message'', JUndef)])
     = Inl TypeError"
  using null_entry_throws[of "JObj [(''recommendations'', JArr [JNull])]"
      "JObj [(''recommendations'', JArr [JNull]), (''recommendation'', JUndef), (''analysis'', JUndef), (''message'', JUndef)]"]
  by (simp add: normalize_result_def normalized_fields_def js_optprop_def js_or_chain_Cons results_recommendations_def)



text \<open>C19: The mount redirects to \<open>/error\<close> exactly when a non-empty stored
  result fails to parse or parses to \<open>null\<close>.\<close>

lemma results_mount_error_iff:
  "results_mount parse st = GoError \<longleftrightarrow>
     (\<exists>s. st ''searchResult'' = Some s \<and> s \<noteq> [] \<and> (case parse s of None \<Rightarrow> True | Some p \<Rightarrow> js_nullish p))"
  by (auto simp: results_mount_def normalize_result_def split: option.splits sum.splits if_split_asm)

text \<open>The mount redirects to \<open>/\<close> exactly when no search result is
  stored or the stored string is empty.\<close>

lemma results_mount_home_iff:
  "results_mount parse st = GoHome \<longleftrightarrow> st ''searchResult'' = None \<or> st ''searchResult'' = Some []"
  by (auto simp: results_mount_def normalize_result_def split: option.splits sum.splits if_split_asm)

text \<open>
  A stored result without a stored mode is shown with the entrepreneur
  badge and an empty query, whatever the search was.
\<close>

lemma results_page_missing_mode:
  assumes "results_mount parse st = ShowResults rd q m" "st ''searchMode'' = None" "st ''searchQuery'' = None"
  shows "results_page (results_mount parse st) = Some \<lparr>summary_tourist = False, summary_query = [], page_body = render_results rd\<rparr>"
  using assms
  by (auto simp: results_mount_def results_page_def storage_or_empty_def split: option.splits if_split_asm sum.splits)

end
