(* ===== verification/Api.thy ===== *)
theory Api
  imports Json
begin

text \<open>
  The server side and the client of the API, \<open>src/app/api/*/route.ts\<close> and
  \<open>src/lib/api-service.ts\<close>.  The route handlers run on the Next.js server and
  forward a request to the external service; the browser reaches them through
  \<open>APIService\<close>.  The external service is the parameter of each handler: for
  a request body it gives either a network failure or a response with an HTTP
  status and a body text.  Exceptions are values of \<open>js_exn\<close>; messages
  that the engine chooses (a failed \<open>fetch\<close>, a \<open>JSON.parse\<close> of non-JSON
  text) are given by a parameter \<open>msg\<close>.  A response is a status and the
  JSON value of its body: \<open>NextResponse.json(data)\<close> and the client's
  \<open>response.json()\<close> are inverse on the JSON values the handlers build.
\<close>

datatype js_exn =
    Engine js_error          \<comment> \<open>raised by the runtime: \<open>TypeError\<close>, \<open>SyntaxError\<close>\<close>
  | Error string             \<comment> \<open>\<open>new Error(message)\<close>\<close>

text \<open>\<open>error instanceof Error ? error.message : "Unknown error"\<close>: all modelled exceptions are \<open>Error\<close>s.\<close>

definition exn_message :: "(js_error \<Rightarrow> string) \<Rightarrow> js_exn \<Rightarrow> jsval" where
  "exn_message msg e = (case e of Engine k \<Rightarrow> JStr (msg k) | Error s \<Rightarrow> JStr s)"

datatype fetch_result = NetworkFailure | Response nat string

definition http_ok :: "nat \<Rightarrow> bool" where
  "http_ok st \<longleftrightarrow> 200 \<le> st \<and> st \<le> 299"

record http_response =
  http_status :: nat
  http_body :: jsval

text \<open>\<open>NextResponse.json(data)\<close> and \<open>NextResponse.json(data, {status: 500})\<close>.\<close>

definition json_response :: "nat \<Rightarrow> jsval \<Rightarrow> http_response" where
  "json_response st d = \<lparr>http_status = st, http_body = d\<rparr>"

definition status_error :: "nat \<Rightarrow> js_exn" where
  "status_error st = Error (''API responded with status: '' @ nat_digits st)"

subsection \<open>The three recommendation and analysis proxies\<close>

text \<open>
  \<open>recommend-places\<close>, \<open>recommend-new-investment\<close> and
  \<open>analyze-existing-investment\<close> are the same handler up to the key that
  carries non-JSON response text and the error object (lines 3--64 of each
  file).  \<open>req\<close> is \<open>request.json()\<close>, \<^term>\<open>None\<close> when the body is not
  JSON; \<open>upstream\<close> is the \<open>fetch\<close> of the external endpoint.
\<close>

definition proxy_post ::
  "(js_error \<Rightarrow> string) \<Rightarrow> json_parser \<Rightarrow> string \<Rightarrow> string \<Rightarrow> string \<times> jsval
   \<Rightarrow> jsval option \<Rightarrow> (jsval \<Rightarrow> fetch_result) \<Rightarrow> http_response" where
  "proxy_post msg parse textKey errText errField req upstream =
     (let r = (case req of
                 None \<Rightarrow> Inl (Engine SyntaxError)
               | Some body \<Rightarrow>
                   (case upstream body of
                      NetworkFailure \<Rightarrow> Inl (Engine TypeError)
                    | Response st responseText \<Rightarrow>
                        (if \<not> http_ok st then Inl (status_error st)
                         else Inr (case parse responseText of
                                     Some d \<Rightarrow> d
                                   | None \<Rightarrow> JObj [(''message'', JStr responseText),
                                                   (textKey, JStr responseText)]))))
      in case r of
           Inr d \<Rightarrow> json_response 200 d
         | Inl e \<Rightarrow> json_response 500 (JObj [(''error'', JStr errText), (''details'', exn_message msg e), errField]))"

definition recommendation_unavailable :: string where
  "recommendation_unavailable =
     utf8 [0x0E44, 0x0E21, 0x0E48, 0x0E2A, 0x0E32, 0x0E21, 0x0E32, 0x0E23, 0x0E16, 0x0E43,
      0x0E2B, 0x0E49, 0x0E04, 0x0E33, 0x0E41, 0x0E19, 0x0E30, 0x0E19, 0x0E33, 0x0E44,
      0x0E14, 0x0E49, 0x0E43, 0x0E19, 0x0E02, 0x0E13, 0x0E30, 0x0E19, 0x0E35, 0x0E49]"

definition analysis_unavailable :: string where
  "analysis_unavailable =
     utf8 [0x0E44, 0x0E21, 0x0E48, 0x0E2A, 0x0E32, 0x0E21, 0x0E32, 0x0E23, 0x0E16, 0x0E27,
      0x0E34, 0x0E40, 0x0E04, 0x0E23, 0x0E32, 0x0E30, 0x0E2B, 0x0E4C, 0x0E44, 0x0E14,
      0x0E49, 0x0E43, 0x0E19, 0x0E02, 0x0E13, 0x0E30, 0x0E19, 0x0E35, 0x0E49]"

definition recommend_places_route ::
  "(js_error \<Rightarrow> string) \<Rightarrow> json_parser \<Rightarrow> jsval option \<Rightarrow> (jsval \<Rightarrow> fetch_result) \<Rightarrow> http_response" where
  "recommend_places_route msg parse =
     proxy_post msg parse ''recommendations'' ''Failed to fetch recommendations'' (''recommendations'', JArr [])"

definition recommend_new_investment_route ::
  "(js_error \<Rightarrow> string) \<Rightarrow> json_parser \<Rightarrow> jsval option \<Rightarrow> (jsval \<Rightarrow> fetch_result) \<Rightarrow> http_response" where
  "recommend_new_investment_route msg parse =
     proxy_post msg parse ''recommendation'' ''Failed to fetch investment recommendations''
       (''recommendation'', JStr recommendation_unavailable)"

definition analyze_existing_investment_route ::
  "(js_error \<Rightarrow> string) \<Rightarrow> json_parser \<Rightarrow> jsval option \<Rightarrow> (jsval \<Rightarrow> fetch_result) \<Rightarrow> http_response" where
  "analyze_existing_investment_route msg parse =
     proxy_post msg parse ''analysis'' ''Failed to analyze existing investment''
       (''analysis'', JStr analysis_unavailable)"

subsection \<open>Chat and image proxies\<close>

definition chat_unavailable :: string where
  "chat_unavailable =
     utf8 [0x0E02, 0x0E2D, 0x0E2D, 0x0E20, 0x0E31, 0x0E22, 0x20, 0x0E44, 0x0E21, 0x0E48,
      0x0E2A, 0x0E32, 0x0E21, 0x0E32, 0x0E23, 0x0E16, 0x0E15, 0x0E2D, 0x0E1A, 0x0E04,
      0x0E33, 0x0E16, 0x0E32, 0x0E21, 0x0E44, 0x0E14, 0x0E49, 0x0E43, 0x0E19, 0x0E02,
      0x0E13, 0x0E30, 0x0E19, 0x0E35, 0x0E49]"

text \<open>\<open>typhoon-chat/route.ts\<close>: the response text must be JSON (\<open>response.json()\<close>).\<close>

definition typhoon_chat_route ::
  "(js_error \<Rightarrow> string) \<Rightarrow> json_parser \<Rightarrow> jsval option \<Rightarrow> (jsval \<Rightarrow> fetch_result) \<Rightarrow> http_response" where
  "typhoon_chat_route msg parse req upstream =
     (let r = (case req of
                 None \<Rightarrow> Inl (Engine SyntaxError)
               | Some body \<Rightarrow>
                   (case upstream body of
                      NetworkFailure \<Rightarrow> Inl (Engine TypeError)
                    | Response st responseText \<Rightarrow>
                        (if \<not> http_ok st then Inl (status_error st)
                         else (case parse responseText of
                                 Some d \<Rightarrow> Inr d
                               | None \<Rightarrow> Inl (Engine SyntaxError)))))
      in case r of
           Inr d \<Rightarrow> json_response 200 d
         | Inl e \<Rightarrow> json_response 500 (JObj [(''error'', JStr ''Failed to get chat response''),
                                             (''details'', exn_message msg e),
                                             (''response'', JStr chat_unavailable)]))"

text \<open>
  \<open>analyze-image/route.ts\<close>: \<open>request.formData()\<close> is the parameter
  \<open>form\<close> (\<^term>\<open>None\<close> when the body is not multipart), forwarded as is.
\<close>

definition analyze_image_route ::
  "json_parser \<Rightarrow> 'f option \<Rightarrow> ('f \<Rightarrow> fetch_result) \<Rightarrow> http_response" where
  "analyze_image_route parse form upstream =
     (case (case form of
              None \<Rightarrow> None
            | Some fd \<Rightarrow> (case upstream fd of
                            NetworkFailure \<Rightarrow> None
                          | Response st responseText \<Rightarrow> if \<not> http_ok st then None else parse responseText)) of
        Some d \<Rightarrow> json_response 200 d
      | None \<Rightarrow> json_response 500 (JObj [(''error'', JStr ''Failed to analyze image'')]))"

subsection \<open>The client\<close>

text \<open>
  \<open>APIService.makeRequest\<close> (lines 4--40) in the browser, where every page
  runs it: the request goes to \<open>/api\<close> followed by the endpoint, that is to
  the route handler \<open>route\<close>; a status outside 200--299 throws an error
  carrying the status and the body text; otherwise the body is returned.
  The thrown error is kept as the status and the body it was built from.
\<close>

datatype client_error =
    HttpError nat jsval   \<comment> \<open>\<open>new Error(`HTTP ${response.status}: ${errorText}`)\<close>\<close>
  | WeatherFailed nat     \<comment> \<open>\<open>new Error(`Weather API failed: ${response.status}`)\<close>, line 104\<close>

definition API_BASE_URL :: string where
  "API_BASE_URL = ''https://2f2a-203-156-9-142.ngrok-free.app''"

definition request_url :: "bool \<Rightarrow> string \<Rightarrow> string" where
  "request_url isBrowser endpoint = (if isBrowser then ''/api'' @ endpoint else API_BASE_URL @ endpoint)"

definition request_headers :: "bool \<Rightarrow> (string \<times> string) list" where
  "request_headers isBrowser =
     [(''Content-Type'', ''application/json'')] @ (if isBrowser then [] else [(''ngrok-skip-browser-warning'', ''true'')])"

definition make_request :: "http_response \<Rightarrow> client_error + jsval" where
  "make_request resp =
     (if \<not> http_ok (http_status resp) then Inl (HttpError (http_status resp) (http_body resp))
      else Inr (http_body resp))"

text \<open>
  \<open>analyzeImages\<close> (lines 72--91): the files go as form data to
  \<open>/api/analyze-image\<close> in the browser; a status outside 200--299 throws
  with the status and the body text, otherwise the body is returned.
\<close>

definition image_url :: "bool \<Rightarrow> string" where
  "image_url isBrowser = (if isBrowser then ''/api/analyze-image'' else API_BASE_URL @ ''/analyze-image'')"

definition analyzeImages :: "http_response \<Rightarrow> client_error + jsval" where
  "analyzeImages response =
     (if \<not> http_ok (http_status response) then Inl (HttpError (http_status response) (http_body response))
      else Inr (http_body response))"

text \<open>
  \<open>getWeatherData(lat, lng)\<close> (lines 93--108), which no page calls.  The
  coordinates go into the URL with \<open>lat || 18.8022\<close>, so a latitude of
  \<open>0\<close> (the equator) or \<open>NaN\<close> is replaced by Chiang Mai's; a number is
  printed by \<open>Number::toString\<close>, the parameter \<open>numStr\<close> for finite values.
\<close>

definition js_number_string :: "(real \<Rightarrow> string) \<Rightarrow> js_float \<Rightarrow> string" where
  "js_number_string numStr x =
     (case x of Fin r \<Rightarrow> numStr r | PInf \<Rightarrow> ''Infinity'' | NInf \<Rightarrow> ''-Infinity'' | NaN \<Rightarrow> ''NaN'')"

definition js_float_or :: "js_float option \<Rightarrow> real \<Rightarrow> js_float" where
  "js_float_or x d = (case x of Some v \<Rightarrow> if js_truthy_num v then v else Fin d | None \<Rightarrow> Fin d)"

definition weather_client_url :: "(real \<Rightarrow> string) \<Rightarrow> bool \<Rightarrow> js_float option \<Rightarrow> js_float option \<Rightarrow> string" where
  "weather_client_url numStr isBrowser la0 lo0 =
     (let la = js_number_string numStr (js_float_or la0 18.8022); lo = js_number_string numStr (js_float_or lo0 98.9525)
      in if isBrowser then ''/api/weather?lat='' @ la @ ''&lon='' @ lo
         else ''https://api.openweathermap.org/data/2.5/weather?lat='' @ la @ ''&lon='' @ lo
              @ ''&appid=973959347b8a6178b1089d57b2fddf0a&units=metric&lang=th'')"

definition getWeatherData :: "http_response \<Rightarrow> client_error + jsval" where
  "getWeatherData response =
     (if \<not> http_ok (http_status response) then Inl (WeatherFailed (http_status response)) else Inr (http_body response))"

subsection \<open>Properties\<close>

lemma proxy_post_cases:
  "proxy_post msg parse textKey errText errField req upstream =
     (case req of
        None \<Rightarrow> json_response 500 (JObj [(''error'', JStr errText), (''details'', JStr (msg SyntaxError)), errField])
      | Some body \<Rightarrow>
          (case upstream body of
             NetworkFailure \<Rightarrow> json_response 500 (JObj [(''error'', JStr errText), (''details'', JStr (msg TypeError)), errField])
           | Response st responseText \<Rightarrow>
               (if \<not> http_ok st then json_response 500 (JObj [(''error'', JStr errText),
                                        (''details'', JStr (''API responded with status: '' @ nat_digits st)), errField])
                else json_response 200 (case parse responseText of
                                          Some d \<Rightarrow> d
                                        | None \<Rightarrow> JObj [(''message'', JStr responseText), (textKey, JStr responseText)]))))"
  by (simp add: proxy_post_def exn_message_def status_error_def split: option.split fetch_result.split)

text \<open>
  C26: What a page receives from the three recommendation and analysis
  endpoints: a value exactly when the request body is JSON and the external
  service answers with a 2xx status, and then the parsed answer, or for a
  non-JSON answer an object carrying the text under \<open>message\<close> and the
  endpoint's text key.  The error objects the handlers build with status 500
  never reach a page: the client throws on them.
\<close>

theorem proxy_client_result:
  "make_request (proxy_post msg parse textKey errText errField req upstream) = Inr d \<longleftrightarrow>
     (\<exists>body st txt. req = Some body \<and> upstream body = Response st txt \<and> http_ok st \<and>
        d = (case parse txt of Some v \<Rightarrow> v | None \<Rightarrow> JObj [(''message'', JStr txt), (textKey, JStr txt)]))"
  by (cases req) (auto simp: make_request_def proxy_post_cases json_response_def http_ok_def split: fetch_result.splits)

text \<open>
  The chat endpoint delivers a value to a page exactly when the external
  service answers with a 2xx status and JSON text, and the value is that JSON;
  the apology text that the handler puts in its error object (line 35) is
  never delivered.
\<close>

theorem typhoon_client_result:
  "make_request (typhoon_chat_route msg parse req upstream) = Inr d \<longleftrightarrow>
     (\<exists>body st txt. req = Some body \<and> upstream body = Response st txt \<and> http_ok st \<and> parse txt = Some d)"
  by (auto simp: make_request_def typhoon_chat_route_def json_response_def http_ok_def
           split: option.splits fetch_result.splits sum.splits)

text \<open>A weather request for the equator asks for Chiang Mai's weather instead.\<close>

lemma weather_equator_replaced:
  "weather_client_url numStr True (Some (Fin 0)) lo = weather_client_url numStr True None lo"
  by (simp add: weather_client_url_def js_float_or_def js_truthy_num_def)

text \<open>
  The two clients agree: a response reaches the upload page exactly as
  \<open>makeRequest\<close> would deliver it, and both go to the route handler of
  their endpoint in the browser.
\<close>

lemma analyzeImages_as_makeRequest:
  "analyzeImages resp = make_request resp \<and> image_url True = request_url True ''/analyze-image''"
  by (simp add: analyzeImages_def make_request_def image_url_def request_url_def)

end
