(* ===== verification/Url.thy ===== *)
theory Url
  imports Json
begin

text \<open>
  \<open>encodeURIComponent\<close> and \<open>openGoogleMaps\<close> (\<open>src/app/page.tsx\<close>
  lines 87--93, repeated in \<open>src/app/results/page.tsx\<close> lines 108--115).
  Strings are UTF-8 byte lists, so \<open>encodeURIComponent\<close> is the
  ECMAScript Encode operation on those bytes: the unreserved characters
  stay, every other byte becomes \<open>%\<close> and two upper-case hex digits.
  A well-formed string never hits Encode's \<open>URIError\<close> (lone surrogates).
\<close>

definition uri_unreserved :: "char \<Rightarrow> bool" where
  "uri_unreserved c \<longleftrightarrow>
     (let n = (of_char c :: nat)
      in (65 \<le> n \<and> n \<le> 90) \<or> (97 \<le> n \<and> n \<le> 122) \<or> (48 \<le> n \<and> n \<le> 57) \<or> n = 39 \<or> c \<in> set ''-_.!~*()'')"

definition hex_digit :: "nat \<Rightarrow> char" where
  "hex_digit d = (if d < 10 then char_of (48 + d) else char_of (55 + d))"

definition uri_escape :: "char \<Rightarrow> string" where
  "uri_escape c =
     (if uri_unreserved c then [c]
      else [CHR ''%'', hex_digit (of_char c div 16), hex_digit (of_char c mod 16)])"

definition encodeURIComponent :: "string \<Rightarrow> string" where
  "encodeURIComponent s = concat (map uri_escape s)"

text \<open>
  \<open>openGoogleMaps(url, name)\<close>: the address given to \<open>window.open\<close>, if
  any.  A truthy \<open>url\<close> is opened as it is; otherwise a truthy \<open>name\<close> is
  searched for.  Values that are not strings go through \<open>ToString\<close>, the
  parameter \<open>tostr\<close>.
\<close>

definition openGoogleMaps :: "(jsval \<Rightarrow> string) \<Rightarrow> jsval \<Rightarrow> jsval \<Rightarrow> string option" where
  "openGoogleMaps tostr url nm =
     (if js_truthy url then Some (case url of JStr u \<Rightarrow> u | v \<Rightarrow> tostr v)
      else if js_truthy nm
      then Some (''https://www.google.com/maps/search/'' @
                 encodeURIComponent (case nm of JStr n \<Rightarrow> n | v \<Rightarrow> tostr v))
      else None)"

text \<open>Percent-decoding, the inverse the properties are stated with.\<close>

definition hex_value :: "char \<Rightarrow> nat" where
  "hex_value c = (let n = (of_char c :: nat) in if n \<le> 57 then n - 48 else n - 55)"

fun uri_decode :: "string \<Rightarrow> string" where
  "uri_decode (c # h1 # h2 # rest) =
     (if c = CHR ''%'' then char_of (16 * hex_value h1 + hex_value h2) # uri_decode rest
      else c # uri_decode (h1 # h2 # rest))"
| "uri_decode cs = cs"

subsection \<open>Properties\<close>

lemma hex_value_digit: "d < 16 \<Longrightarrow> hex_value (hex_digit d) = d"
  by (auto simp: hex_value_def hex_digit_def Let_def)

lemma percent_not_unreserved: "\<not> uri_unreserved CHR ''%''"
  by (simp add: uri_unreserved_def)

lemma uri_escape_char:
  "16 * hex_value (hex_digit (of_char c div 16)) + hex_value (hex_digit (of_char c mod 16)) = of_char c"
proof -
  have "(of_char c :: nat) < 256" by (rule nat_of_char_less_256)
  then have "(of_char c :: nat) div 16 < 16" by linarith
  then show ?thesis by (simp add: hex_value_digit)
qed

lemma uri_decode_escape: "uri_decode (uri_escape c @ rest) = c # uri_decode rest"
proof (cases "uri_unreserved c")
  case True
  then have "c \<noteq> CHR ''%''" using percent_not_unreserved by blast
  then show ?thesis using True
    by (cases rest rule: uri_decode.cases) (simp_all add: uri_escape_def)
next
  case False
  then show ?thesis by (simp add: uri_escape_def uri_escape_char)
qed

text \<open>Round trip: decoding the encoded name gives the name back, so distinct names give distinct search addresses.\<close>

lemma uri_roundtrip: "uri_decode (encodeURIComponent s) = s"
  by (induction s) (simp_all add: encodeURIComponent_def uri_decode_escape)

text \<open>Every character of an encoded name is unreserved, a percent sign or an upper-case hex digit.\<close>

lemma encodeURIComponent_safe:
  "\<forall>c \<in> set (encodeURIComponent s). uri_unreserved c \<or> c = CHR ''%'' \<or> c \<in> set ''0123456789ABCDEF''"
proof -
  define H where "H = set ''0123456789ABCDEF''"
  have "\<forall>d \<in> set [0..<16]. hex_digit d \<in> set ''0123456789ABCDEF''"
    by code_simp
  then have hex: "hex_digit d \<in> H" if "d < 16" for d
    using that unfolding H_def by simp
  have "(of_char c :: nat) div 16 < 16" "(of_char c :: nat) mod 16 < 16" for c
    using nat_of_char_less_256[of c] by linarith+
  then have "\<forall>e \<in> set (uri_escape c). uri_unreserved e \<or> e = CHR ''%'' \<or> e \<in> H" for c
    using hex by (auto simp: uri_escape_def)
  then show ?thesis unfolding H_def[symmetric] encodeURIComponent_def by auto
qed

text \<open>
  A card without a map link but with a name opens the search page for that
  name, and the name can be read back from the address.
\<close>

lemma openGoogleMaps_search:
  assumes "\<not> js_truthy url" "n \<noteq> []"
  shows "\<exists>e. openGoogleMaps tostr url (JStr n) = Some (''https://www.google.com/maps/search/'' @ e)
             \<and> uri_decode e = n"
  using assms by (simp add: openGoogleMaps_def uri_roundtrip)

end
