(* ===== verification/Home.thy ===== *)
theory Home
  imports Results Api Url
begin

text \<open>
  The home page, \<open>src/app/page.tsx\<close>.  Its state is the five hooks of lines
  24--28 and the router; \<open>handleSubmit\<close> (lines 31--85) awaits one API call
  and, if it throws, a second one to the chat endpoint.  Each await is a
  point where other events (typing, switching mode) can happen, so the
  handler is split into the submit, which captures the request built from the
  inputs of that moment, and the replies, which the client
  (\<^const>\<open>make_request\<close>) delivers.  The render of the results (lines
  340--398) is \<open>home_view\<close>.  Non-ASCII literals are UTF-8 byte strings
  written by their code points (\<^const>\<open>utf8\<close>).
\<close>

datatype home_mode = Tourist | Entrepreneur

text \<open>
  The call that is awaited: its endpoint and payload, and for the first call
  the message the handler's closure holds for the fallback.
\<close>

datatype home_pending = Primary string jsval string | Fallback string jsval

record home_state =
  mode :: home_mode
  userMessage :: string
  location :: string
  isLoading :: bool
  results :: jsval
  pending :: "home_pending option"
  nav :: "string option"

definition home_init :: home_state where
  "home_init = \<lparr>mode = Tourist, userMessage = [], location = ''18.8022,98.9525'', isLoading = False,
                results = JNull, pending = None, nav = None\<rparr>"

subsection \<open>Choosing the endpoint\<close>

text \<open>The keywords of lines 50--54: "new opening", "new business", "start", "invest", "budget".\<close>

definition new_business_keywords :: "string list" where
  "new_business_keywords =
     [utf8 [0x0E40, 0x0E1B, 0x0E34, 0x0E14, 0x0E43, 0x0E2B, 0x0E21, 0x0E48],
      utf8 [0x0E18, 0x0E38, 0x0E23, 0x0E01, 0x0E34, 0x0E08, 0x0E43, 0x0E2B, 0x0E21, 0x0E48],
      utf8 [0x0E40, 0x0E23, 0x0E34, 0x0E48, 0x0E21, 0x0E15, 0x0E49, 0x0E19],
      utf8 [0x0E25, 0x0E07, 0x0E17, 0x0E38, 0x0E19],
      utf8 [0x0E07, 0x0E1A]]"

definition isNewBusiness :: "string \<Rightarrow> bool" where
  "isNewBusiness msg \<longleftrightarrow> list_ex (\<lambda>k. js_includes (js_toLowerCase msg) k) new_business_keywords"

definition home_request :: "home_mode \<Rightarrow> string \<Rightarrow> string \<Rightarrow> string \<times> jsval" where
  "home_request md msg loc =
     (if md = Tourist then
        (''/recommend-places'',
         JObj [(''user_message'', JStr msg), (''location'', JStr loc), (''radius'', JNum (Fin 3000))])
      else if isNewBusiness msg then
        (''/recommend-new-investment'',
         JObj [(''user_message'', JStr msg), (''location'', JStr loc), (''entrepreneur_type'', JStr ''new'')])
      else
        (''/analyze-existing-investment'',
         JObj [(''business_name'', JStr msg), (''location'', JStr loc), (''category'', JStr ''general'')]))"

definition chat_fallback_request :: "string \<Rightarrow> string \<times> jsval" where
  "chat_fallback_request msg =
     (''/typhoon-chat'', JObj [(''messages'', JArr [JObj [(''role'', JStr ''user''), (''content'', JStr msg)]])])"

text \<open>The quick suggestions of lines 147--160.\<close>

definition quickSuggestions :: "home_mode \<Rightarrow> string list" where
  "quickSuggestions md =
     (if md = Tourist then
       [utf8 [0x0E2B, 0x0E32, 0x0E23, 0x0E49, 0x0E32, 0x0E19, 0x0E2A, 0x0E40, 0x0E15, 0x0E47,
        0x0E01, 0x20, 0x0E40, 0x0E2B, 0x0E21, 0x0E32, 0x0E30, 0x0E2A, 0x0E33, 0x0E2B,
        0x0E23, 0x0E31, 0x0E1A, 0x0E19, 0x0E31, 0x0E48, 0x0E07, 0x0E01, 0x0E34, 0x0E19,
        0x0E04, 0x0E19, 0x0E40, 0x0E14, 0x0E35, 0x0E22, 0x0E27, 0x20, 0x0E1F, 0x0E31,
        0x0E07, 0x0E40, 0x0E1E, 0x0E25, 0x0E07, 0x0E0A, 0x0E34, 0x0E27, 0x0E46, 0x20,
        0x0E21, 0x0E35, 0x0E17, 0x0E35, 0x0E48, 0x0E08, 0x0E2D, 0x0E14, 0x0E23, 0x0E16,
        0x20, 0x0E21, 0x0E35, 0x0E40, 0x0E07, 0x0E34, 0x0E19, 0x20, 0x32, 0x30,
        0x30, 0x30, 0x20, 0x0E1A, 0x0E32, 0x0E17],
        utf8 [0x0E04, 0x0E32, 0x0E40, 0x0E1F, 0x0E48, 0x0E1A, 0x0E23, 0x0E23, 0x0E22, 0x0E32,
        0x0E01, 0x0E32, 0x0E28, 0x0E14, 0x0E35, 0x20, 0x0E27, 0x0E34, 0x0E27, 0x0E2A,
        0x0E27, 0x0E22, 0x20, 0x0E40, 0x0E2B, 0x0E21, 0x0E32, 0x0E30, 0x0E16, 0x0E48,
        0x0E32, 0x0E22, 0x0E23, 0x0E39, 0x0E1B],
        utf8 [0x0E23, 0x0E49, 0x0E32, 0x0E19, 0x0E2D, 0x0E32, 0x0E2B, 0x0E32, 0x0E23, 0x0E40,
        0x0E08, 0x20, 0x0E21, 0x0E31, 0x0E07, 0x0E2A, 0x0E27, 0x0E34, 0x0E23, 0x0E31,
        0x0E15, 0x0E34, 0x20, 0x0E23, 0x0E32, 0x0E04, 0x0E32, 0x0E44, 0x0E21, 0x0E48,
        0x0E41, 0x0E1E, 0x0E07],
        utf8 [0x0E23, 0x0E49, 0x0E32, 0x0E19, 0x0E2D, 0x0E32, 0x0E2B, 0x0E32, 0x0E23, 0x0E40,
        0x0E01, 0x0E32, 0x0E2B, 0x0E25, 0x0E35, 0x20, 0x0E2D, 0x0E23, 0x0E48, 0x0E2D,
        0x0E22, 0x20, 0x0E43, 0x0E01, 0x0E25, 0x0E49, 0x0E19, 0x0E34, 0x0E21, 0x0E21,
        0x0E32, 0x0E19]]
      else
       [utf8 [0x0E40, 0x0E1B, 0x0E47, 0x0E19, 0x0E19, 0x0E31, 0x0E01, 0x0E25, 0x0E07, 0x0E17,
        0x0E38, 0x0E19, 0x0E23, 0x0E32, 0x0E22, 0x0E43, 0x0E2B, 0x0E21, 0x0E48, 0x20,
        0x0E07, 0x0E1A, 0x20, 0x34, 0x30, 0x30, 0x30, 0x30, 0x30, 0x30,
        0x20, 0x0E40, 0x0E1B, 0x0E34, 0x0E14, 0x0E04, 0x0E32, 0x0E40, 0x0E1F, 0x0E48,
        0x0E02, 0x0E49, 0x0E32, 0x0E07, 0x0E40, 0x0E21, 0x0E0D, 0x0E48, 0x0E32, 0x20,
        0x0E2D, 0x0E22, 0x0E32, 0x0E01, 0x0E23, 0x0E39, 0x0E49, 0x0E27, 0x0E48, 0x0E32,
        0x0E04, 0x0E27, 0x0E23, 0x0E17, 0x0E33, 0x0E02, 0x0E19, 0x0E21, 0x0E1B, 0x0E23,
        0x0E30, 0x0E21, 0x0E32, 0x0E13, 0x0E44, 0x0E2B, 0x0E19, 0x0E14, 0x0E35],
        utf8 [0x0E27, 0x0E34, 0x0E40, 0x0E04, 0x0E23, 0x0E32, 0x0E30, 0x0E2B, 0x0E4C, 0x0E23,
        0x0E49, 0x0E32, 0x0E19, 0x0E02, 0x0E49, 0x0E32, 0x0E27, 0x0E21, 0x0E31, 0x0E19,
        0x0E44, 0x0E01, 0x0E48, 0x0E19, 0x0E34, 0x0E21, 0x0E21, 0x0E32, 0x0E19],
        utf8 [0x0E2D, 0x0E22, 0x0E32, 0x0E01, 0x0E40, 0x0E1B, 0x0E34, 0x0E14, 0x0E23, 0x0E49,
        0x0E32, 0x0E19, 0x0E2D, 0x0E32, 0x0E2B, 0x0E32, 0x0E23, 0x0E43, 0x0E2B, 0x0E21,
        0x0E48, 0x20, 0x0E07, 0x0E1A, 0x20, 0x32, 0x20, 0x0E25, 0x0E49, 0x0E32,
        0x0E19, 0x20, 0x0E17, 0x0E35, 0x0E48, 0x0E44, 0x0E2B, 0x0E19, 0x0E14, 0x0E35],
        utf8 [0x0E1B, 0x0E23, 0x0E31, 0x0E1A, 0x0E1B, 0x0E23, 0x0E38, 0x0E07, 0x0E23, 0x0E49,
        0x0E32, 0x0E19, 0x0E01, 0x0E32, 0x0E41, 0x0E1F, 0x0E40, 0x0E14, 0x0E34, 0x0E21,
        0x20, 0x0E40, 0x0E1E, 0x0E34, 0x0E48, 0x0E21, 0x0E22, 0x0E2D, 0x0E14, 0x0E02,
        0x0E32, 0x0E22]])"

subsection \<open>Events\<close>

text \<open>
  \<open>Submit\<close> is the form submission; the submit button is disabled while
  loading or while the message is blank (line 304), so a submission while
  loading does not happen.  \<open>Reply\<close> is the settled promise of the awaited call.
  \<open>DismissError\<close> is the button of the error block (line 352).
\<close>

datatype home_event =
    SetMode home_mode | TypeMessage string | TypeLocation string | QuickSuggestion nat
  | Submit | Reply "client_error + jsval" | DismissError

text \<open>\<open>{ message: fallbackResult.response || fallbackResult.message }\<close>, line 78.\<close>

definition fallback_results :: "jsval \<Rightarrow> js_error + jsval" where
  "fallback_results fr =
     (if js_nullish fr then Inl TypeError
      else Inr (JObj [(''message'', js_or_chain [js_get fr ''response'', js_get fr ''message''])]))"

fun home_step :: "home_state \<Rightarrow> home_event \<Rightarrow> home_state" where
  "home_step s (SetMode md) = s\<lparr>mode := md\<rparr>"
| "home_step s (TypeMessage m) = s\<lparr>userMessage := m\<rparr>"
| "home_step s (TypeLocation l) = s\<lparr>location := l\<rparr>"
| "home_step s (QuickSuggestion i) =
     (if i < length (quickSuggestions (mode s)) then s\<lparr>userMessage := quickSuggestions (mode s) ! i\<rparr> else s)"
| "home_step s Submit =
     (if isLoading s \<or> js_trim (userMessage s) = [] then s
      else (case home_request (mode s) (userMessage s) (location s) of
              (ep, d) \<Rightarrow> s\<lparr>isLoading := True, results := JNull,
                             pending := Some (Primary ep d (userMessage s))\<rparr>))"
| "home_step s (Reply r) =
     (case pending s of
        None \<Rightarrow> s
      | Some (Primary ep d msg) \<Rightarrow>
          (case r of
             Inr res \<Rightarrow> s\<lparr>results := res, isLoading := False, pending := None\<rparr>
           | Inl _ \<Rightarrow> (case chat_fallback_request msg of (ep', d') \<Rightarrow> s\<lparr>pending := Some (Fallback ep' d')\<rparr>))
      | Some (Fallback ep d) \<Rightarrow>
          (case r of
             Inr fr \<Rightarrow> (case fallback_results fr of
                          Inr v \<Rightarrow> s\<lparr>results := v, isLoading := False, pending := None\<rparr>
                        | Inl _ \<Rightarrow> s\<lparr>nav := Some ''/error'', isLoading := False, pending := None\<rparr>)
           | Inl _ \<Rightarrow> s\<lparr>nav := Some ''/error'', isLoading := False, pending := None\<rparr>))"
| "home_step s DismissError =
     (if js_truthy (results s) \<and> js_truthy (js_get (results s) ''error'') then s\<lparr>results := JNull\<rparr> else s)"

fun home_run :: "home_state \<Rightarrow> home_event list \<Rightarrow> home_state" where
  "home_run s [] = s"
| "home_run s (e # es) = home_run (home_step s e) es"

inductive home_reachable :: "home_state \<Rightarrow> bool" where
  init: "home_reachable home_init"
| step: "home_reachable s \<Longrightarrow> home_reachable (home_step s e)"

subsection \<open>The results section\<close>

text \<open>
  Lines 340--398, shown when \<open>results\<close> is truthy: the error block, the text
  block (the first truthy of \<open>analysis\<close>, \<open>message\<close>, \<open>recommendations\<close>,
  \<open>recommendation\<close>, split into lines, which throws unless it is a string)
  and one card per element of a non-empty \<open>recommendations\<close> array.
\<close>

record home_view =
  error_block :: "jsval option"
  text_paragraphs :: "string list option"
  home_cards :: "rec_fields list"

definition home_text :: "jsval \<Rightarrow> js_error + string list option" where
  "home_text r =
     (let a = js_get r ''analysis''; m = js_get r ''message'';
          rs = js_get r ''recommendations''; rc = js_get r ''recommendation''
      in if js_truthy (js_or_chain [a, m, rs, rc])
         then (case js_or_chain [a, m, rs, rc, JStr []] of JStr t \<Rightarrow> Inr (Some (js_lines t)) | _ \<Rightarrow> Inl TypeError)
         else Inr None)"

definition home_view :: "home_state \<Rightarrow> js_error + home_view option" where
  "home_view s =
     (let r = results s
      in if \<not> js_truthy r then Inr None
         else (case home_text r of
                 Inl e \<Rightarrow> Inl e
               | Inr paras \<Rightarrow>
                   (case (case js_get r ''recommendations'' of
                            JArr xs \<Rightarrow> if xs \<noteq> [] then render_recs xs else Inr []
                          | _ \<Rightarrow> Inr []) of
                      Inl e \<Rightarrow> Inl e
                    | Inr cs \<Rightarrow> Inr (Some \<lparr>error_block = (if js_truthy (js_get r ''error'') then Some (js_get r ''error'') else None),
                                          text_paragraphs = paras, home_cards = cs\<rparr>))))"

subsection \<open>Invariant\<close>

text \<open>
  The loading flag is set exactly while a call is awaited, the results are
  cleared while loading, and the only navigation is to the error page.
\<close>

definition home_inv :: "home_state \<Rightarrow> bool" where
  "home_inv s \<longleftrightarrow> (isLoading s \<longleftrightarrow> pending s \<noteq> None) \<and> (isLoading s \<longrightarrow> results s = JNull)
                   \<and> nav s \<in> {None, Some ''/error''}"

subsection \<open>Properties\<close>

lemma js_lower_char_nonascii: "128 \<le> (of_char d :: nat) \<Longrightarrow> js_lower_char c = d \<Longrightarrow> c = d"
  by (auto simp: js_lower_char_def of_char_of split: if_split_asm)

lemma js_lower_char_id: "128 \<le> (of_char c :: nat) \<Longrightarrow> js_lower_char c = c"
  by (simp add: js_lower_char_def)

lemma map_lower_nonascii:
  "\<forall>d \<in> set k. 128 \<le> (of_char d :: nat) \<Longrightarrow> map js_lower_char m = k \<Longrightarrow> m = k"
proof (induction m arbitrary: k)
  case Nil then show ?case by simp
next
  case (Cons c m)
  then obtain d k' where k: "k = d # k'" "js_lower_char c = d" "map js_lower_char m = k'" by auto
  then show ?case using Cons js_lower_char_nonascii[of d c] by auto
qed

lemma includes_lower_nonascii:
  assumes "\<forall>d \<in> set k. 128 \<le> (of_char d :: nat)"
  shows "js_includes (js_toLowerCase msg) k \<longleftrightarrow> sublist k msg"
proof
  assume "js_includes (js_toLowerCase msg) k"
  then obtain ps ss where "map js_lower_char msg = ps @ k @ ss"
    by (auto simp: js_includes_def js_toLowerCase_def sublist_def)
  then obtain us vs where "msg = us @ vs" "map js_lower_char vs = k @ ss"
    by (metis map_eq_append_conv)
  moreover from this(2) obtain mid ss' where "vs = mid @ ss'" "map js_lower_char mid = k"
    by (metis map_eq_append_conv)
  ultimately obtain ps' where "msg = ps' @ mid @ ss'" "map js_lower_char mid = k"
    by blast
  moreover have "mid = k"
    using map_lower_nonascii[OF assms] calculation(2) .
  ultimately show "sublist k msg"
    by (auto simp: sublist_def)
next
  assume "sublist k msg"
  then obtain ps ss where "msg = ps @ k @ ss" by (auto simp: sublist_def)
  moreover have "map js_lower_char k = k"
    using assms by (induction k) (auto simp: js_lower_char_id)
  ultimately show "js_includes (js_toLowerCase msg) k"
    by (auto simp: js_includes_def js_toLowerCase_def sublist_def)
qed

lemma keywords_nonascii: "\<forall>k \<in> set new_business_keywords. \<forall>d \<in> set k. 128 \<le> (of_char d :: nat)"
  by (simp add: new_business_keywords_def utf8_def utf8_char_def)

lemma home_step_inv: "home_inv s \<Longrightarrow> home_inv (home_step s e)"
  by (cases e) (auto simp: home_inv_def split: prod.split option.split home_pending.split sum.split)

lemma home_run_reachable: "home_reachable s \<Longrightarrow> home_reachable (home_run s es)"
  by (induction es arbitrary: s) (auto intro: home_reachable.step)

lemma home_step_loading_keeps:
  "isLoading s \<Longrightarrow> (case e of Reply _ \<Rightarrow> False | _ \<Rightarrow> True) \<Longrightarrow>
   pending (home_step s e) = pending s \<and> isLoading (home_step s e)"
  by (cases e) auto

lemma home_run_loading_keeps:
  "isLoading s \<Longrightarrow> list_all (\<lambda>e. case e of Reply _ \<Rightarrow> False | _ \<Rightarrow> True) es \<Longrightarrow>
   pending (home_run s es) = pending s"
proof (induction es arbitrary: s)
  case Nil then show ?case by simp
next
  case (Cons e es) then show ?case using home_step_loading_keeps[of s e] by simp
qed

text \<open>C20: The keyword test of lines 49--54 is a plain substring test on the
  message: lowercasing first changes nothing, because every keyword is Thai text, which has no
  case and whose UTF-8 bytes lowercasing never produces.\<close>

theorem isNewBusiness_case_free:
  "isNewBusiness msg \<longleftrightarrow> (\<exists>k \<in> set new_business_keywords. sublist k msg)"
  using keywords_nonascii by (auto simp: isNewBusiness_def list_ex_iff includes_lower_nonascii)

text \<open>Substring matching misroutes: an entrepreneur asking about "a cafe
  with a calm atmosphere" (the word for calm contains the keyword for budget) is sent to the
  new-investment endpoint instead of the analysis of an existing business.\<close>

theorem calm_cafe_routed_as_new_investment:
  "fst (home_request Entrepreneur
         (utf8 [0x0E23, 0x0E49, 0x0E32, 0x0E19, 0x0E01, 0x0E32, 0x0E41, 0x0E1F, 0x0E1A, 0x0E23,
                0x0E23, 0x0E22, 0x0E32, 0x0E01, 0x0E32, 0x0E28, 0x0E2A, 0x0E07, 0x0E1A]) loc)
   = ''/recommend-new-investment''"
  by code_simp

text \<open>C21: A result whose \<open>recommendations\<close> is an array and which has no
  truthy \<open>analysis\<close> or \<open>message\<close> crashes the render: the text block calls
  \<open>split\<close> on the array (line 370).\<close>

theorem array_recommendations_crash:
  assumes "js_get (results s) ''recommendations'' = JArr xs"
    and "\<not> js_truthy (js_get (results s) ''analysis'')" "\<not> js_truthy (js_get (results s) ''message'')"
  shows "home_view s = Inl TypeError"
proof -
  have "js_truthy (results s)"
    using assms(1) by (cases "results s") auto
  moreover have "home_text (results s) = Inl TypeError"
    using assms by (simp add: home_text_def js_or_chain_Cons)
  ultimately show ?thesis
    by (simp add: home_view_def)
qed

theorem array_recommendations_crash_witness:
  "home_view (home_init\<lparr>results := JObj [(''recommendations'', JArr [JObj [(''name'', JStr ''Wat Umong'')]])]\<rparr>)
     = Inl TypeError"
  using array_recommendations_crash[of "home_init\<lparr>results := JObj [(''recommendations'', JArr [JObj [(''name'', JStr ''Wat Umong'')]])]\<rparr>"
      "[JObj [(''name'', JStr ''Wat Umong'')]]"]
  by simp

text \<open>C22: In every reachable state of the home page, \<open>isLoading\<close> holds
  exactly while a call is awaited, the results are empty while loading, and the page navigates
  only to \<open>/error\<close>.\<close>

theorem home_reachable_invariant: "home_reachable s \<Longrightarrow> home_inv s"
proof (induction rule: home_reachable.induct)
  case init
  show ?case by (simp add: home_inv_def home_init_def)
next
  case (step s e)
  then show ?case by (simp add: home_step_inv)
qed

theorem home_reachable_invariant_witness:
  "home_inv (home_run home_init [TypeMessage ''khao soi'', Submit, Reply (Inl (HttpError 500 JNull))])"
  using home_reachable_invariant[OF home_run_reachable[OF home_reachable.init,
          of "[TypeMessage ''khao soi'', Submit, Reply (Inl (HttpError 500 JNull))]"]] .

text \<open>C23: The call made by a submit is built from the mode, message and location
  at the moment of the submit; events before its reply (switching mode, typing) do not change it.\<close>

theorem submit_captures_inputs:
  assumes "\<not> isLoading s" "js_trim (userMessage s) \<noteq> []"
    and "list_all (\<lambda>e. case e of Reply _ \<Rightarrow> False | _ \<Rightarrow> True) es"
  shows "pending (home_run s (Submit # es)) =
           Some (Primary (fst (home_request (mode s) (userMessage s) (location s)))
                         (snd (home_request (mode s) (userMessage s) (location s))) (userMessage s))"
proof -
  have "isLoading (home_step s Submit)"
    and p: "pending (home_step s Submit) = Some (Primary (fst (home_request (mode s) (userMessage s) (location s)))
                         (snd (home_request (mode s) (userMessage s) (location s))) (userMessage s))"
    using assms(1,2) by (simp_all split: prod.split)
  then show ?thesis
    using home_run_loading_keeps[OF _ assms(3)] by simp
qed

theorem submit_captures_inputs_witness:
  "pending (home_run (home_init\<lparr>userMessage := ''khao soi''\<rparr>) [Submit, SetMode Entrepreneur, TypeMessage ''x'']) =
     Some (Primary ''/recommend-places''
             (JObj [(''user_message'', JStr ''khao soi''), (''location'', JStr ''18.8022,98.9525''), (''radius'', JNum (Fin 3000))])
             ''khao soi'')"
  using submit_captures_inputs[of "home_init\<lparr>userMessage := ''khao soi''\<rparr>" "[SetMode Entrepreneur, TypeMessage ''x'']"]
  by (simp add: home_init_def home_request_def js_trim_def js_is_ws_def)

text \<open>C24: When the first call throws, the chat endpoint is asked with the
  captured message; its failure, or a \<open>null\<close> answer, sends the page to \<open>/error\<close>, and
  an object answer is shown as \<open>{message: response || message}\<close>.\<close>

theorem fallback_outcomes:
  assumes "pending s = Some (Primary ep d msg)"
  shows "pending (home_step s (Reply (Inl e))) = Some (Fallback ''/typhoon-chat'' (snd (chat_fallback_request msg)))
         \<and> nav (home_run s [Reply (Inl e), Reply (Inl e')]) = Some ''/error''
         \<and> nav (home_run s [Reply (Inl e), Reply (Inr JNull)]) = Some ''/error''
         \<and> results (home_run s [Reply (Inl e), Reply (Inr (JObj kvs))])
               = JObj [(''message'', js_or_chain [js_get (JObj kvs) ''response'', js_get (JObj kvs) ''message''])]"
  using assms by (simp add: chat_fallback_request_def fallback_results_def)

theorem fallback_outcomes_witness:
  "results (home_run (home_init\<lparr>pending := Some (Primary ''/recommend-places'' JNull ''khao soi'')\<rparr>)
              [Reply (Inl (HttpError 500 JNull)), Reply (Inr (JObj [(''response'', JStr ''Try Khao Soi Khun Yai'')]))])
     = JObj [(''message'', JStr ''Try Khao Soi Khun Yai'')]"
  using fallback_outcomes[of "home_init\<lparr>pending := Some (Primary ''/recommend-places'' JNull ''khao soi'')\<rparr>"
      "''/recommend-places''" JNull "''khao soi''" "HttpError 500 JNull" "HttpError 500 JNull"
      "[(''response'', JStr ''Try Khao Soi Khun Yai'')]"]
  by (simp add: js_or_chain_Cons chat_fallback_request_def fallback_results_def)

text \<open>
  C25: Every awaited call is settled within two replies: from any state with
  the page invariant (so every reachable state), whatever the two replies are,
  loading has ended and nothing is pending.  A first failure only moves the
  call to the chat fallback, whose reply always ends it.
\<close>

theorem home_settles_within_two_replies:
  assumes "home_inv s"
  shows "\<not> isLoading (home_run s [Reply r1, Reply r2]) \<and> pending (home_run s [Reply r1, Reply r2]) = None"
  using assms by (auto simp: home_inv_def split: option.split home_pending.split sum.split prod.split)

theorem home_settles_within_two_replies_witness:
  "home_inv (home_step (home_init\<lparr>userMessage := ''khao soi''\<rparr>) Submit)
   \<and> \<not> isLoading (home_run (home_step (home_init\<lparr>userMessage := ''khao soi''\<rparr>) Submit)
                     [Reply (Inl (HttpError 500 JNull)), Reply (Inl (HttpError 502 JNull))])"
proof -
  have h: "home_inv (home_step (home_init\<lparr>userMessage := ''khao soi''\<rparr>) Submit)"
    by (simp add: home_inv_def home_init_def js_trim_def js_is_ws_def split: prod.split)
  show ?thesis using h home_settles_within_two_replies[OF h] by blast
qed

end
