(* ===== verification/Chat.thy ===== *)
theory Chat
  imports Api
begin

text \<open>
  The chat page, \<open>src/app/chat/page.tsx\<close>: a conversation that starts with
  the assistant's greeting and grows by one user message on each send and
  one assistant message when the call to \<open>/typhoon-chat\<close> settles.  As on
  the home page, \<open>handleSendMessage\<close> (lines 38--77) is split at its await
  into the send, which appends the user message and captures the request, and
  the reply.  Timestamps (\<open>new Date()\<close>) and scrolling are not modelled.
  A message's content is a \<^typ>\<open>jsval\<close>: the assistant's content is whatever
  the API returned.
\<close>

datatype chat_role = User | Assistant

record chat_message =
  role :: chat_role
  content :: jsval

record chat_state =
  messages :: "chat_message list"
  inputMessage :: string
  isLoading :: bool
  chat_pending :: "jsval option"

definition chat_greeting :: string where
  "chat_greeting =
     utf8 [0x0E2A, 0x0E27, 0x0E31, 0x0E2A, 0x0E14, 0x0E35, 0x0E04, 0x0E23, 0x0E31, 0x0E1A,
      0x21, 0x20, 0x0E1C, 0x0E21, 0x0E40, 0x0E1B, 0x0E47, 0x0E19, 0x20, 0x42,
      0x44, 0x49, 0x20, 0x41, 0x73, 0x73, 0x69, 0x73, 0x74, 0x61,
      0x6E, 0x74, 0x20, 0x0E17, 0x0E35, 0x0E48, 0x0E1E, 0x0E23, 0x0E49, 0x0E2D,
      0x0E21, 0x0E0A, 0x0E48, 0x0E27, 0x0E22, 0x0E15, 0x0E2D, 0x0E1A, 0x0E04, 0x0E33,
      0x0E16, 0x0E32, 0x0E21, 0x0E40, 0x0E01, 0x0E35, 0x0E48, 0x0E22, 0x0E27, 0x0E01,
      0x0E31, 0x0E1A, 0x0E2A, 0x0E16, 0x0E32, 0x0E19, 0x0E17, 0x0E35, 0x0E48, 0x0E17,
      0x0E48, 0x0E2D, 0x0E07, 0x0E40, 0x0E17, 0x0E35, 0x0E48, 0x0E22, 0x0E27, 0x20,
      0x0E23, 0x0E49, 0x0E32, 0x0E19, 0x0E2D, 0x0E32, 0x0E2B, 0x0E32, 0x0E23, 0x20,
      0x0E41, 0x0E25, 0x0E30, 0x0E04, 0x0E33, 0x0E41, 0x0E19, 0x0E30, 0x0E19, 0x0E33,
      0x0E17, 0x0E32, 0x0E07, 0x0E18, 0x0E38, 0x0E23, 0x0E01, 0x0E34, 0x0E08, 0x0E43,
      0x0E19, 0x0E40, 0x0E0A, 0x0E35, 0x0E22, 0x0E07, 0x0E43, 0x0E2B, 0x0E21, 0x0E48,
      0x20, 0x0E21, 0x0E35, 0x0E2D, 0x0E30, 0x0E44, 0x0E23, 0x0E43, 0x0E2B, 0x0E49,
      0x0E0A, 0x0E48, 0x0E27, 0x0E22, 0x0E44, 0x0E2B, 0x0E21, 0x0E04, 0x0E23, 0x0E31,
      0x0E1A, 0x3F, 0x20, 0x1F60A]"

definition chat_error_text :: string where
  "chat_error_text =
     utf8 [0x0E02, 0x0E2D, 0x0E2D, 0x0E20, 0x0E31, 0x0E22, 0x20, 0x0E40, 0x0E01, 0x0E34,
      0x0E14, 0x0E02, 0x0E49, 0x0E2D, 0x0E1C, 0x0E34, 0x0E14, 0x0E1E, 0x0E25, 0x0E32,
      0x0E14, 0x0E43, 0x0E19, 0x0E01, 0x0E32, 0x0E23, 0x0E15, 0x0E34, 0x0E14, 0x0E15,
      0x0E48, 0x0E2D, 0x0E23, 0x0E30, 0x0E1A, 0x0E1A, 0x20, 0x0E01, 0x0E23, 0x0E38,
      0x0E13, 0x0E32, 0x0E25, 0x0E2D, 0x0E07, 0x0E43, 0x0E2B, 0x0E21, 0x0E48, 0x0E2D,
      0x0E35, 0x0E01, 0x0E04, 0x0E23, 0x0E31, 0x0E49, 0x0E07, 0x20, 0x1F64F]"

definition quickActions :: "string list" where
  "quickActions =
     [utf8 [0x0E41, 0x0E19, 0x0E30, 0x0E19, 0x0E33, 0x0E23, 0x0E49, 0x0E32, 0x0E19, 0x0E2D,
        0x0E32, 0x0E2B, 0x0E32, 0x0E23, 0x0E2D, 0x0E23, 0x0E48, 0x0E2D, 0x0E22, 0x0E46,
        0x20, 0x0E43, 0x0E19, 0x0E19, 0x0E34, 0x0E21, 0x0E21, 0x0E32, 0x0E19],
      utf8 [0x0E04, 0x0E32, 0x0E40, 0x0E1F, 0x0E48, 0x0E1A, 0x0E23, 0x0E23, 0x0E22, 0x0E32,
        0x0E01, 0x0E32, 0x0E28, 0x0E14, 0x0E35, 0x0E40, 0x0E0A, 0x0E35, 0x0E22, 0x0E07,
        0x0E43, 0x0E2B, 0x0E21, 0x0E48],
      utf8 [0x0E02, 0x0E2D, 0x0E04, 0x0E33, 0x0E41, 0x0E19, 0x0E30, 0x0E19, 0x0E33, 0x0E40,
        0x0E1B, 0x0E34, 0x0E14, 0x0E23, 0x0E49, 0x0E32, 0x0E19, 0x0E01, 0x0E32, 0x0E41,
        0x0E1F],
      utf8 [0x0E2A, 0x0E16, 0x0E32, 0x0E19, 0x0E17, 0x0E35, 0x0E48, 0x0E17, 0x0E48, 0x0E2D,
        0x0E07, 0x0E40, 0x0E17, 0x0E35, 0x0E48, 0x0E22, 0x0E27, 0x0E19, 0x0E48, 0x0E32,
        0x0E2A, 0x0E19, 0x0E43, 0x0E08],
      utf8 [0x0E23, 0x0E49, 0x0E32, 0x0E19, 0x0E2D, 0x0E32, 0x0E2B, 0x0E32, 0x0E23, 0x0E40,
        0x0E08, 0x2F, 0x0E21, 0x0E31, 0x0E07, 0x0E2A, 0x0E27, 0x0E34, 0x0E23, 0x0E31,
        0x0E15, 0x0E34],
      utf8 [0x0E15, 0x0E25, 0x0E32, 0x0E14, 0x0E19, 0x0E31, 0x0E14, 0x0E27, 0x0E31, 0x0E19,
        0x0E40, 0x0E2A, 0x0E32, 0x0E23, 0x0E4C, 0x0E2D, 0x0E32, 0x0E17, 0x0E34, 0x0E15,
        0x0E22, 0x0E4C]]"

definition chat_init :: chat_state where
  "chat_init = \<lparr>messages = [\<lparr>role = Assistant, content = JStr chat_greeting\<rparr>], inputMessage = [],
                isLoading = False, chat_pending = None\<rparr>"

text \<open>\<open>{ role: msg.role, content: msg.content }\<close>, line 55.\<close>

definition role_name :: "chat_role \<Rightarrow> string" where
  "role_name r = (case r of User \<Rightarrow> ''user'' | Assistant \<Rightarrow> ''assistant'')"

definition message_json :: "chat_message \<Rightarrow> jsval" where
  "message_json m = JObj [(''role'', JStr (role_name (role m))), (''content'', content m)]"

text \<open>Line 62: \<open>data.response || data.message || apology\<close>; reading a property of \<open>null\<close> throws into the catch.\<close>

definition reply_content :: "jsval \<Rightarrow> js_error + jsval" where
  "reply_content data =
     (if js_nullish data then Inl TypeError
      else Inr (js_or_chain [js_get data ''response'', js_get data ''message'', JStr chat_unavailable]))"

datatype chat_event = ChatType string | ChatQuickAction nat | ChatSend | ChatReply "client_error + jsval"

text \<open>
  The input is disabled while loading (line 192), so typing does not reach the
  state then; the quick actions stay enabled.  The handler's own guard is
  line 40.
\<close>

fun chat_step :: "chat_state \<Rightarrow> chat_event \<Rightarrow> chat_state" where
  "chat_step s (ChatType m) = (if isLoading s then s else s\<lparr>inputMessage := m\<rparr>)"
| "chat_step s (ChatQuickAction i) =
     (if i < length quickActions then s\<lparr>inputMessage := quickActions ! i\<rparr> else s)"
| "chat_step s ChatSend =
     (if js_trim (inputMessage s) = [] \<or> isLoading s then s
      else s\<lparr>messages := messages s @ [\<lparr>role = User, content = JStr (inputMessage s)\<rparr>],
             inputMessage := [], isLoading := True,
             chat_pending := Some (JObj [(''messages'', JArr (map message_json (messages s)
                                     @ [JObj [(''role'', JStr ''user''), (''content'', JStr (inputMessage s))]]))])\<rparr>)"
| "chat_step s (ChatReply r) =
     (if chat_pending s = None then s
      else (let c = (case r of
                       Inr data \<Rightarrow> (case reply_content data of Inr v \<Rightarrow> v | Inl _ \<Rightarrow> JStr chat_error_text)
                     | Inl _ \<Rightarrow> JStr chat_error_text)
            in s\<lparr>messages := messages s @ [\<lparr>role = Assistant, content = c\<rparr>], isLoading := False,
                 chat_pending := None\<rparr>))"

fun chat_run :: "chat_state \<Rightarrow> chat_event list \<Rightarrow> chat_state" where
  "chat_run s [] = s"
| "chat_run s (e # es) = chat_run (chat_step s e) es"

inductive chat_reachable :: "chat_state \<Rightarrow> bool" where
  init: "chat_reachable chat_init"
| step: "chat_reachable s \<Longrightarrow> chat_reachable (chat_step s e)"

text \<open>
  The shape of a conversation: the greeting first, then user and assistant in
  turn, a trailing user message exactly while loading, and the pending request
  is the whole conversation as shown.
\<close>

definition chat_request :: "chat_message list \<Rightarrow> jsval" where
  "chat_request ms = JObj [(''messages'', JArr (map message_json ms))]"

definition chat_inv :: "chat_state \<Rightarrow> bool" where
  "chat_inv s \<longleftrightarrow>
     messages s \<noteq> [] \<and> hd (messages s) = \<lparr>role = Assistant, content = JStr chat_greeting\<rparr>
     \<and> map role (messages s) = map (\<lambda>i. if even i then Assistant else User) [0..<length (messages s)]
     \<and> (isLoading s \<longleftrightarrow> even (length (messages s)))
     \<and> (chat_pending s = (if isLoading s then Some (chat_request (messages s)) else None))"

subsection \<open>The rendered page\<close>

text \<open>
  Lines 121--217: one bubble per message, on the right for the user
  (line 127), showing its content; the typing indicator while loading
  (lines 158--179); the input disabled while loading (line 192), the send
  button also while the input is blank (line 196); the quick actions
  (lines 207--217).  Timestamps are not modelled.
\<close>

record chat_view =
  bubbles :: "(bool \<times> jsval) list"
  typing_shown :: bool
  input_disabled :: bool
  send_disabled :: bool
  action_labels :: "string list"

definition chat_view :: "chat_state \<Rightarrow> chat_view" where
  "chat_view s =
     \<lparr>bubbles = map (\<lambda>m. (role m = User, content m)) (messages s),
      typing_shown = isLoading s,
      input_disabled = isLoading s,
      send_disabled = (isLoading s \<or> js_trim (inputMessage s) = []),
      action_labels = quickActions\<rparr>"

text \<open>
  The declared types: \<open>Message.content\<close> is a \<open>string\<close> (line 12), but the
  assistant's content is whatever \<open>response || message\<close> holds (line 62).
\<close>

definition js_is_string :: "jsval \<Rightarrow> bool" where
  "js_is_string v \<longleftrightarrow> (case v of JStr _ \<Rightarrow> True | _ \<Rightarrow> False)"

definition chat_typed :: "chat_state \<Rightarrow> bool" where
  "chat_typed s \<longleftrightarrow> list_all (\<lambda>m. js_is_string (content m)) (messages s)"

definition reply_typed :: "client_error + jsval \<Rightarrow> bool" where
  "reply_typed r \<longleftrightarrow>
     (case r of Inl _ \<Rightarrow> True | Inr d \<Rightarrow> (case reply_content d of Inl _ \<Rightarrow> True | Inr v \<Rightarrow> js_is_string v))"

subsection \<open>Properties\<close>

text \<open>The send button is enabled exactly when the handler's guard lets a send through.\<close>

lemma send_enabled_iff_sends:
  "\<not> send_disabled (chat_view s) \<longleftrightarrow> chat_step s ChatSend \<noteq> s"
  by (auto simp: chat_view_def dest: arg_cong[where f = isLoading])

lemma chat_send_request:
  "map message_json ms @ [JObj [(''role'', JStr ''user''), (''content'', JStr m)]]
   = map message_json (ms @ [\<lparr>role = User, content = JStr m\<rparr>])"
  by (simp add: message_json_def role_name_def)

lemma even_odd_roles:
  "map (\<lambda>i. if even i then Assistant else User) [0..<Suc n] =
   map (\<lambda>i. if even i then Assistant else User) [0..<n] @ [if even n then Assistant else User]"
  by simp

lemma chat_step_inv: "chat_inv s \<Longrightarrow> chat_inv (chat_step s e)"
proof (cases e)
  case ChatSend
  assume "chat_inv s"
  then show ?thesis using ChatSend
    by (auto simp: chat_inv_def chat_request_def chat_send_request even_odd_roles hd_append)
next
  case (ChatReply r)
  assume "chat_inv s"
  then show ?thesis using ChatReply
    by (auto simp: chat_inv_def chat_request_def even_odd_roles hd_append Let_def)
qed (auto simp: chat_inv_def)

lemma chat_run_reachable: "chat_reachable s \<Longrightarrow> chat_reachable (chat_run s es)"
  by (induction es arbitrary: s) (auto intro: chat_reachable.step)

text \<open>
  C29: Every reachable chat state starts with the greeting, alternates
  assistant and user messages, ends with a user message exactly while loading,
  and the request awaited is the whole conversation shown, the new message
  included.
\<close>

theorem chat_reachable_invariant: "chat_reachable s \<Longrightarrow> chat_inv s"
proof (induction rule: chat_reachable.induct)
  case init
  show ?case by (simp add: chat_inv_def chat_init_def)
next
  case (step s e)
  then show ?case by (simp add: chat_step_inv)
qed

theorem chat_reachable_invariant_witness:
  "chat_inv (chat_run chat_init [ChatQuickAction 2, ChatSend, ChatType ''ignored'', ChatReply (Inl (HttpError 500 JNull))])"
  using chat_reachable_invariant[OF chat_run_reachable[OF chat_reachable.init,
          of "[ChatQuickAction 2, ChatSend, ChatType ''ignored'', ChatReply (Inl (HttpError 500 JNull))]"]] .

text \<open>
  C30: When the awaited call settles, one assistant message is appended and
  loading ends: the error text when the call throws or answers \<open>null\<close>,
  otherwise \<open>response || message ||\<close> the apology text.
\<close>

theorem chat_reply_outcomes:
  assumes "chat_pending s \<noteq> None"
  shows "messages (chat_step s (ChatReply (Inl e))) = messages s @ [\<lparr>role = Assistant, content = JStr chat_error_text\<rparr>]
         \<and> messages (chat_step s (ChatReply (Inr JNull))) = messages s @ [\<lparr>role = Assistant, content = JStr chat_error_text\<rparr>]
         \<and> messages (chat_step s (ChatReply (Inr (JObj kvs)))) = messages s @
              [\<lparr>role = Assistant, content = js_or_chain [js_get (JObj kvs) ''response'', js_get (JObj kvs) ''message'',
                                                        JStr chat_unavailable]\<rparr>]
         \<and> \<not> isLoading (chat_step s (ChatReply r))"
  using assms by (simp add: reply_content_def Let_def)

theorem chat_reply_outcomes_witness:
  "messages (chat_step (chat_init\<lparr>chat_pending := Some JNull\<rparr>) (ChatReply (Inr (JObj [(''message'', JStr ''Sawasdee'')]))))
     = messages chat_init @ [\<lparr>role = Assistant, content = JStr ''Sawasdee''\<rparr>]"
  using chat_reply_outcomes[of "chat_init\<lparr>chat_pending := Some JNull\<rparr>" "HttpError 500 JNull"
     "[(''message'', JStr ''Sawasdee'')]" "Inl (HttpError 500 JNull)"]
  by (simp add: js_or_chain_Cons)



end
