(* ===== verification/Upload.thy ===== *)
theory Upload
  imports Api "HOL-Library.While_Combinator"
begin

text \<open>
  The image upload page, \<open>src/app/upload/page.tsx\<close>.  A file is its name,
  MIME type and size in bytes.  \<open>handleFileSelect\<close> (lines 18--46) accepts at
  most five files, each an image of at most 10 MiB, and otherwise sets one of
  the page's error texts (modelled as the constructors of
  \<open>upload_error\<close>) without touching the selection.  Its \<open>for\<close> loop
  with early returns is a \<^const>\<open>while_option\<close> over the loop's state,
  shown to terminate and to compute the recursive reference
  \<open>first_invalid\<close>.  \<open>handleUpload\<close>
  (lines 68--83) is split at its await into the click and the reply.  The
  drop zone and file input are rendered only while nothing is selected and no
  result is shown (line 126), the upload and reset buttons only while files
  are selected and no result is shown (line 157).
\<close>

record upload_file =
  file_name :: string
  file_type :: string
  file_size :: nat

datatype upload_error =
    TooManyFiles      \<comment> \<open>line 23: at most 5 files\<close>
  | NotAnImage        \<comment> \<open>line 31: images only (PNG, JPG, JPEG)\<close>
  | FileTooLarge      \<comment> \<open>line 36: at most 10MB\<close>
  | AnalysisFailed    \<comment> \<open>line 79: the analysis failed, try again\<close>

record upload_state =
  selectedFiles :: "upload_file list"
  isLoading :: bool
  result :: jsval
  error :: "upload_error option"
  dragActive :: bool
  upload_pending :: "upload_file list option"

definition upload_init :: upload_state where
  "upload_init = \<lparr>selectedFiles = [], isLoading = False, result = JNull, error = None,
                  dragActive = False, upload_pending = None\<rparr>"

text \<open>The two checks of the loop body, lines 30--38, in their order.\<close>

definition file_check :: "upload_file \<Rightarrow> upload_error option" where
  "file_check f =
     (if \<not> prefix ''image/'' (file_type f) then Some NotAnImage
      else if file_size f > 10 * 1024 * 1024 then Some FileTooLarge
      else None)"

text \<open>
  The loop of lines 28--41 as written: its state is the files still to
  visit, \<open>validFiles\<close>, and the error set before the early return; it runs
  while files remain and no check has failed.
\<close>

type_synonym validate_state = "upload_file list \<times> upload_file list \<times> upload_error option"

definition validate_step :: "validate_state \<Rightarrow> validate_state" where
  "validate_step st =
     (case st of
        (f # rest, validFiles, err) \<Rightarrow>
          (case file_check f of Some e \<Rightarrow> (rest, validFiles, Some e) | None \<Rightarrow> (rest, validFiles @ [f], None))
      | ([], validFiles, err) \<Rightarrow> ([], validFiles, err))"

definition validate_files :: "upload_file list \<Rightarrow> validate_state option" where
  "validate_files fs = while_option (\<lambda>(rest, _, err). rest \<noteq> [] \<and> err = None) validate_step (fs, [], None)"

text \<open>The reference: the first file that fails a check decides the error.\<close>

fun first_invalid :: "upload_file list \<Rightarrow> upload_error option" where
  "first_invalid [] = None"
| "first_invalid (f # fs) = (case file_check f of Some e \<Rightarrow> Some e | None \<Rightarrow> first_invalid fs)"

text \<open>
  \<open>handleFileSelect\<close>, lines 18--46.  The loop always ends (theorem
  \<open>validate_files_terminates\<close>), so its \<open>None\<close> branch is never taken.
\<close>

definition handleFileSelect :: "upload_state \<Rightarrow> upload_file list \<Rightarrow> upload_state" where
  "handleFileSelect s files =
     (if length files > 5 then s\<lparr>error := Some TooManyFiles\<rparr>
      else (case validate_files files of
              Some (_, _, Some e) \<Rightarrow> s\<lparr>error := Some e\<rparr>
            | Some (_, validFiles, None) \<Rightarrow> s\<lparr>selectedFiles := validFiles, error := None, result := JNull\<rparr>
            | None \<Rightarrow> s))"

datatype drag_kind = DragEnter | DragOver | DragLeave

datatype upload_event =
    SelectFiles "upload_file list"   \<comment> \<open>the file input's change or a drop (lines 58--66, 142)\<close>
  | Drag drag_kind                   \<comment> \<open>\<open>handleDrag\<close>, lines 48--56\<close>
  | ClickUpload
  | UploadReply "client_error + jsval"
  | ResetUpload                      \<comment> \<open>\<open>resetUpload\<close>, lines 85--89\<close>
  | DismissError                     \<comment> \<open>line 215\<close>

definition drop_zone_shown :: "upload_state \<Rightarrow> bool" where
  "drop_zone_shown s \<longleftrightarrow> selectedFiles s = [] \<and> \<not> js_truthy (result s)"

definition selection_shown :: "upload_state \<Rightarrow> bool" where
  "selection_shown s \<longleftrightarrow> selectedFiles s \<noteq> [] \<and> \<not> js_truthy (result s)"

text \<open>
  A drop also clears \<open>dragActive\<close> (line 61).  The reset button is shown in
  the selection view and in the result view (lines 199--204, 280--285).
\<close>

fun upload_step :: "upload_state \<Rightarrow> upload_event \<Rightarrow> upload_state" where
  "upload_step s (SelectFiles fs) =
     (if drop_zone_shown s then handleFileSelect (s\<lparr>dragActive := False\<rparr>) fs else s)"
| "upload_step s (Drag k) =
     (if drop_zone_shown s then s\<lparr>dragActive := (k \<noteq> DragLeave)\<rparr> else s)"
| "upload_step s ClickUpload =
     (if selection_shown s \<and> \<not> isLoading s
      then s\<lparr>isLoading := True, error := None, upload_pending := Some (selectedFiles s)\<rparr> else s)"
| "upload_step s (UploadReply r) =
     (if upload_pending s = None then s
      else (case r of
              Inr data \<Rightarrow> s\<lparr>result := data, isLoading := False, upload_pending := None\<rparr>
            | Inl _ \<Rightarrow> s\<lparr>error := Some AnalysisFailed, isLoading := False, upload_pending := None\<rparr>))"
| "upload_step s ResetUpload =
     (if selection_shown s \<or> js_truthy (result s)
      then s\<lparr>selectedFiles := [], result := JNull, error := None\<rparr> else s)"
| "upload_step s DismissError = s\<lparr>error := None\<rparr>"

fun upload_run :: "upload_state \<Rightarrow> upload_event list \<Rightarrow> upload_state" where
  "upload_run s [] = s"
| "upload_run s (e # es) = upload_run (upload_step s e) es"

inductive upload_reachable :: "upload_state \<Rightarrow> bool" where
  init: "upload_reachable upload_init"
| step: "upload_reachable s \<Longrightarrow> upload_reachable (upload_step s e)"

text \<open>The files the page may hold: what \<open>handleFileSelect\<close> admits.\<close>

definition valid_upload :: "upload_file list \<Rightarrow> bool" where
  "valid_upload fs \<longleftrightarrow>
     length fs \<le> 5 \<and> list_all (\<lambda>f. prefix ''image/'' (file_type f) \<and> file_size f \<le> 10 * 1024 * 1024) fs"

text \<open>
  The page's invariant: the selection is always admissible, loading holds
  exactly while an upload is awaited, and the files being analysed are a
  non-empty admissible selection.
\<close>

definition upload_inv :: "upload_state \<Rightarrow> bool" where
  "upload_inv s \<longleftrightarrow> valid_upload (selectedFiles s) \<and> (isLoading s \<longleftrightarrow> upload_pending s \<noteq> None)
                    \<and> (case upload_pending s of None \<Rightarrow> True | Some fs \<Rightarrow> valid_upload fs \<and> fs \<noteq> [])"

subsection \<open>The result view\<close>

text \<open>
  Lines 222--276.  Each image analysis shows a title (the part of
  \<open>image_path\<close> after its last \<open>_\<close>, or "Image n") and the paragraphs of
  its description; then the personality analysis; then, when the analysis
  has no images, \<open>(result.analysis || result.description)\<close> split into
  paragraphs.  \<open>split\<close> and \<open>map\<close> on a value of the wrong kind throw.
\<close>

definition opt_lines :: "jsval \<Rightarrow> js_error + string list option" where
  "opt_lines v = (case v of JUndef \<Rightarrow> Inr None | JNull \<Rightarrow> Inr None | JStr t \<Rightarrow> Inr (Some (js_lines t))
                           | _ \<Rightarrow> Inl TypeError)"

definition image_title :: "nat \<Rightarrow> jsval \<Rightarrow> js_error + string" where
  "image_title i img =
     (if js_nullish img then Inl TypeError
      else (let dflt = ''Image '' @ nat_digits (Suc i)
            in case js_get img ''image_path'' of
                 JUndef \<Rightarrow> Inr dflt
               | JNull \<Rightarrow> Inr dflt
               | JStr p \<Rightarrow> (let t = last (js_split CHR ''_'' p) in Inr (if t = [] then dflt else t))
               | _ \<Rightarrow> Inl TypeError))"

fun image_blocks :: "nat \<Rightarrow> jsval list \<Rightarrow> js_error + (string \<times> string list option) list" where
  "image_blocks i [] = Inr []"
| "image_blocks i (img # imgs) =
     (case image_title i img of
        Inl e \<Rightarrow> Inl e
      | Inr t \<Rightarrow> (case opt_lines (js_get img ''description'') of
                   Inl e \<Rightarrow> Inl e
                 | Inr d \<Rightarrow> (case image_blocks (Suc i) imgs of
                              Inl e \<Rightarrow> Inl e
                            | Inr bs \<Rightarrow> Inr ((t, d) # bs))))"

record upload_view =
  image_analyses :: "(string \<times> string list option) list"
  personality :: "string list option"
  general :: "string list option"

definition upload_view :: "jsval \<Rightarrow> js_error + upload_view" where
  "upload_view r =
     (let a = js_get r ''analysis''; imgs = js_optprop a ''images''; pa = js_optprop a ''personality_analysis''
      in case (if js_truthy imgs
               then (case imgs of JArr xs \<Rightarrow> image_blocks 0 xs | _ \<Rightarrow> Inl TypeError)
               else Inr []) of
           Inl e \<Rightarrow> Inl e
         | Inr bs \<Rightarrow>
             (case (if js_truthy pa then (case pa of JStr t \<Rightarrow> Inr (Some (js_lines t)) | _ \<Rightarrow> Inl TypeError)
                    else Inr None) of
                Inl e \<Rightarrow> Inl e
              | Inr ps \<Rightarrow>
                  (case (if js_truthy (js_or_chain [a, js_get r ''description'']) \<and> \<not> js_truthy imgs
                         then (case js_or_chain [a, js_get r ''description''] of
                                 JStr t \<Rightarrow> Inr (Some (js_lines t)) | _ \<Rightarrow> Inl TypeError)
                         else Inr None) of
                     Inl e \<Rightarrow> Inl e
                   | Inr g \<Rightarrow> Inr \<lparr>image_analyses = bs, personality = ps, general = g\<rparr>)))"

subsection \<open>The page\<close>

text \<open>
  Lines 126--221: the drop zone (highlighted while dragging), the selection
  with each file's name and size in MB to two decimals (line 175), the
  upload button disabled while loading (line 184), and the error block; the
  result view follows (\<^const>\<open>upload_view\<close>).  Image previews are not
  modelled.
\<close>

definition file_size_text :: "upload_file \<Rightarrow> string option" where
  "file_size_text f = toFixed 2 (Fin (real (file_size f) / 1024 / 1024))"

record selection_view =
  sel_count :: nat
  sel_files :: "(string \<times> string option) list"
  upload_disabled :: bool

record upload_page =
  up_drop_zone :: bool
  up_drag_active :: bool
  up_selection :: "selection_view option"
  up_error :: "upload_error option"
  up_result :: "(js_error + upload_view) option"

definition upload_page :: "upload_state \<Rightarrow> upload_page" where
  "upload_page s =
     \<lparr>up_drop_zone = drop_zone_shown s,
      up_drag_active = dragActive s,
      up_selection = (if selection_shown s
                      then Some \<lparr>sel_count = length (selectedFiles s),
                                 sel_files = map (\<lambda>f. (file_name f, file_size_text f)) (selectedFiles s),
                                 upload_disabled = isLoading s\<rparr>
                      else None),
      up_error = error s,
      up_result = (if js_truthy (result s) then Some (upload_view (result s)) else None)\<rparr>"

subsection \<open>Properties\<close>

lemma validate_loop_from:
  "while_option (\<lambda>(rest, _, err). rest \<noteq> [] \<and> err = None) validate_step (rest, acc, None)
     = Some (drop (Suc (length (takeWhile (\<lambda>f. file_check f = None) rest))) rest,
             acc @ takeWhile (\<lambda>f. file_check f = None) rest, first_invalid rest)"
proof (induction rest arbitrary: acc)
  case Nil
  then show ?case by (simp add: while_option_unfold[of _ _ "([], acc, None)"])
next
  case (Cons f rest)
  show ?case
  proof (cases "file_check f")
    case None
    then show ?thesis
      using Cons.IH[of "acc @ [f]"] by (simp add: while_option_unfold[of _ _ "(f # rest, acc, None)"] validate_step_def)
  next
    case (Some e)
    then show ?thesis
      by (simp add: while_option_unfold[of _ _ "(f # rest, acc, None)"] while_option_unfold[of _ _ "(rest, acc, Some e)"]
                    validate_step_def)
  qed
qed

lemma validate_files_result:
  "validate_files fs = Some (drop (Suc (length (takeWhile (\<lambda>f. file_check f = None) fs))) fs,
                             takeWhile (\<lambda>f. file_check f = None) fs, first_invalid fs)"
  using validate_loop_from[of fs "[]"] by (simp add: validate_files_def)

lemma validate_step_shorter:
  "(case st of (rest, _, err) \<Rightarrow> rest \<noteq> [] \<and> err = None)
   \<Longrightarrow> (case validate_step st of (rest, _, _) \<Rightarrow> length rest) < (case st of (rest, _, _) \<Rightarrow> length rest)"
  by (auto simp: validate_step_def neq_Nil_conv split: prod.splits option.splits)

lemma first_invalid_None_takeWhile: "first_invalid fs = None \<Longrightarrow> takeWhile (\<lambda>f. file_check f = None) fs = fs"
  by (induction fs) (auto split: option.split_asm)

lemma handleFileSelect_ref:
  "handleFileSelect s files =
     (if length files > 5 then s\<lparr>error := Some TooManyFiles\<rparr>
      else (case first_invalid files of
              Some e \<Rightarrow> s\<lparr>error := Some e\<rparr>
            | None \<Rightarrow> s\<lparr>selectedFiles := files, error := None, result := JNull\<rparr>))"
  by (simp add: handleFileSelect_def validate_files_result first_invalid_None_takeWhile split: option.split)

lemma first_invalid_None_iff:
  "first_invalid fs = None \<longleftrightarrow> list_all (\<lambda>f. prefix ''image/'' (file_type f) \<and> file_size f \<le> 10 * 1024 * 1024) fs"
  by (induction fs) (auto simp: file_check_def)

lemma handleFileSelect_valid:
  "valid_upload (selectedFiles s) \<Longrightarrow> valid_upload (selectedFiles (handleFileSelect s fs))"
  by (auto simp: handleFileSelect_ref valid_upload_def first_invalid_None_iff split: option.split)

lemma upload_step_inv: "upload_inv s \<Longrightarrow> upload_inv (upload_step s e)"
proof (cases e)
  case (SelectFiles fs)
  assume "upload_inv s"
  then show ?thesis using SelectFiles handleFileSelect_valid[of "s\<lparr>dragActive := False\<rparr>" fs]
    by (auto simp: upload_inv_def handleFileSelect_ref split: option.split)
qed (auto simp: upload_inv_def selection_shown_def valid_upload_def split: option.split sum.split)

lemma js_round_fixed_le:
  assumes "0 \<le> v" "v \<le> c" "0 \<le> c" "c * 10 ^ f \<in> \<int>"
  shows "js_round_fixed f v \<le> c"
proof -
  obtain k where k: "c * 10 ^ f = of_int k" using assms(4) by (auto elim: Ints_cases)
  have "v * 10 ^ f \<le> c * 10 ^ f" using assms(2) by (simp add: mult_right_mono)
  then have "\<bar>v\<bar> * 10 ^ f + 1 / 2 < of_int k + 1" using assms(1) k by simp
  then have "\<lfloor>\<bar>v\<bar> * 10 ^ f + 1 / 2\<rfloor> \<le> k" by linarith
  moreover have "0 \<le> \<lfloor>\<bar>v\<bar> * 10 ^ f + 1 / 2\<rfloor>" using assms by simp
  ultimately have "real (nat \<lfloor>\<bar>v\<bar> * 10 ^ f + 1 / 2\<rfloor>) \<le> c * 10 ^ f" using k by linarith
  then show ?thesis using assms(1) by (simp add: js_round_fixed_def divide_le_eq)
qed

text \<open>Every file the page can hold is shown with a size that reads back as at most 10.00 MB.\<close>

lemma shown_sizes_within_limit:
  assumes "upload_inv s" "up_selection (upload_page s) = Some v" "(n, t) \<in> set (sel_files v)"
  shows "\<exists>tx x. t = Some tx \<and> parseFloat tx = Fin x \<and> 0 \<le> x \<and> x \<le> 10"
proof -
  obtain f where f: "f \<in> set (selectedFiles s)" "t = file_size_text f"
    using assms(2,3) by (auto simp: upload_page_def split: if_split_asm)
  have le: "file_size f \<le> 10 * 1024 * 1024"
    using assms(1) f(1) by (auto simp: upload_inv_def valid_upload_def list_all_iff)
  define m where "m = real (file_size f) / 1024 / 1024"
  have m: "0 \<le> m" "m \<le> 10" using le unfolding m_def by simp_all
  obtain tx where tx: "toFixed 2 (Fin m) = Some tx" "parseFloat tx = Fin (js_round_fixed 2 m)"
    using toFixed_parse_roundtrip[of 2 m] m by auto
  have "js_round_fixed 2 m \<le> 10" using m by (intro js_round_fixed_le) simp_all
  moreover have "0 \<le> js_round_fixed 2 m" using m by (simp add: js_round_fixed_def)
  ultimately show ?thesis using tx f(2) by (auto simp: file_size_text_def m_def)
qed

lemma upload_run_reachable: "upload_reachable s \<Longrightarrow> upload_reachable (upload_run s es)"
  by (induction es arbitrary: s) (auto intro: upload_reachable.step)

text \<open>
  C32: In every reachable state of the upload page the selection has at most
  five files, each an image of at most 10 MiB, and the files sent for analysis
  are such a non-empty selection; \<open>isLoading\<close> holds exactly while an
  upload is awaited.
\<close>

theorem upload_reachable_invariant: "upload_reachable s \<Longrightarrow> upload_inv s"
proof (induction rule: upload_reachable.induct)
  case init
  show ?case by (simp add: upload_inv_def upload_init_def valid_upload_def)
next
  case (step s e)
  then show ?case by (simp add: upload_step_inv)
qed

theorem upload_reachable_invariant_witness:
  "upload_inv (upload_run upload_init
     [SelectFiles [\<lparr>file_name = ''menu.jpg'', file_type = ''image/jpeg'', file_size = 20000\<rparr>], ClickUpload,
      ResetUpload])"
  using upload_reachable_invariant[OF upload_run_reachable[OF upload_reachable.init,
     of "[SelectFiles [\<lparr>file_name = ''menu.jpg'', file_type = ''image/jpeg'', file_size = 20000\<rparr>], ClickUpload,
          ResetUpload]"]] .


text \<open>
  C34: The loop computes the reference: \<open>validFiles\<close> is the longest
  prefix of files that pass both checks and the error is that of the first
  file that fails one, so an accepted selection is the whole list.
\<close>

theorem validate_files_equiv:
  "map_option (\<lambda>(_, vs, e). (vs, e)) (validate_files fs)
     = Some (takeWhile (\<lambda>f. file_check f = None) fs, first_invalid fs)"
  by (simp add: validate_files_result)

text \<open>
  C35: An analysis object without \<open>images\<close> (for instance one carrying only
  \<open>personality_analysis\<close>) crashes the result view: the general block calls
  \<open>split\<close> on \<open>result.analysis\<close>, which is an object (line 270).
\<close>

theorem upload_object_analysis_crash:
  assumes "js_get r ''analysis'' = JObj kvs" "\<not> js_truthy (js_get (JObj kvs) ''images'')"
  shows "upload_view r = Inl TypeError"
  using assms by (simp add: upload_view_def Let_def js_or_chain_Cons split: sum.split jsval.split)

theorem upload_object_analysis_crash_witness:
  "upload_view (JObj [(''analysis'', JObj [(''personality_analysis'', JStr ''calm'')])]) = Inl TypeError"
  using upload_object_analysis_crash[of "JObj [(''analysis'', JObj [(''personality_analysis'', JStr ''calm'')])]"
     "[(''personality_analysis'', JStr ''calm'')]"] by simp

end
