(* ===== verification/Weather.thy ===== *)
theory Weather
  imports Api
begin

text \<open>
  Reading the OpenWeatherMap answer, shared by the weather route
  (\<open>src/app/api/weather/route.ts\<close>) and the maps page
  (\<open>src/app/maps/page.tsx\<close>, \<open>fetchWeatherData\<close>): property paths such as
  \<open>data.weather[0].description\<close> read one property after the other and throw a
  \<open>TypeError\<close> at the first \<open>null\<close> or \<open>undefined\<close>; \<open>Math.round\<close> applies
  \<open>ToNumber\<close>, whose conversion of strings, arrays and objects goes through
  the engine's string conversion and is the parameter \<open>conv\<close>.
\<close>

fun js_path :: "jsval \<Rightarrow> string list \<Rightarrow> js_error + jsval" where
  "js_path v [] = Inr v"
| "js_path v (k # ks) = (case js_prop v k of Inl e \<Rightarrow> Inl e | Inr w \<Rightarrow> js_path w ks)"

text \<open>The operands of an object literal, evaluated left to right.\<close>

fun js_read_all :: "jsval \<Rightarrow> string list list \<Rightarrow> js_error + jsval list" where
  "js_read_all v [] = Inr []"
| "js_read_all v (p # ps) =
     (case js_path v p of
        Inl e \<Rightarrow> Inl e
      | Inr w \<Rightarrow> (case js_read_all v ps of Inl e \<Rightarrow> Inl e | Inr ws \<Rightarrow> Inr (w # ws)))"

definition js_to_number :: "(jsval \<Rightarrow> js_float) \<Rightarrow> jsval \<Rightarrow> js_float" where
  "js_to_number conv v =
     (case v of JUndef \<Rightarrow> NaN | JNull \<Rightarrow> Fin 0 | JBool b \<Rightarrow> Fin (if b then 1 else 0)
              | JNum x \<Rightarrow> x | _ \<Rightarrow> conv v)"

text \<open>\<open>Math.round\<close>: the nearest integer, halves rounded up (signed zero is not distinguished).\<close>

fun js_round :: "js_float \<Rightarrow> js_float" where
  "js_round (Fin x) = Fin (of_int \<lfloor>x + 1 / 2\<rfloor>)"
| "js_round x = x"

text \<open>
  The JSON text of an object literal read back by the client: keys whose
  value is \<open>undefined\<close> are left out and non-finite numbers become
  \<open>null\<close> (the other values are JSON values already).
\<close>

fun json_value :: "jsval \<Rightarrow> jsval" where
  "json_value (JNum x) = (if js_finite x then JNum x else JNull)"
| "json_value v = v"

definition json_object :: "(string \<times> jsval) list \<Rightarrow> jsval" where
  "json_object kvs = JObj (map (\<lambda>(k, v). (k, json_value v)) (filter (\<lambda>(k, v). v \<noteq> JUndef) kvs))"

subsection \<open>The weather route\<close>

text \<open>\<open>searchParams.get(k) || d\<close>.\<close>

definition query_or :: "string option \<Rightarrow> string \<Rightarrow> string" where
  "query_or q d = (case q of None \<Rightarrow> d | Some v \<Rightarrow> if v = [] then d else v)"

definition weather_url :: "string \<Rightarrow> string \<Rightarrow> string" where
  "weather_url la lo =
     ''https://api.openweathermap.org/data/2.5/weather?lat='' @ la @ ''&lon='' @ lo
     @ ''&appid=973959347b8a6178b1089d57b2fddf0a&units=metric&lang=th''"

definition weather_route_paths :: "string list list" where
  "weather_route_paths =
     [[''main'', ''temp''], [''weather'', ''0'', ''description''], [''main'', ''humidity''],
      [''wind'', ''speed''], [''weather'', ''0'', ''icon''], [''main'', ''pressure''],
      [''visibility''], [''main'', ''feels_like'']]"

definition sky_clear :: string where
  "sky_clear = utf8 [0x0E17, 0x0E49, 0x0E2D, 0x0E07, 0x0E1F, 0x0E49, 0x0E32, 0x0E41, 0x0E08, 0x0E48,
      0x0E21, 0x0E43, 0x0E2A]"

definition weather_route ::
  "(jsval \<Rightarrow> js_float) \<Rightarrow> (js_error \<Rightarrow> string) \<Rightarrow> json_parser \<Rightarrow> string option \<Rightarrow> string option
   \<Rightarrow> (string \<Rightarrow> fetch_result) \<Rightarrow> http_response" where
  "weather_route conv msg parse qlat qlon upstream =
     (let latParam = query_or qlat ''18.8022'';
          lonParam = query_or qlon ''98.9525'';
          r = (case upstream (weather_url latParam lonParam) of
                 NetworkFailure \<Rightarrow> Inl (Engine TypeError)
               | Response st responseText \<Rightarrow>
                   (if \<not> http_ok st then Inl (Error (''Weather API responded with status: '' @ nat_digits st))
                    else (case parse responseText of
                            None \<Rightarrow> Inl (Engine SyntaxError)
                          | Some data \<Rightarrow> (case js_read_all data weather_route_paths of
                                            Inl k \<Rightarrow> Inl (Engine k)
                                          | Inr vs \<Rightarrow> Inr vs))))
      in case r of
           Inr vs \<Rightarrow> json_response 200 (json_object
             [(''temperature'', JNum (js_round (js_to_number conv (vs ! 0)))), (''description'', vs ! 1),
              (''humidity'', vs ! 2), (''windSpeed'', vs ! 3), (''icon'', vs ! 4), (''pressure'', vs ! 5),
              (''visibility'', vs ! 6), (''feelsLike'', JNum (js_round (js_to_number conv (vs ! 7))))])
         | Inl e \<Rightarrow> json_response 500 (JObj
             [(''error'', JStr ''Failed to fetch weather data''), (''details'', exn_message msg e),
              (''temperature'', JNum (Fin 28)), (''description'', JStr sky_clear), (''humidity'', JNum (Fin 65)),
              (''windSpeed'', JNum (Fin (5 / 2))), (''icon'', JStr ''01d''), (''pressure'', JNum (Fin 1013)),
              (''visibility'', JNum (Fin 10000)), (''feelsLike'', JNum (Fin 30))]))"

subsection \<open>Properties\<close>

lemma js_round_finite_int: "js_finite (js_round x) \<Longrightarrow> \<exists>n::int. js_round x = Fin (of_int n)"
  by (cases x) auto


text \<open>
  C28: A successful weather answer carries a whole-number temperature, or
  \<open>null\<close> when the reading is not a finite number (JSON has no NaN).
\<close>

theorem weather_temperature_integral:
  assumes "http_status (weather_route conv msg parse qlat qlon upstream) = 200"
  shows "(\<exists>n::int. js_get (http_body (weather_route conv msg parse qlat qlon upstream)) ''temperature''
                    = JNum (Fin (of_int n)))
         \<or> js_get (http_body (weather_route conv msg parse qlat qlon upstream)) ''temperature'' = JNull"
  using assms
  by (auto simp: weather_route_def Let_def json_response_def json_object_def js_round_finite_int
      split: fetch_result.splits option.splits sum.splits if_split_asm)

theorem weather_temperature_integral_witness:
  "http_status (weather_route (\<lambda>_. NaN) (\<lambda>_. []) (\<lambda>_. Some (JObj
        [(''main'', JObj [(''temp'', JNum (Fin (303 / 10)))]), (''weather'', JArr [JObj []]), (''wind'', JObj [])]))
      None None (\<lambda>_. Response 200 ''{}'')) = 200
   \<and> ((\<exists>n::int. js_get (http_body (weather_route (\<lambda>_. NaN) (\<lambda>_. []) (\<lambda>_. Some (JObj
        [(''main'', JObj [(''temp'', JNum (Fin (303 / 10)))]), (''weather'', JArr [JObj []]), (''wind'', JObj [])]))
      None None (\<lambda>_. Response 200 ''{}''))) ''temperature'' = JNum (Fin (of_int n)))
      \<or> js_get (http_body (weather_route (\<lambda>_. NaN) (\<lambda>_. []) (\<lambda>_. Some (JObj
        [(''main'', JObj [(''temp'', JNum (Fin (303 / 10)))]), (''weather'', JArr [JObj []]), (''wind'', JObj [])]))
      None None (\<lambda>_. Response 200 ''{}''))) ''temperature'' = JNull)"
proof -
  have h: "http_status (weather_route (\<lambda>_. NaN) (\<lambda>_. []) (\<lambda>_. Some (JObj
        [(''main'', JObj [(''temp'', JNum (Fin (303 / 10)))]), (''weather'', JArr [JObj []]), (''wind'', JObj [])]))
      None None (\<lambda>_. Response 200 ''{}'')) = 200"
    by code_simp
  show ?thesis
    using h weather_temperature_integral[OF h] by blast
qed

end
