(* ===== verification/Maps.thy ===== *)
theory Maps
  imports Weather "HOL-Library.Stream"
begin

text \<open>
  The traffic monitor, \<open>src/app/maps/page.tsx\<close>.  Six fixed hotspots around
  Nimman get a traffic intensity that \<open>updateTrafficData\<close> redraws from
  \<open>Math.random()\<close> every 30 seconds or on a click; the weather card reads
  OpenWeatherMap; the Google map shows one marker per hotspot.  Random draws
  are a stream of reals in \<open>[0, 1)\<close>, consumed in evaluation order.  The
  mount effect (lines 78--97) runs once, in the closure of the first render,
  where \<open>trafficData\<close> is still \<open>[]\<close>: \<open>initializeMap\<close> and the
  \<open>window.initMap\<close> callback read \<open>trafficData\<close> from that closure.  The
  state keeps what such a closure holds (\<open>initMap_closure\<close>).  Dates, the
  Google Maps objects themselves and info windows are not modelled.
\<close>

datatype intensity = High | Medium | Low

record hotspot =
  hs_lat :: real
  hs_lng :: real
  hs_intensity :: intensity
  hs_description :: string

definition nimmanTrafficHotspots :: "hotspot list" where
  "nimmanTrafficHotspots =
     [\<lparr>hs_lat = 18.8022, hs_lng = 98.9525, hs_intensity = High, hs_description =
        utf8 [0x0E19, 0x0E34, 0x0E21, 0x0E21, 0x0E32, 0x0E19, 0x0E40, 0x0E2B, 0x0E21, 0x0E34,
        0x0E19, 0x0E17, 0x0E23, 0x0E4C, 0x20, 0x2D, 0x20, 0x0E2B, 0x0E19, 0x0E49,
        0x0E32, 0x20, 0x4D, 0x61, 0x79, 0x61, 0x20, 0x4D, 0x61, 0x6C, 0x6C]\<rparr>,
      \<lparr>hs_lat = 18.8035, hs_lng = 98.9515, hs_intensity = Medium, hs_description =
        utf8 [0x0E16, 0x0E19, 0x0E19, 0x0E19, 0x0E34, 0x0E21, 0x0E21, 0x0E32, 0x0E19, 0x0E40,
        0x0E2B, 0x0E21, 0x0E34, 0x0E19, 0x0E17, 0x0E23, 0x0E4C, 0x20, 0x0E0B, 0x0E2D,
        0x0E22, 0x20, 0x31]\<rparr>,
      \<lparr>hs_lat = 18.8045, hs_lng = 98.9535, hs_intensity = High, hs_description =
        utf8 [0x0E2A, 0x0E35, 0x0E48, 0x0E41, 0x0E22, 0x0E01, 0x0E19, 0x0E34, 0x0E21, 0x0E21,
        0x0E32, 0x0E19, 0x20, 0x2D, 0x20, 0x4F, 0x6E, 0x65, 0x20, 0x4E,
        0x69, 0x6D, 0x6D, 0x61, 0x6E]\<rparr>,
      \<lparr>hs_lat = 18.8015, hs_lng = 98.9545, hs_intensity = Medium, hs_description =
        utf8 [0x0E16, 0x0E19, 0x0E19, 0x0E19, 0x0E34, 0x0E21, 0x0E21, 0x0E32, 0x0E19, 0x0E40,
        0x0E2B, 0x0E21, 0x0E34, 0x0E19, 0x0E17, 0x0E23, 0x0E4C, 0x20, 0x0E0B, 0x0E2D,
        0x0E22, 0x20, 0x33]\<rparr>,
      \<lparr>hs_lat = 18.8055, hs_lng = 98.9525, hs_intensity = Low, hs_description =
        utf8 [0x0E16, 0x0E19, 0x0E19, 0x0E19, 0x0E34, 0x0E21, 0x0E21, 0x0E32, 0x0E19, 0x0E40,
        0x0E2B, 0x0E21, 0x0E34, 0x0E19, 0x0E17, 0x0E23, 0x0E4C, 0x20, 0x0E0B, 0x0E2D,
        0x0E22, 0x20, 0x35]\<rparr>,
      \<lparr>hs_lat = 18.8025, hs_lng = 98.9505, hs_intensity = High, hs_description =
        utf8 [0x0E2B, 0x0E19, 0x0E49, 0x0E32, 0x20, 0x54, 0x68, 0x69, 0x6E, 0x6B,
        0x20, 0x50, 0x61, 0x72, 0x6B]\<rparr>]"

subsection \<open>Traffic updates\<close>

text \<open>
  Line 130: \<open>Math.random() > 0.7 ? "high" : Math.random() > 0.4 ? "medium" : "low"\<close>;
  the second draw happens only when the first is at most 0.7.  The result and
  the rest of the stream.
\<close>

definition draw_intensity :: "real stream \<Rightarrow> intensity \<times> real stream" where
  "draw_intensity rs =
     (if shd rs > 0.7 then (High, stl rs)
      else if shd (stl rs) > 0.4 then (Medium, stl (stl rs)) else (Low, stl (stl rs)))"

fun updated_hotspots :: "hotspot list \<Rightarrow> real stream \<Rightarrow> hotspot list \<times> real stream" where
  "updated_hotspots [] rs = ([], rs)"
| "updated_hotspots (h # hs) rs =
     (case draw_intensity rs of
        (i, rs') \<Rightarrow> (case updated_hotspots hs rs' of (hs', rs'') \<Rightarrow> (h\<lparr>hs_intensity := i\<rparr> # hs', rs'')))"

text \<open>\<open>getTrafficColor\<close> and \<open>getTrafficLabel\<close>, lines 226--250 (their \<open>default\<close> branches are unreachable).\<close>

fun getTrafficColor :: "intensity \<Rightarrow> string" where
  "getTrafficColor High = ''#ff4444''"
| "getTrafficColor Medium = ''#ff8800''"
| "getTrafficColor Low = ''#ffdd00''"

fun getTrafficLabel :: "intensity \<Rightarrow> string" where
  "getTrafficLabel High = utf8 [0x0E2A, 0x0E39, 0x0E07]"
| "getTrafficLabel Medium = utf8 [0x0E1B, 0x0E32, 0x0E19, 0x0E01, 0x0E25, 0x0E32, 0x0E07]"
| "getTrafficLabel Low = utf8 [0x0E15, 0x0E48, 0x0E33]"

record traffic_stats =
  st_high :: nat
  st_medium :: nat
  st_low :: nat

definition getTrafficStats :: "hotspot list \<Rightarrow> traffic_stats" where
  "getTrafficStats ts =
     \<lparr>st_high = length (filter (\<lambda>t. hs_intensity t = High) ts),
      st_medium = length (filter (\<lambda>t. hs_intensity t = Medium) ts),
      st_low = length (filter (\<lambda>t. hs_intensity t = Low) ts)\<rparr>"

subsection \<open>Weather\<close>

record weather_data =
  w_temperature :: js_float
  w_description :: jsval
  w_humidity :: jsval
  w_windSpeed :: jsval
  w_icon :: jsval

definition maps_weather_paths :: "string list list" where
  "maps_weather_paths =
     [[''main'', ''temp''], [''weather'', ''0'', ''description''], [''main'', ''humidity''],
      [''wind'', ''speed''], [''weather'', ''0'', ''icon'']]"

definition fallback_weather :: weather_data where
  "fallback_weather = \<lparr>w_temperature = Fin 28, w_description = JStr sky_clear, w_humidity = JNum (Fin 65),
                       w_windSpeed = JNum (Fin (5 / 2)), w_icon = JStr ''01d''\<rparr>"

text \<open>
  \<open>fetchWeatherData\<close>, lines 99--124: no status check, so an error answer
  is read like a success; every throw (network, non-JSON text, a missing
  field) gives the fallback.
\<close>

definition maps_weather :: "(jsval \<Rightarrow> js_float) \<Rightarrow> json_parser \<Rightarrow> fetch_result \<Rightarrow> weather_data" where
  "maps_weather conv parse r =
     (case r of
        NetworkFailure \<Rightarrow> fallback_weather
      | Response st responseText \<Rightarrow>
          (case parse responseText of
             None \<Rightarrow> fallback_weather
           | Some data \<Rightarrow>
               (case js_read_all data maps_weather_paths of
                  Inl _ \<Rightarrow> fallback_weather
                | Inr vs \<Rightarrow> \<lparr>w_temperature = js_round (js_to_number conv (vs ! 0)), w_description = vs ! 1,
                             w_humidity = vs ! 2, w_windSpeed = vs ! 3, w_icon = vs ! 4\<rparr>)))"

subsection \<open>Page state and events\<close>

text \<open>A marker as \<open>updateMapMarkers\<close> creates it (lines 186--224).\<close>

record marker =
  mk_lat :: real
  mk_lng :: real
  mk_title :: string
  mk_color :: string

definition markers_for :: "hotspot list \<Rightarrow> marker list" where
  "markers_for ts = map (\<lambda>h. \<lparr>mk_lat = hs_lat h, mk_lng = hs_lng h, mk_title = hs_description h,
                               mk_color = getTrafficColor (hs_intensity h)\<rparr>) ts"

record maps_state =
  trafficData :: "hotspot list"
  weather :: "weather_data option"
  isLoading :: bool
  map_ready :: bool
  markers :: "marker list"
  initMap_closure :: "hotspot list option"
  mounted :: bool

definition maps_init :: maps_state where
  "maps_init = \<lparr>trafficData = [], weather = None, isLoading = True, map_ready = False, markers = [],
               initMap_closure = None, mounted = False\<rparr>"

text \<open>
  \<open>Mount g\<close> is the mount effect, \<open>g\<close> telling whether \<open>window.google\<close>
  is already loaded; \<open>ScriptLoaded\<close> is the Maps script calling
  \<open>window.initMap\<close>; \<open>TrafficUpdate\<close> is the 30-second interval or the
  refresh button; \<open>WeatherArrives\<close> is a settled weather fetch.
\<close>

datatype maps_event =
    Mount bool | ScriptLoaded | TrafficUpdate "real stream"
  | WeatherArrives "fetch_result"

definition initializeMap :: "hotspot list \<Rightarrow> maps_state \<Rightarrow> maps_state" where
  "initializeMap closureTraffic s = s\<lparr>map_ready := True, markers := markers s @ markers_for closureTraffic,
                                      isLoading := False\<rparr>"

fun maps_step :: "(jsval \<Rightarrow> js_float) \<Rightarrow> json_parser \<Rightarrow> maps_state \<Rightarrow> maps_event \<Rightarrow> maps_state" where
  "maps_step conv parse s (Mount g) =
     (if mounted s then s
      else (let s' = s\<lparr>trafficData := nimmanTrafficHotspots, mounted := True\<rparr>
            in if g then initializeMap (trafficData s) s' else s'\<lparr>initMap_closure := Some (trafficData s)\<rparr>))"
| "maps_step conv parse s ScriptLoaded =
     (case initMap_closure s of None \<Rightarrow> s | Some ts \<Rightarrow> initializeMap ts (s\<lparr>initMap_closure := None\<rparr>))"
| "maps_step conv parse s (TrafficUpdate rs) =
     (if mounted s then s\<lparr>trafficData := fst (updated_hotspots nimmanTrafficHotspots rs)\<rparr> else s)"
| "maps_step conv parse s (WeatherArrives r) =
     (if mounted s then s\<lparr>weather := Some (maps_weather conv parse r)\<rparr> else s)"

inductive maps_reachable :: "(jsval \<Rightarrow> js_float) \<Rightarrow> json_parser \<Rightarrow> maps_state \<Rightarrow> bool" for conv parse where
  init: "maps_reachable conv parse maps_init"
| step: "maps_reachable conv parse s \<Longrightarrow> maps_reachable conv parse (maps_step conv parse s e)"

fun maps_run :: "(jsval \<Rightarrow> js_float) \<Rightarrow> json_parser \<Rightarrow> maps_state \<Rightarrow> maps_event list \<Rightarrow> maps_state" where
  "maps_run conv parse s [] = s"
| "maps_run conv parse s (e # es) = maps_run conv parse (maps_step conv parse s e) es"

text \<open>
  What the closures make of the page: no marker is ever created, the only
  closure registered for the script holds the empty list, and after the
  mount the six hotspots are listed.
\<close>

definition maps_inv :: "maps_state \<Rightarrow> bool" where
  "maps_inv s \<longleftrightarrow> markers s = [] \<and> (initMap_closure s = None \<or> initMap_closure s = Some [])
                  \<and> (if mounted s then length (trafficData s) = 6 else trafficData s = [])"

subsection \<open>The rendered page\<close>

text \<open>
  A row of the hotspot list, lines 443--490: description, intensity label and
  the coordinates with \<open>toFixed(4)\<close>.  Its "show on map" button only moves
  the Google map, which is not modelled.
\<close>

record hotspot_row =
  row_description :: string
  row_label :: string
  row_lat :: "string option"
  row_lng :: "string option"

definition hotspot_row :: "hotspot \<Rightarrow> hotspot_row" where
  "hotspot_row h = \<lparr>row_description = hs_description h, row_label = getTrafficLabel (hs_intensity h),
                    row_lat = toFixed 4 (Fin (hs_lat h)), row_lng = toFixed 4 (Fin (hs_lng h))\<rparr>"

text \<open>
  The page of lines 296--490: the weather card (lines 298--312) and the
  weather details (lines 407--441) while a weather value is set, the counts
  of \<open>getTrafficStats\<close> and the total (lines 314--362), the map's spinner
  while loading (lines 395--400), and the hotspot rows.
\<close>

record maps_view =
  mv_weather_card :: "(js_float \<times> jsval) option"
  mv_stats :: traffic_stats
  mv_total :: nat
  mv_spinner :: bool
  mv_weather_details :: "(js_float \<times> jsval \<times> jsval \<times> jsval) option"
  mv_rows :: "hotspot_row list"

definition maps_view :: "maps_state \<Rightarrow> maps_view" where
  "maps_view s =
     \<lparr>mv_weather_card = map_option (\<lambda>w. (w_temperature w, w_description w)) (weather s),
      mv_stats = getTrafficStats (trafficData s),
      mv_total = length (trafficData s),
      mv_spinner = isLoading s,
      mv_weather_details = map_option (\<lambda>w. (w_temperature w, w_description w, w_humidity w, w_windSpeed w)) (weather s),
      mv_rows = map hotspot_row (trafficData s)\<rparr>"

subsection \<open>Properties\<close>

lemma updated_hotspots_length: "length (fst (updated_hotspots hs rs)) = length hs"
  by (induction hs arbitrary: rs) (auto split: prod.split, metis fst_conv)

lemma nimmanTrafficHotspots_length: "length nimmanTrafficHotspots = 6"
  by (simp add: nimmanTrafficHotspots_def)

lemma maps_step_inv: "maps_inv s \<Longrightarrow> maps_inv (maps_step conv parse s e)"
  by (cases e) (auto simp: maps_inv_def initializeMap_def markers_for_def Let_def updated_hotspots_length
                          nimmanTrafficHotspots_length)

lemma intensity_counts:
  "length (filter (\<lambda>t. hs_intensity t = High) ts) + length (filter (\<lambda>t. hs_intensity t = Medium) ts)
     + length (filter (\<lambda>t. hs_intensity t = Low) ts) = length ts"
proof (induction ts)
  case Nil
  show ?case by simp
next
  case (Cons t ts)
  then show ?case by (cases "hs_intensity t") auto
qed

text \<open>The three traffic counts always add up to the total card.\<close>

lemma maps_stats_add_up:
  "st_high (mv_stats (maps_view s)) + st_medium (mv_stats (maps_view s)) + st_low (mv_stats (maps_view s))
     = mv_total (maps_view s)"
  by (simp add: maps_view_def getTrafficStats_def intensity_counts)

text \<open>After a traffic update the six rows keep their places and descriptions; only the labels change.\<close>

lemma traffic_update_keeps_rows:
  "map row_description (mv_rows (maps_view (maps_step conv parse s (TrafficUpdate rs))))
     = (if mounted s then map hs_description nimmanTrafficHotspots else map row_description (mv_rows (maps_view s)))"
proof -
  have "map hs_description (fst (updated_hotspots hs rs)) = map hs_description hs" for hs :: "hotspot list" and rs
    by (induction hs arbitrary: rs) (auto split: prod.split, metis fst_conv)
  then show ?thesis by (simp add: maps_view_def hotspot_row_def comp_def)
qed

lemma maps_run_reachable:
  "maps_reachable conv parse s \<Longrightarrow> maps_reachable conv parse (maps_run conv parse s es)"
  by (induction es arbitrary: s) (auto intro: maps_reachable.step)

text \<open>
  C36: The map never shows a hotspot marker: the mount effect's
  \<open>initializeMap\<close> (called at once, or later through \<open>window.initMap\<close>)
  reads \<open>trafficData\<close> from the first render's closure, where it is still
  empty, although the page lists its six hotspots after the mount.
\<close>

theorem maps_markers_never_created:
  "maps_reachable conv parse s \<Longrightarrow> markers s = [] \<and> (mounted s \<longrightarrow> length (trafficData s) = 6)"
proof -
  assume "maps_reachable conv parse s"
  then have "maps_inv s"
  proof (induction rule: maps_reachable.induct)
    case init
    show ?case by (simp add: maps_inv_def maps_init_def)
  next
    case (step s e)
    then show ?case by (simp add: maps_step_inv)
  qed
  then show ?thesis by (simp add: maps_inv_def)
qed

theorem maps_markers_never_created_witness:
  "markers (maps_run (\<lambda>_. NaN) (\<lambda>_. None) maps_init [Mount False, ScriptLoaded]) = []
   \<and> length (trafficData (maps_run (\<lambda>_. NaN) (\<lambda>_. None) maps_init [Mount False, ScriptLoaded])) = 6"
proof -
  have h: "markers (maps_run (\<lambda>_. NaN) (\<lambda>_. None) maps_init [Mount False, ScriptLoaded]) = []
     \<and> (mounted (maps_run (\<lambda>_. NaN) (\<lambda>_. None) maps_init [Mount False, ScriptLoaded]) \<longrightarrow> length (trafficData (maps_run (\<lambda>_. NaN) (\<lambda>_. None) maps_init [Mount False, ScriptLoaded])) = 6)"
    by (rule maps_markers_never_created[OF maps_run_reachable[OF maps_reachable.init]])
  have "mounted (maps_run (\<lambda>_. NaN) (\<lambda>_. None) maps_init [Mount False, ScriptLoaded])"
    by (simp add: maps_init_def initializeMap_def)
  with h show ?thesis by blast
qed

end
