(* ===== verification/Dashboard.thy ===== *)
theory Dashboard
  imports CoordInput "HOL-Library.Stream"
begin

text \<open>
  The business dashboard, \<open>src/app/dashboard/page.tsx\<close>.  Its metrics are
  mock data: \<open>fetchBusinessMetrics\<close> (lines 77--125) waits on a timer and
  then builds a \<open>BusinessMetrics\<close> object from thirteen \<open>Math.random()\<close>
  draws, taken in the order the object literal evaluates them.  Draws are a
  stream of reals in \<open>[0, 1)\<close>; the arithmetic is on reals (the rounding of
  doubles is not modelled).  The timers are counted, since a refresh can start
  one while another is pending.  Currency formatting with
  \<open>Intl.NumberFormat\<close> is a parameter of the view; dates and the static
  texts are not modelled.
\<close>

record revenue_metrics =
  rv_current :: real
  rv_previous :: real
  rv_growth :: real

record customer_metrics =
  cu_total :: real
  cu_new :: real
  cu_returning :: real
  cu_conversionRate :: real
  cu_lifetimeValue :: real

record roi_metrics =
  roi_percentage :: real
  roi_investment :: real
  roi_returns :: real

record sales_metrics =
  sa_today :: real
  sa_thisWeek :: real
  sa_thisMonth :: real
  sa_target :: real

record performance_metrics =
  pf_pageViews :: real
  pf_engagement :: real
  pf_avgSessionTime :: real
  pf_bounceRate :: real

record BusinessMetrics =
  revenue :: revenue_metrics
  customers :: customer_metrics
  roi :: roi_metrics
  sales :: sales_metrics
  performance :: performance_metrics

text \<open>The timer callback of lines 84--122; \<open>r i\<close> is the \<open>i\<close>-th draw.\<close>

definition generate_metrics :: "real stream \<Rightarrow> BusinessMetrics" where
  "generate_metrics rs =
     (let r = snth rs;
          baseRevenue = 2850000;
          variation = (r 0 - 0.5) * 100000
      in \<lparr>revenue = \<lparr>rv_current = baseRevenue + variation, rv_previous = 2450000,
                     rv_growth = 16.3 + (r 1 - 0.5) * 2\<rparr>,
          customers = \<lparr>cu_total = 1247 + of_int \<lfloor>r 2 * 20\<rfloor>, cu_new = 89 + of_int \<lfloor>r 3 * 10\<rfloor>,
                       cu_returning = 1158, cu_conversionRate = 3.2 + (r 4 - 0.5) * 0.5,
                       cu_lifetimeValue = 15600 + of_int \<lfloor>r 5 * 1000\<rfloor>\<rparr>,
          roi = \<lparr>roi_percentage = 24.5 + (r 6 - 0.5) * 2, roi_investment = 5000000,
                 roi_returns = 6225000 + of_int \<lfloor>r 7 * 100000\<rfloor>\<rparr>,
          sales = \<lparr>sa_today = 45000 + of_int \<lfloor>r 8 * 10000\<rfloor>, sa_thisWeek = 285000, sa_thisMonth = 1150000,
                   sa_target = 50000\<rparr>,
          performance = \<lparr>pf_pageViews = 12450 + of_int \<lfloor>r 9 * 500\<rfloor>, pf_engagement = 68.5 + (r 10 - 0.5) * 5,
                         pf_avgSessionTime = 4.2 + (r 11 - 0.5) * 0.5, pf_bounceRate = 32.1 + (r 12 - 0.5) * 3\<rparr>\<rparr>)"

record dashboard_state =
  metrics :: "BusinessMetrics option"
  selectedPeriod :: string
  isLoading :: bool
  isRefreshing :: bool
  timers :: nat

definition dashboard_init :: dashboard_state where
  "dashboard_init = \<lparr>metrics = None, selectedPeriod = ''thisMonth'', isLoading = True, isRefreshing = False,
                     timers = 0\<rparr>"

text \<open>
  \<open>Fetch auto\<close> is a call of \<open>fetchBusinessMetrics\<close>: on mount and from the
  refresh button with \<open>auto = False\<close>, from the five-minute interval with
  \<open>auto = True\<close>.  The refresh button is disabled while refreshing (line 218)
  and hidden behind the spinner while loading (line 186).
\<close>

datatype dashboard_event = Fetch bool | TimerFires "real stream" | SelectPeriod string

fun dashboard_step :: "dashboard_state \<Rightarrow> dashboard_event \<Rightarrow> dashboard_state" where
  "dashboard_step s (Fetch auto) =
     (if auto then s\<lparr>isRefreshing := True, timers := Suc (timers s)\<rparr>
      else s\<lparr>isLoading := True, timers := Suc (timers s)\<rparr>)"
| "dashboard_step s (TimerFires rs) =
     (if timers s = 0 then s
      else s\<lparr>metrics := Some (generate_metrics rs), isLoading := False, isRefreshing := False,
             timers := timers s - 1\<rparr>)"
| "dashboard_step s (SelectPeriod p) = s\<lparr>selectedPeriod := p\<rparr>"

subsection \<open>Formatting and derived values\<close>

text \<open>\<open>formatPercentage\<close>, lines 139--141: \<open>toFixed(1)\<close> and a percent sign.\<close>

definition formatPercentage :: "real \<Rightarrow> string option" where
  "formatPercentage x = map_option (\<lambda>t. t @ ''%'') (toFixed 1 (Fin x))"

text \<open>
  The width of the sales progress bar, line 331, in percent; \<open>metrics?.x || d\<close>
  is \<^const>\<open>js_num_or\<close> on a metric that may be missing or zero.
\<close>

definition sales_progress :: "BusinessMetrics option \<Rightarrow> real" where
  "sales_progress m =
     js_num_or (map_option (sa_today \<circ> sales) m) 0 / js_num_or (map_option (sa_target \<circ> sales) m) 50000 * 100"

text \<open>The last bar of the revenue chart, lines 143--149, with its width in percent (line 378).\<close>

definition revenueChartData :: "BusinessMetrics option \<Rightarrow> real list" where
  "revenueChartData m =
     [2100000, 2300000, 2450000, 2650000, js_num_or (map_option (rv_current \<circ> revenue) m) 2850000]"

definition chart_width :: "real \<Rightarrow> real" where
  "chart_width amount = amount / 3000000 * 100"

fun dashboard_run :: "dashboard_state \<Rightarrow> dashboard_event list \<Rightarrow> dashboard_state" where
  "dashboard_run s [] = s"
| "dashboard_run s (e # es) = dashboard_run (dashboard_step s e) es"

inductive dashboard_reachable :: "dashboard_state \<Rightarrow> bool" where
  init: "dashboard_reachable dashboard_init"
| step: "dashboard_reachable s \<Longrightarrow> dashboard_reachable (dashboard_step s e)"

subsection \<open>The rendered page\<close>

text \<open>\<open>customerSegmentData\<close>, lines 152--156: percentage and count of each segment.\<close>

definition customerSegmentData :: "BusinessMetrics option \<Rightarrow> (nat \<times> real) list" where
  "customerSegmentData m =
     [(35, js_num_or (map_option (cu_new \<circ> customers) m) 89),
      (45, js_num_or (map_option (cu_returning \<circ> customers) m) 1158),
      (20, 250)]"

text \<open>\<open>performanceMetrics\<close>, lines 158--187: label, value and suffix.\<close>

definition performanceMetrics :: "BusinessMetrics option \<Rightarrow> (string \<times> real \<times> string) list" where
  "performanceMetrics m =
     [(''Page Views'', js_num_or (map_option (pf_pageViews \<circ> performance) m) 0, '' views''),
      (''Engagement Rate'', js_num_or (map_option (pf_engagement \<circ> performance) m) 0, ''%''),
      (''Avg Session Time'', js_num_or (map_option (pf_avgSessionTime \<circ> performance) m) 0, '' min''),
      (''Bounce Rate'', js_num_or (map_option (pf_bounceRate \<circ> performance) m) 0, ''%'')]"

text \<open>Lines 339--361: each value is a number, so it is shown with \<open>toFixed(1)\<close> and its suffix.\<close>

definition performance_text :: "string \<times> real \<times> string \<Rightarrow> string \<times> string option" where
  "performance_text x = (case x of (l, v, suffix) \<Rightarrow> (l, map_option (\<lambda>t. t @ suffix) (toFixed 1 (Fin v))))"

text \<open>
  The key metric cards, lines 264--337.  \<open>metrics?.customers.new\<close> is
  shown without a default (lines 290, 295); currency and plain numbers go
  through \<open>Intl.NumberFormat\<close> (lines 126--136), whose output is the
  parameters \<open>fmtCurrency\<close> and \<open>fmtNumber\<close>.
\<close>

record key_metrics_view =
  km_growth :: "string option"
  km_revenue :: string
  km_customers :: string
  km_new_customers :: "real option"
  km_roi :: "string option"
  km_sales_today :: string
  km_sales_width :: real
  km_sales_target :: string

definition key_metrics :: "(real \<Rightarrow> string) \<Rightarrow> (real \<Rightarrow> string) \<Rightarrow> BusinessMetrics option \<Rightarrow> key_metrics_view" where
  "key_metrics fmtCurrency fmtNumber m =
     \<lparr>km_growth = map_option (\<lambda>t. ''+'' @ t) (formatPercentage (js_num_or (map_option (rv_growth \<circ> revenue) m) 0)),
      km_revenue = fmtCurrency (js_num_or (map_option (rv_current \<circ> revenue) m) 0),
      km_customers = fmtNumber (js_num_or (map_option (cu_total \<circ> customers) m) 0),
      km_new_customers = map_option (cu_new \<circ> customers) m,
      km_roi = formatPercentage (js_num_or (map_option (roi_percentage \<circ> roi) m) 0),
      km_sales_today = fmtCurrency (js_num_or (map_option (sa_today \<circ> sales) m) 0),
      km_sales_width = sales_progress m,
      km_sales_target = fmtCurrency (js_num_or (map_option (sa_target \<circ> sales) m) 50000)\<rparr>"

text \<open>The revenue chart, lines 365--390: each bar's width and amount.\<close>

definition revenue_chart :: "(real \<Rightarrow> string) \<Rightarrow> BusinessMetrics option \<Rightarrow> (real \<times> string) list" where
  "revenue_chart fmtCurrency m = map (\<lambda>r. (chart_width r, fmtCurrency r)) (revenueChartData m)"

text \<open>The customer segments, lines 392--418: the percentage (also the bar width) and the count.\<close>

definition customer_segments :: "(real \<Rightarrow> string) \<Rightarrow> BusinessMetrics option \<Rightarrow> (nat \<times> string) list" where
  "customer_segments fmtNumber m = map (\<lambda>(p, c). (p, fmtNumber c)) (customerSegmentData m)"

text \<open>The KPI and ROI panels, lines 420--494.\<close>

record kpi_view =
  kpi_conversion :: "string option"
  kpi_ltv :: string
  kpi_investment :: string
  kpi_returns :: string
  kpi_roi :: "string option"

definition kpi_panels :: "(real \<Rightarrow> string) \<Rightarrow> BusinessMetrics option \<Rightarrow> kpi_view" where
  "kpi_panels fmtCurrency m =
     \<lparr>kpi_conversion = formatPercentage (js_num_or (map_option (cu_conversionRate \<circ> customers) m) 0),
      kpi_ltv = fmtCurrency (js_num_or (map_option (cu_lifetimeValue \<circ> customers) m) 0),
      kpi_investment = fmtCurrency (js_num_or (map_option (roi_investment \<circ> roi) m) 0),
      kpi_returns = fmtCurrency (js_num_or (map_option (roi_returns \<circ> roi) m) 0),
      kpi_roi = formatPercentage (js_num_or (map_option (roi_percentage \<circ> roi) m) 0)\<rparr>"

text \<open>
  The recommendations and alerts, lines 496--561; the sales alert says
  "below target" when today's sales are under the target (line 542).
\<close>

record insights_view =
  ins_new_customers :: "real option"
  ins_roi :: "string option"
  ins_engagement :: "string option"
  ins_sales_today :: string
  ins_sales_below_target :: bool
  ins_bounce :: "string option"

definition insights :: "(real \<Rightarrow> string) \<Rightarrow> BusinessMetrics option \<Rightarrow> insights_view" where
  "insights fmtCurrency m =
     \<lparr>ins_new_customers = map_option (cu_new \<circ> customers) m,
      ins_roi = formatPercentage (js_num_or (map_option (roi_percentage \<circ> roi) m) 0),
      ins_engagement = formatPercentage (js_num_or (map_option (pf_engagement \<circ> performance) m) 0),
      ins_sales_today = fmtCurrency (js_num_or (map_option (sa_today \<circ> sales) m) 0),
      ins_sales_below_target =
        (js_num_or (map_option (sa_today \<circ> sales) m) 0 < js_num_or (map_option (sa_target \<circ> sales) m) 50000),
      ins_bounce = formatPercentage (js_num_or (map_option (pf_bounceRate \<circ> performance) m) 0)\<rparr>"

record dashboard_view =
  dv_key_metrics :: key_metrics_view
  dv_performance :: "(string \<times> string option) list"
  dv_chart :: "(real \<times> string) list"
  dv_segments :: "(nat \<times> string) list"
  dv_kpis :: kpi_view
  dv_insights :: insights_view

text \<open>The page: a spinner while loading (lines 189--198), otherwise the sections in their order.\<close>

definition dashboard_view :: "(real \<Rightarrow> string) \<Rightarrow> (real \<Rightarrow> string) \<Rightarrow> dashboard_state \<Rightarrow> dashboard_view option" where
  "dashboard_view fmtCurrency fmtNumber s =
     (if isLoading s then None
      else Some \<lparr>dv_key_metrics = key_metrics fmtCurrency fmtNumber (metrics s),
                 dv_performance = map performance_text (performanceMetrics (metrics s)),
                 dv_chart = revenue_chart fmtCurrency (metrics s),
                 dv_segments = customer_segments fmtNumber (metrics s),
                 dv_kpis = kpi_panels fmtCurrency (metrics s),
                 dv_insights = insights fmtCurrency (metrics s)\<rparr>)"

subsection \<open>Properties\<close>

lemma floor_draw_bounds:
  fixes r :: real
  assumes "0 \<le> r" "r < 1"
  shows "0 \<le> \<lfloor>r * 10000\<rfloor> \<and> \<lfloor>r * 10000\<rfloor> \<le> 9999"
  using assms by (auto simp: floor_less_iff le_floor_iff)

lemma sales_progress_generated:
  assumes "0 \<le> snth rs 8"
  shows "sales_progress (Some (generate_metrics rs)) = (45000 + of_int \<lfloor>snth rs 8 * 10000\<rfloor>) / 500"
proof -
  have "0 \<le> \<lfloor>snth rs 8 * 10000\<rfloor>" using assms by simp
  then have "(45000::real) + of_int \<lfloor>snth rs 8 * 10000\<rfloor> \<noteq> 0" by linarith
  then show ?thesis by (simp add: sales_progress_def generate_metrics_def Let_def)
qed

text \<open>The page is never drawn without metrics: loading ends only when a timer delivers them.\<close>

lemma dashboard_loaded_has_metrics:
  "dashboard_reachable s \<Longrightarrow> \<not> isLoading s \<Longrightarrow> metrics s \<noteq> None"
proof (induction rule: dashboard_reachable.induct)
  case init
  then show ?case by (simp add: dashboard_init_def)
next
  case (step s e)
  then show ?case by (cases e) (auto split: if_split_asm)
qed

lemma floor_draw_scaled:
  fixes r :: real
  assumes "0 \<le> r" "r < 1" "0 < (n::nat)"
  shows "0 \<le> \<lfloor>r * n\<rfloor> \<and> \<lfloor>r * n\<rfloor> \<le> int n - 1"
proof -
  have "r * n < n" using assms by simp
  then show ?thesis using assms by (auto simp: floor_less_iff le_floor_iff)
qed

text \<open>Unlike the sales bar, every bar of the revenue chart stays inside its track.\<close>

lemma revenue_chart_within_track:
  assumes "0 \<le> snth rs 0" "snth rs 0 < 1"
  shows "\<forall>(w, _) \<in> set (revenue_chart fmtCurrency (Some (generate_metrics rs))). 70 \<le> w \<and> w < 100"
proof -
  have "2800000 \<le> rv_current (revenue (generate_metrics rs))" "rv_current (revenue (generate_metrics rs)) < 2900000"
    using assms by (simp_all add: generate_metrics_def Let_def)
  then show ?thesis by (auto simp: revenue_chart_def revenueChartData_def chart_width_def)
qed

text \<open>The sales alert and the sales bar agree: the alert says "below target" exactly when the bar is short of its track.\<close>

lemma sales_alert_matches_bar:
  assumes "0 \<le> snth rs 8"
  shows "ins_sales_below_target (insights fmtCurrency (Some (generate_metrics rs)))
           \<longleftrightarrow> km_sales_width (key_metrics fmtCurrency fmtNumber (Some (generate_metrics rs))) < 100"
proof -
  define k where "k = real_of_int \<lfloor>snth rs 8 * 10000\<rfloor>"
  have "0 \<le> \<lfloor>snth rs 8 * 10000\<rfloor>" using assms by simp
  then have k: "45000 + k \<noteq> 0" unfolding k_def by linarith
  have t: "sa_today (sales (generate_metrics rs)) = 45000 + k" "sa_target (sales (generate_metrics rs)) = 50000"
    by (simp_all add: generate_metrics_def Let_def k_def)
  have w: "km_sales_width (key_metrics fmtCurrency fmtNumber (Some (generate_metrics rs))) = (45000 + k) / 500"
    using sales_progress_generated[OF assms] by (simp add: key_metrics_def k_def)
  have "ins_sales_below_target (insights fmtCurrency (Some (generate_metrics rs))) \<longleftrightarrow> 45000 + k < 50000"
    using t k by (simp add: insights_def)
  moreover have "45000 + k < 50000 \<longleftrightarrow> (45000 + k) / 500 < (100::real)" by (simp add: field_simps)
  ultimately show ?thesis unfolding w by blast
qed

text \<open>
  The customer segments show new customers as 35 percent, while the metrics
  make them less than 8 percent of the customer total.
\<close>

lemma new_customer_share:
  assumes "0 \<le> snth rs 2" "snth rs 2 < 1" "0 \<le> snth rs 3" "snth rs 3 < 1"
  shows "cu_new (customers (generate_metrics rs)) / cu_total (customers (generate_metrics rs)) * 100 < 8
         \<and> fst (hd (customerSegmentData (Some (generate_metrics rs)))) = 35"
proof -
  define a where "a = real_of_int \<lfloor>snth rs 2 * 20\<rfloor>"
  define b where "b = real_of_int \<lfloor>snth rs 3 * 10\<rfloor>"
  have ab: "0 \<le> a" "a \<le> 19" "0 \<le> b" "b \<le> 9"
    using floor_draw_scaled[of "snth rs 2" 20] floor_draw_scaled[of "snth rs 3" 10] assms
    unfolding a_def b_def by simp_all
  have "(89 + b) / (1247 + a) * 100 < 8"
    using ab by (simp add: field_simps)
  moreover have "89 + b \<noteq> 0" using ab by simp
  ultimately show ?thesis
    by (simp add: generate_metrics_def Let_def customerSegmentData_def a_def b_def)
qed

text \<open>
  C37: The sales progress bar is drawn between 90 and 110 percent wide: with
  a target of 50000 and today's sales of 45000 plus up to 9999, the bar is
  wider than its track (more than 100 percent) exactly when the draw is at
  least 0.5001, about half of all refreshes.
\<close>

theorem sales_progress_overflow:
  assumes "0 \<le> snth rs 8" "snth rs 8 < 1"
  shows "90 \<le> sales_progress (Some (generate_metrics rs)) \<and> sales_progress (Some (generate_metrics rs)) < 110
         \<and> (100 < sales_progress (Some (generate_metrics rs)) \<longleftrightarrow> 5001 / 10000 \<le> snth rs 8)"
proof -
  have b: "0 \<le> \<lfloor>snth rs 8 * 10000\<rfloor> \<and> \<lfloor>snth rs 8 * 10000\<rfloor> \<le> 9999"
    using floor_draw_bounds assms by blast
  have g: "5000 < \<lfloor>snth rs 8 * 10000\<rfloor> \<longleftrightarrow> 5001 / 10000 \<le> snth rs 8"
    by (auto simp: less_floor_iff)
  define k where "k = real_of_int \<lfloor>snth rs 8 * 10000\<rfloor>"
  have kb: "0 \<le> k" "k \<le> 9999" "5000 < k \<longleftrightarrow> 5001 / 10000 \<le> snth rs 8"
    using b g unfolding k_def by linarith+
  have "90 \<le> (45000 + k) / 500" "(45000 + k) / 500 < 110" "100 < (45000 + k) / 500 \<longleftrightarrow> 5000 < k"
    using kb by (simp_all add: field_simps)
  then show ?thesis
    unfolding sales_progress_generated[OF assms(1)] k_def[symmetric] using kb(3) by blast
qed

theorem sales_progress_overflow_witness:
  "0 \<le> snth (sconst (3 / 4 :: real)) 8 \<and> snth (sconst (3 / 4 :: real)) 8 < 1
   \<and> 90 \<le> sales_progress (Some (generate_metrics (sconst (3 / 4)))) \<and> sales_progress (Some (generate_metrics (sconst (3 / 4)))) < 110
   \<and> (100 < sales_progress (Some (generate_metrics (sconst (3 / 4)))) \<longleftrightarrow> 5001 / 10000 \<le> snth (sconst (3 / 4 :: real)) 8)"
proof -
  have h1: "0 \<le> snth (sconst (3 / 4 :: real)) 8" and h2: "snth (sconst (3 / 4 :: real)) 8 < 1"
    by simp_all
  show ?thesis
    using h1 h2 sales_progress_overflow[OF h1 h2] by blast
qed

end
