(* ===== verification/Business.thy ===== *)
theory Business
  imports Api
begin

text \<open>
  The existing-business analysis page (\<open>src/app/business/page.tsx\<close>) and
  the new-investment page (\<open>src/app/investment/page.tsx\<close>): two forms that
  post to one endpoint each and show the answer's text.  Both send the
  location as \<open>`${lat},${lon}`\<close>, which applies \<open>Number::toString\<close> to
  the coordinates; its result for finite numbers (the shortest digits that
  read back to the same double) is the parameter \<open>numStr\<close>, the non-finite
  values print as ECMAScript fixes them.  As on the other pages the submit
  handler is split at its await; the submit button is disabled while loading
  or while the main text is blank.  Category and type labels are not
  modelled.
\<close>

definition location_string :: "(real \<Rightarrow> string) \<Rightarrow> js_float \<Rightarrow> js_float \<Rightarrow> string" where
  "location_string numStr la lo = js_number_string numStr la @ '','' @ js_number_string numStr lo"

subsection \<open>Existing business analysis\<close>

record business_state =
  businessName :: string
  placeName :: string
  province :: string
  category :: string
  isLoading :: bool
  result :: jsval
  business_pending :: "jsval option"

definition business_init :: business_state where
  "business_init =
     \<lparr>businessName = utf8 [0x0E23, 0x0E49, 0x0E32, 0x0E19, 0x0E02, 0x0E49, 0x0E32, 0x0E27, 0x0E21, 0x0E31,
        0x0E19, 0x0E44, 0x0E01, 0x0E48, 0x0E19, 0x0E34, 0x0E21, 0x0E21, 0x0E32, 0x0E19],
      placeName = utf8 [0x0E19, 0x0E34, 0x0E21, 0x0E21, 0x0E32, 0x0E19, 0x0E40, 0x0E2B, 0x0E21, 0x0E34,
        0x0E19, 0x0E17, 0x0E23, 0x0E4C],
      province = utf8 [0x0E40, 0x0E0A, 0x0E35, 0x0E22, 0x0E07, 0x0E43, 0x0E2B, 0x0E21, 0x0E48],
      category = ''food'', isLoading = False, result = JNull, business_pending = None\<rparr>"

text \<open>Lines 27--35: a \<open>"lat,lon"\<close> place name is parsed, anything else gives Nimman's coordinates.\<close>

definition business_coords :: "string \<Rightarrow> js_float \<times> js_float" where
  "business_coords place =
     (if js_includes place '','' \<and> length (js_split CHR '','' place) = 2
      then (parseFloat (js_trim (js_split CHR '','' place ! 0)), parseFloat (js_trim (js_split CHR '','' place ! 1)))
      else (Fin 18.8022, Fin 98.9525))"

definition business_request :: "(real \<Rightarrow> string) \<Rightarrow> business_state \<Rightarrow> jsval" where
  "business_request numStr s =
     (case business_coords (placeName s) of
        (la, lo) \<Rightarrow> JObj [(''business_name'', JStr (businessName s)),
                          (''location'', JStr (location_string numStr la lo)), (''category'', JStr (category s))])"

definition business_error_text :: string where
  "business_error_text =
     utf8 [0x0E40, 0x0E01, 0x0E34, 0x0E14, 0x0E02, 0x0E49, 0x0E2D, 0x0E1C, 0x0E34, 0x0E14,
      0x0E1E, 0x0E25, 0x0E32, 0x0E14, 0x0E43, 0x0E19, 0x0E01, 0x0E32, 0x0E23, 0x0E27,
      0x0E34, 0x0E40, 0x0E04, 0x0E23, 0x0E32, 0x0E30, 0x0E2B, 0x0E4C, 0x0E18, 0x0E38,
      0x0E23, 0x0E01, 0x0E34, 0x0E08, 0x20, 0x0E01, 0x0E23, 0x0E38, 0x0E13, 0x0E32,
      0x0E25, 0x0E2D, 0x0E07, 0x0E43, 0x0E2B, 0x0E21, 0x0E48, 0x0E2D, 0x0E35, 0x0E01,
      0x0E04, 0x0E23, 0x0E31, 0x0E49, 0x0E07]"

datatype business_field = BusinessName | PlaceName | Province | Category

datatype business_event = BusinessEdit business_field string | BusinessSubmit | BusinessReply "client_error + jsval"

fun business_step :: "(real \<Rightarrow> string) \<Rightarrow> business_state \<Rightarrow> business_event \<Rightarrow> business_state" where
  "business_step numStr s (BusinessEdit f v) =
     (case f of BusinessName \<Rightarrow> s\<lparr>businessName := v\<rparr> | PlaceName \<Rightarrow> s\<lparr>placeName := v\<rparr>
              | Province \<Rightarrow> s\<lparr>province := v\<rparr> | Category \<Rightarrow> s\<lparr>category := v\<rparr>)"
| "business_step numStr s BusinessSubmit =
     (if isLoading s \<or> js_trim (businessName s) = [] then s
      else s\<lparr>isLoading := True, result := JNull, business_pending := Some (business_request numStr s)\<rparr>)"
| "business_step numStr s (BusinessReply r) =
     (if business_pending s = None then s
      else (case r of
              Inr data \<Rightarrow> s\<lparr>result := data, isLoading := False, business_pending := None\<rparr>
            | Inl _ \<Rightarrow> s\<lparr>result := JObj [(''error'', JStr business_error_text)], isLoading := False,
                         business_pending := None\<rparr>))"

subsection \<open>New investment recommendation\<close>

record investment_state =
  investMessage :: string
  inv_placeName :: string
  inv_province :: string
  entrepreneurType :: string
  inv_isLoading :: bool
  inv_result :: jsval
  investment_pending :: "jsval option"

definition investment_init :: investment_state where
  "investment_init =
     \<lparr>investMessage = utf8 [0x0E40, 0x0E1B, 0x0E47, 0x0E19, 0x0E19, 0x0E31, 0x0E01, 0x0E25, 0x0E07, 0x0E17,
      0x0E38, 0x0E19, 0x0E23, 0x0E32, 0x0E22, 0x0E43, 0x0E2B, 0x0E21, 0x0E48, 0x20,
      0x0E07, 0x0E1A, 0x20, 0x34, 0x30, 0x30, 0x30, 0x30, 0x30, 0x30,
      0x20, 0x0E40, 0x0E1B, 0x0E34, 0x0E14, 0x0E04, 0x0E32, 0x0E40, 0x0E1F, 0x0E48,
      0x0E02, 0x0E49, 0x0E32, 0x0E07, 0x0E40, 0x0E21, 0x0E0D, 0x0E48, 0x0E32, 0x20,
      0x0E2D, 0x0E22, 0x0E32, 0x0E01, 0x0E23, 0x0E39, 0x0E49, 0x0E27, 0x0E48, 0x0E32,
      0x0E04, 0x0E27, 0x0E23, 0x0E17, 0x0E33, 0x0E02, 0x0E19, 0x0E21, 0x0E1B, 0x0E23,
      0x0E30, 0x0E21, 0x0E32, 0x0E13, 0x0E44, 0x0E2B, 0x0E19, 0x0E14, 0x0E35, 0x20,
      0x0E04, 0x0E27, 0x0E23, 0x0E27, 0x0E32, 0x0E07, 0x0E01, 0x0E25, 0x0E22, 0x0E38,
      0x0E17, 0x0E18, 0x0E4C, 0x0E17, 0x0E32, 0x0E07, 0x0E01, 0x0E32, 0x0E23, 0x0E15,
      0x0E25, 0x0E32, 0x0E14, 0x0E22, 0x0E31, 0x0E07, 0x0E44, 0x0E07],
      inv_placeName = utf8 [0x0E40, 0x0E21, 0x0E0D, 0x0E48, 0x0E32],
      inv_province = utf8 [0x0E40, 0x0E0A, 0x0E35, 0x0E22, 0x0E07, 0x0E43, 0x0E2B, 0x0E21, 0x0E48],
      entrepreneurType = ''new'', inv_isLoading = False, inv_result = JNull, investment_pending = None\<rparr>"

text \<open>Lines 28--37 of the investment page: the location is always Nimman's, whatever the place name.\<close>

definition investment_request :: "(real \<Rightarrow> string) \<Rightarrow> investment_state \<Rightarrow> jsval" where
  "investment_request numStr s =
     JObj [(''user_message'', JStr (investMessage s)),
           (''location'', JStr (location_string numStr (Fin 18.8022) (Fin 98.9525))),
           (''entrepreneur_type'', JStr (entrepreneurType s))]"

definition investment_error_text :: string where
  "investment_error_text =
     utf8 [0x0E40, 0x0E01, 0x0E34, 0x0E14, 0x0E02, 0x0E49, 0x0E2D, 0x0E1C, 0x0E34, 0x0E14,
      0x0E1E, 0x0E25, 0x0E32, 0x0E14, 0x0E43, 0x0E19, 0x0E01, 0x0E32, 0x0E23, 0x0E02,
      0x0E2D, 0x0E04, 0x0E33, 0x0E41, 0x0E19, 0x0E30, 0x0E19, 0x0E33, 0x20, 0x0E01,
      0x0E23, 0x0E38, 0x0E13, 0x0E32, 0x0E25, 0x0E2D, 0x0E07, 0x0E43, 0x0E2B, 0x0E21,
      0x0E48, 0x0E2D, 0x0E35, 0x0E01, 0x0E04, 0x0E23, 0x0E31, 0x0E49, 0x0E07]"

datatype investment_field = InvestMessage | InvPlaceName | InvProvince | EntrepreneurType

datatype investment_event =
    InvestmentEdit investment_field string | InvestmentSubmit | InvestmentReply "client_error + jsval"

fun investment_step :: "(real \<Rightarrow> string) \<Rightarrow> investment_state \<Rightarrow> investment_event \<Rightarrow> investment_state" where
  "investment_step numStr s (InvestmentEdit f v) =
     (case f of InvestMessage \<Rightarrow> s\<lparr>investMessage := v\<rparr> | InvPlaceName \<Rightarrow> s\<lparr>inv_placeName := v\<rparr>
              | InvProvince \<Rightarrow> s\<lparr>inv_province := v\<rparr> | EntrepreneurType \<Rightarrow> s\<lparr>entrepreneurType := v\<rparr>)"
| "investment_step numStr s InvestmentSubmit =
     (if inv_isLoading s \<or> js_trim (investMessage s) = [] then s
      else s\<lparr>inv_isLoading := True, inv_result := JNull, investment_pending := Some (investment_request numStr s)\<rparr>)"
| "investment_step numStr s (InvestmentReply r) =
     (if investment_pending s = None then s
      else (case r of
              Inr data \<Rightarrow> s\<lparr>inv_result := data, inv_isLoading := False, investment_pending := None\<rparr>
            | Inl _ \<Rightarrow> s\<lparr>inv_result := JObj [(''error'', JStr investment_error_text)], inv_isLoading := False,
                         investment_pending := None\<rparr>))"

subsection \<open>The answer block\<close>

text \<open>
  Both pages show \<open>result.error\<close> and the first truthy of some text keys,
  split into paragraphs, which throws unless it is a string: \<open>analysis\<close>
  and \<open>message\<close> on the business page (lines 179--210), \<open>recommendation\<close>,
  \<open>analysis\<close> and \<open>message\<close> on the investment page (lines 163--196).
\<close>

record answer_view =
  answer_error :: "jsval option"
  answer_paragraphs :: "string list option"

definition answer_view :: "string list \<Rightarrow> jsval \<Rightarrow> js_error + answer_view option" where
  "answer_view keys r =
     (if \<not> js_truthy r then Inr None
      else (let t = js_or_chain (map (js_get r) keys)
            in case (if js_truthy t
                     then (case js_or_chain (map (js_get r) keys @ [JStr []]) of
                             JStr x \<Rightarrow> Inr (Some (js_lines x)) | _ \<Rightarrow> Inl TypeError)
                     else Inr None) of
                 Inl e \<Rightarrow> Inl e
               | Inr ps \<Rightarrow> Inr (Some \<lparr>answer_error = (if js_truthy (js_get r ''error'') then Some (js_get r ''error'') else None),
                                     answer_paragraphs = ps\<rparr>)))"

definition business_view :: "business_state \<Rightarrow> js_error + answer_view option" where
  "business_view s = answer_view [''analysis'', ''message''] (result s)"

definition investment_view :: "investment_state \<Rightarrow> js_error + answer_view option" where
  "investment_view s = answer_view [''recommendation'', ''analysis'', ''message''] (inv_result s)"

subsection \<open>Properties\<close>

text \<open>The investment page sends Nimman's location whatever place and province the user typed.\<close>

lemma investment_request_ignores_place:
  "investment_request numStr (s\<lparr>inv_placeName := p, inv_province := q\<rparr>) = investment_request numStr s"
  by (simp add: investment_request_def)

text \<open>
  A place name with one comma that is not a coordinate pair (an address such
  as \<open>"Nimman, Chiang Mai"\<close>) is sent as the location \<open>"NaN,NaN"\<close>
  instead of falling back to Nimman's coordinates.
\<close>

lemma business_comma_place_sends_nan:
  "js_get (business_request numStr (s\<lparr>placeName := ''Nimman, Chiang Mai''\<rparr>)) ''location'' = JStr ''NaN,NaN''"
proof -
  have "business_coords ''Nimman, Chiang Mai'' = (NaN, NaN)" by code_simp
  then show ?thesis by (simp add: business_request_def location_string_def js_number_string_def)
qed

text \<open>A submission answered with data shows the data and restores the form's loading state.\<close>

lemma business_submit_then_reply:
  assumes "\<not> isLoading s" "js_trim (businessName s) \<noteq> []"
  shows "business_step numStr (business_step numStr s BusinessSubmit) (BusinessReply (Inr d))
           = s\<lparr>result := d, business_pending := None\<rparr>"
  using assms by simp

end
