(* ===== verification/Navigation.thy ===== *)
theory Navigation
  imports Main
begin

text \<open>
  Navigation between the pages of \<open>src/app\<close>.  A route is the path of a
  page directory.  Each page contributes the targets of its
  \<open>router.push\<close> calls: the links and buttons a user clicks, and the
  redirects a page makes on its own (the home page to \<open>/error\<close> when its
  fallback fails, the results page to \<open>/error\<close> or \<open>/\<close> on mount).  The
  error page's retry button is \<open>router.back()\<close>.  The browser keeps the
  history as a stack whose head is the page shown.
\<close>

definition app_routes :: "string list" where
  "app_routes = [''/'', ''/business'', ''/carbon-tracker'', ''/chat'', ''/dashboard'', ''/error'', ''/investment'',
                 ''/maps'', ''/results'', ''/upload'']"

subsection \<open>The links of each page\<close>

text \<open>The home page's header buttons, \<open>src/app/page.tsx\<close> lines 179--226.\<close>

definition home_header_links :: "string list" where
  "home_header_links = [''/chat'', ''/upload'', ''/investment'', ''/business'', ''/carbon-tracker'', ''/maps'', ''/dashboard'']"

text \<open>The eight feature cards, lines 400--505, with the page each opens, if any.\<close>

definition featureCards :: "(string \<times> string option) list" where
  "featureCards =
     [(''AI Travel Chatbot'', Some ''/chat''), (''Carbon Credit Tracker'', Some ''/carbon-tracker''),
      (''Traffic Monitor'', Some ''/maps''), (''Business Dashboard'', Some ''/dashboard''),
      (''Investment Analytics'', None), (''Image Analysis'', Some ''/upload''),
      (''Route Optimization'', None), (''Real-time Data'', None)]"

definition card_targets :: "(string \<times> string option) list \<Rightarrow> string list" where
  "card_targets cs = concat (map (\<lambda>(_, t). case t of Some p \<Rightarrow> [p] | None \<Rightarrow> []) cs)"

text \<open>Line 80: the home page's redirect when its chat fallback fails.\<close>

definition home_redirects :: "string list" where
  "home_redirects = [''/error'']"

text \<open>
  \<open>src/app/results/page.tsx\<close>: the mount's redirects (lines 95--105), the
  header button (line 259), "search again" when nothing was found (line 330),
  and the two action buttons (lines 339--351).
\<close>

definition results_links :: "string list" where
  "results_links = [''/error'', ''/'', ''/'', ''/'', ''/'', ''/chat'']"

text \<open>\<open>src/app/error/page.tsx\<close> lines 33--47: home and chat; retry is \<open>router.back()\<close> (lines 9--11).\<close>

definition error_links :: "string list" where
  "error_links = [''/'', ''/chat'']"

text \<open>The back-to-home buttons of the chat (line 111), upload (lines 107, 287),
  carbon tracker (line 158), business (line 77) and investment (line 64) pages.\<close>

definition chat_links :: "string list" where "chat_links = [''/'']"
definition upload_links :: "string list" where "upload_links = [''/'', ''/'']"
definition tracker_links :: "string list" where "tracker_links = [''/'']"
definition business_links :: "string list" where "business_links = [''/'']"
definition investment_links :: "string list" where "investment_links = [''/'']"

text \<open>\<open>src/app/maps/page.tsx\<close> lines 276--285: dashboard and home.\<close>

definition maps_links :: "string list" where "maps_links = [''/dashboard'', ''/'']"

text \<open>\<open>src/app/dashboard/page.tsx\<close>: the header (lines 233--242) and the quick actions (lines 563--598).\<close>

definition dashboard_links :: "string list" where
  "dashboard_links = [''/maps'', ''/'', ''/maps'', ''/business'', ''/investment'', ''/carbon-tracker'']"

definition page_links :: "string \<Rightarrow> string list" where
  "page_links p =
     (if p = ''/'' then home_header_links @ card_targets featureCards @ home_redirects
      else if p = ''/results'' then results_links
      else if p = ''/error'' then error_links
      else if p = ''/chat'' then chat_links
      else if p = ''/upload'' then upload_links
      else if p = ''/carbon-tracker'' then tracker_links
      else if p = ''/business'' then business_links
      else if p = ''/investment'' then investment_links
      else if p = ''/maps'' then maps_links
      else if p = ''/dashboard'' then dashboard_links
      else [])"

text \<open>The pages a visitor can reach from the home page by following links and redirects.\<close>

inductive nav_reachable :: "string \<Rightarrow> bool" where
  home: "nav_reachable ''/''"
| follow: "nav_reachable p \<Longrightarrow> q \<in> set (page_links p) \<Longrightarrow> nav_reachable q"

subsection \<open>The browser\<close>

record browser =
  history :: "string list"

datatype nav_event = Follow string | Retry

fun browser_step :: "browser \<Rightarrow> nav_event \<Rightarrow> browser" where
  "browser_step b (Follow q) =
     (case history b of
        p # _ \<Rightarrow> if q \<in> set (page_links p) then b\<lparr>history := q # history b\<rparr> else b
      | [] \<Rightarrow> b)"
| "browser_step b Retry =
     (case history b of
        p # q # rest \<Rightarrow> if p = ''/error'' then b\<lparr>history := q # rest\<rparr> else b
      | _ \<Rightarrow> b)"

fun browser_run :: "browser \<Rightarrow> nav_event list \<Rightarrow> browser" where
  "browser_run b [] = b"
| "browser_run b (e # es) = browser_run (browser_step b e) es"

subsection \<open>Properties\<close>

lemma page_links_home_set:
  "set (page_links ''/'') = {''/chat'', ''/upload'', ''/investment'', ''/business'', ''/carbon-tracker'', ''/maps'',
                             ''/dashboard'', ''/error''}"
  by (auto simp: page_links_def home_header_links_def card_targets_def featureCards_def home_redirects_def)

lemma reachable_closed:
  "p \<in> set (removeAll ''/results'' app_routes) \<Longrightarrow> set (page_links p) \<subseteq> set (removeAll ''/results'' app_routes)"
  by (auto simp: app_routes_def page_links_def home_header_links_def card_targets_def featureCards_def
                 home_redirects_def error_links_def chat_links_def upload_links_def tracker_links_def
                 business_links_def investment_links_def maps_links_def dashboard_links_def)

lemma nav_reachable_routes: "nav_reachable p \<Longrightarrow> p \<in> set (removeAll ''/results'' app_routes)"
proof (induction rule: nav_reachable.induct)
  case home then show ?case by (simp add: app_routes_def)
next
  case (follow p q) then show ?case using reachable_closed by blast
qed


text \<open>
  C40: The pages a visitor reaches from the home page are exactly all pages
  but the results page: no link or redirect leads to \<open>/results\<close>, which is
  only opened by typing its address (and then, since nothing stores a search
  result, redirects home).
\<close>

theorem nav_reachable_iff:
  "nav_reachable p \<longleftrightarrow> p \<in> set app_routes \<and> p \<noteq> ''/results''"
proof
  assume "nav_reachable p"
  then have "p \<in> set (removeAll ''/results'' app_routes)" by (rule nav_reachable_routes)
  then show "p \<in> set app_routes \<and> p \<noteq> ''/results''" by simp
next
  assume "p \<in> set app_routes \<and> p \<noteq> ''/results''"
  then have "p = ''/'' \<or> p \<in> set (page_links ''/'')"
    unfolding page_links_home_set by (auto simp: app_routes_def)
  then show "nav_reachable p" by (auto intro: nav_reachable.intros)
qed

text \<open>The browser only ever shows reachable pages: following links and retrying keep the history within them.\<close>

lemma browser_step_reachable:
  "list_all nav_reachable (history b) \<Longrightarrow> list_all nav_reachable (history (browser_step b e))"
  by (cases e) (auto split: list.split intro: nav_reachable.follow)

lemma browser_run_never_results:
  assumes "list_all nav_reachable (history b)"
  shows "''/results'' \<notin> set (history (browser_run b es))"
proof -
  have "list_all nav_reachable (history (browser_run b es))"
    using assms by (induction es arbitrary: b) (auto intro: browser_step_reachable)
  then show ?thesis using nav_reachable_routes by (auto simp: list_all_iff)
qed

text \<open>
  Three of the eight feature cards open nothing, among them "Investment
  Analytics", although the investment page exists.
\<close>

lemma dead_feature_cards:
  "map fst (filter (\<lambda>(_, t). t = None) featureCards) = [''Investment Analytics'', ''Route Optimization'', ''Real-time Data'']
   \<and> ''/investment'' \<in> set app_routes"
  by (simp add: featureCards_def app_routes_def)

end
