(* ===== verification/Spec2Isabelle.thy ===== *)
theory Spec2Isabelle
  imports TrackerPage Home Chat Upload Maps Dashboard Business Navigation
begin

text \<open>
  \<^bold>\<open>A verification library for BDI Assistant.\<close>

  BDI Assistant is a Next.js application: pages under \<open>src/app\<close> run in the
  browser and call the server's route handlers under \<open>src/app/api\<close> through
  the client \<open>APIService\<close> (\<open>src/lib/api-service.ts\<close>); the handlers
  forward to an external service.  The carbon tracker computes everything in
  the browser.  This library models each page and handler as HOL functions
  over explicit states, and proves what they do.

  \<^bold>\<open>Runtime.\<close>
  \<^item> \<open>Prelude\<close>: theorem collections, \<open>Math.atan2\<close> on reals, \<open>x || d\<close> on numbers.
  \<^item> \<open>JsFloat\<close>: JavaScript numbers as finite reals, the two infinities and
    NaN, with the IEEE special-value rules of the operations the tracker uses.
    Finite results are exact reals: double rounding is not modelled.
  \<^item> \<open>CoordInput\<close>: \<open>trim\<close>, \<open>split\<close>, \<open>parseFloat\<close> and \<open>toFixed\<close> on
    ASCII strings from the ECMAScript algorithms, and the tracker's coordinate box.
  \<^item> \<open>Json\<close>: JSON values as the pages see them, truthiness, \<open>||\<close>
    chains, property reads that throw on \<open>null\<close>, optional chaining,
    \<open>Object.values\<close>, and UTF-8 strings (\<open>toLowerCase\<close> on ASCII,
    \<open>includes\<close>).  \<open>JSON.parse\<close> is a parameter everywhere.
  \<^item> \<open>Url\<close>: \<open>encodeURIComponent\<close> on UTF-8 bytes and the cards'
    \<open>openGoogleMaps\<close>, with a percent-decoding round trip.

  \<^bold>\<open>Components.\<close>
  \<^item> \<open>Geo\<close> and \<open>Carbon\<close>: \<open>calculateDistance\<close> and
    \<open>calculateCarbonFootprint\<close> of \<open>carbon-tracker/page.tsx\<close>.  The distance
    is given over reals and as the literal float evaluation, with a refinement
    between the two.  \<open>TrackerPage\<close> is that page's state machine:
    \<open>tracker_step\<close> over \<open>tracker_event\<close>, reachability, and an invariant.
  \<^item> \<open>Results\<close>: the mount of \<open>results/page.tsx\<close> (storage, parse,
    normalisation, redirects) and its render.
  \<^item> \<open>Api\<close>: the three proxy handlers (one \<open>proxy_post\<close>), the chat and
    image handlers, and the client: \<open>make_request\<close>, \<open>analyzeImages\<close>
    and \<open>getWeatherData\<close>.  \<open>Weather\<close>: the
    weather handler and the property-path reader it shares with the maps page.
  \<^item> \<open>Home\<close>, \<open>Chat\<close>, \<open>Upload\<close>, \<open>Maps\<close>, \<open>Dashboard\<close>,
    \<open>Business\<close>: the pages of the same names.  Each has a record of its
    hooks, an event datatype, a step function and a render function returning
    a record of what the page shows (the dashboard's is split by section).
    The upload page's validation loop is a \<^const>\<open>while_option\<close>.
  \<^item> \<open>Navigation\<close>: the routes under \<open>src/app\<close>, the targets of
    every \<open>router.push\<close>, \<open>Link\<close> and redirect of each page (the error
    page's included), the reachability of a route from \<open>/\<close> as an
    inductive predicate, and the browser history as a stack that links push
    and the error page's retry (\<open>router.back\<close>) pops.

  \<^bold>\<open>Asynchronous handlers and closures.\<close>
  An \<open>async\<close> handler is split at each \<open>await\<close> into separate events.  The
  first event captures, in the state, what the handler's closure holds.  The
  events that settle the awaited promise carry its outcome: a client error or
  a value.  Other events may come in between, so a property about interleaving
  is a statement over arbitrary event lists.  \<open>Math.random()\<close> is a stream of
  draws, consumed in evaluation order.  Effects registered once read the state
  of the render that registered them (\<open>Maps\<close>).

  \<^bold>\<open>What is proved.\<close>
  \<^item> Type and functional facts of every handler, including its error paths:
    which inputs throw, redirect or fall back; type preservation of the chat
    conversation against its declared \<open>Message\<close> type.
  \<^item> Invariants of every page state machine, by rule induction over its
    \<open>reachable\<close> predicate.
  \<^item> Refinement of the float evaluation of the distance by the real one.
  \<^item> Equivalences: the keyword test, and the upload validation loop with
    its recursive reference; termination of that loop.
  \<^item> Liveness: every awaited home-page call settles within two replies.
  \<^item> Round trips of the coordinate box and of URL encoding.
  \<^item> Navigation: every link targets a route with a page, and the routes
    reachable from \<open>/\<close> are all but \<open>/results\<close>.
  \<^item> Bounds on the distance, the weather temperature and the dashboard bars.
  \<^item> Composition of page, client and handlers for the home search and the
    image upload, and a failed search followed by the error page's retry
    (below).
  Several theorems state defects of the code; the manifest lists them as
  findings.

  \<^bold>\<open>Bounds, fuel and parameters.\<close>
  Every function is total and structural except the upload validation
  loop, a \<^const>\<open>while_option\<close> whose termination is proved by the
  number of files left; no fuel is needed.  The model
  leaves open only what the runtime or the environment decides, and takes it
  as a parameter:
  \<^item> \<open>JSON.parse\<close>;
  \<^item> engine error messages;
  \<^item> \<open>Number::toString\<close> of finite numbers;
  \<^item> \<open>ToNumber\<close> of strings and objects, \<open>ToString\<close> of non-strings;
  \<^item> the external service's answers;
  \<^item> random draws.

  \<^bold>\<open>Not modelled.\<close>
  \<^item> Markup and styling.
  \<^item> The root layout (\<open>layout.tsx\<close>): metadata, fonts and the
    \<open>html\<close> wrapper, presentation only.
  \<^item> The error page's text; its two buttons are in \<open>Navigation\<close>.
  \<^item> Dates and timers' durations.
  \<^item> \<open>Intl\<close> formatting: its output is a parameter of the dashboard view.
  \<^item> Google Maps objects.
  \<^item> Image previews.
  \<^item> The server-side branch of the client.
  \<^item> React's rejection of objects rendered as text.
  \<^item> Case mapping beyond ASCII.  The only caller compares with caseless
    Thai keywords.
\<close>

section \<open>Page, client and handlers together\<close>

text \<open>
  The handlers the client reaches in the browser, by endpoint: \<open>/api\<close>
  followed by the endpoint; an unknown endpoint is a 404.  The body the
  client sends is \<open>JSON.stringify(data)\<close>, which the handler's
  \<open>request.json()\<close> reads back as \<open>data\<close>.
\<close>

definition api_route :: "(js_error \<Rightarrow> string) \<Rightarrow> json_parser \<Rightarrow> (string \<Rightarrow> jsval \<Rightarrow> fetch_result)
                          \<Rightarrow> string \<Rightarrow> jsval \<Rightarrow> http_response" where
  "api_route msg parse upstream ep d =
     (if ep = ''/recommend-places'' then recommend_places_route msg parse (Some d) (upstream ep)
      else if ep = ''/recommend-new-investment'' then recommend_new_investment_route msg parse (Some d) (upstream ep)
      else if ep = ''/analyze-existing-investment'' then analyze_existing_investment_route msg parse (Some d) (upstream ep)
      else if ep = ''/typhoon-chat'' then typhoon_chat_route msg parse (Some d) (upstream ep)
      else json_response 404 JNull)"

text \<open>The home page's awaited call settling with what the handler answers.\<close>

definition home_serve :: "(js_error \<Rightarrow> string) \<Rightarrow> json_parser \<Rightarrow> (string \<Rightarrow> jsval \<Rightarrow> fetch_result)
                          \<Rightarrow> home_state \<Rightarrow> home_state" where
  "home_serve msg parse upstream s =
     (case pending s of
        None \<Rightarrow> s
      | Some (Primary ep d _) \<Rightarrow> home_step s (Reply (make_request (api_route msg parse upstream ep d)))
      | Some (Fallback ep d) \<Rightarrow> home_step s (Reply (make_request (api_route msg parse upstream ep d))))"

text \<open>The upload page's awaited analysis settling with what the image handler answers.\<close>

definition upload_serve :: "json_parser \<Rightarrow> (upload_file list \<Rightarrow> fetch_result) \<Rightarrow> upload_state \<Rightarrow> upload_state" where
  "upload_serve parse upstream s =
     (case upload_pending s of
        None \<Rightarrow> s
      | Some fs \<Rightarrow> upload_step s (UploadReply (analyzeImages (analyze_image_route parse (Some fs) upstream))))"

text \<open>
  C38: A tourist search while the recommendation service is unreachable: the
  handler answers 500, the client throws, the home page asks the chat
  endpoint with the same message, and shows the chat service's \<open>response\<close>
  as the result's message, with loading ended and no navigation.
\<close>

theorem tourist_outage_answered_by_chat:
  assumes "\<not> Home.isLoading s" "js_trim (userMessage s) \<noteq> []" "mode s = Tourist"
    and "upstream ''/recommend-places'' = (\<lambda>_. NetworkFailure)"
    and "upstream ''/typhoon-chat'' = (\<lambda>_. Response 200 txt)"
    and "parse txt = Some (JObj [(''response'', JStr r)])" "r \<noteq> []"
  shows "results (home_serve msg parse upstream (home_serve msg parse upstream (home_step s Submit)))
           = JObj [(''message'', JStr r)]
         \<and> \<not> Home.isLoading (home_serve msg parse upstream (home_serve msg parse upstream (home_step s Submit)))
         \<and> nav (home_serve msg parse upstream (home_serve msg parse upstream (home_step s Submit))) = nav s"
  using assms
  by (simp add: home_serve_def api_route_def home_request_def recommend_places_route_def proxy_post_cases
                json_response_def make_request_def http_ok_def chat_fallback_request_def
                typhoon_chat_route_def fallback_results_def js_or_chain_Cons)

theorem tourist_outage_answered_by_chat_witness:
  "\<not> Home.isLoading (home_init\<lparr>userMessage := ''khao soi''\<rparr>)
   \<and> results (home_serve (\<lambda>_. []) (\<lambda>_. Some (JObj [(''response'', JStr ''Try Khao Soi Mae Manee'')]))
        (\<lambda>ep. if ep = ''/recommend-places'' then (\<lambda>_. NetworkFailure) else (\<lambda>_. Response 200 ''{}''))
        (home_serve (\<lambda>_. []) (\<lambda>_. Some (JObj [(''response'', JStr ''Try Khao Soi Mae Manee'')]))
          (\<lambda>ep. if ep = ''/recommend-places'' then (\<lambda>_. NetworkFailure) else (\<lambda>_. Response 200 ''{}''))
          (home_step (home_init\<lparr>userMessage := ''khao soi''\<rparr>) Submit)))
     = JObj [(''message'', JStr ''Try Khao Soi Mae Manee'')]"
proof -
  have h1: "\<not> Home.isLoading (home_init\<lparr>userMessage := ''khao soi''\<rparr>)"
    and h2: "js_trim (userMessage (home_init\<lparr>userMessage := ''khao soi''\<rparr>)) \<noteq> []"
    and h3: "mode (home_init\<lparr>userMessage := ''khao soi''\<rparr>) = Tourist"
    by (simp_all add: home_init_def js_trim_def js_is_ws_def)
  have h4: "(\<lambda>ep. if ep = ''/recommend-places'' then (\<lambda>_. NetworkFailure) else (\<lambda>_. Response 200 ''{}''))
              ''/recommend-places'' = (\<lambda>_. NetworkFailure)"
    and h5: "(\<lambda>ep. if ep = ''/recommend-places'' then (\<lambda>_. NetworkFailure) else (\<lambda>_. Response 200 ''{}''))
              ''/typhoon-chat'' = (\<lambda>_. Response 200 ''{}'')"
    by simp_all
  show ?thesis
    using h1 tourist_outage_answered_by_chat[OF h1 h2 h3 h4 h5, of "\<lambda>_. Some (JObj [(''response'', JStr ''Try Khao Soi Mae Manee'')])"
        "''Try Khao Soi Mae Manee''" "\<lambda>_. []"]
    by simp
qed

text \<open>
  Selecting admissible images and clicking upload: when the analysis service
  answers with JSON the page shows it as the result; when it fails, the image
  handler answers 500, the client throws and the page shows the analysis
  error.  Either way loading ends with nothing pending.
\<close>

lemma upload_end_to_end:
  assumes "drop_zone_shown s" "\<not> Upload.isLoading s" "fs \<noteq> []" "length fs \<le> 5" "first_invalid fs = None"
  shows "(upstream fs = Response 200 txt \<and> parse txt = Some d \<longrightarrow>
            Upload.result (upload_serve parse upstream (upload_run s [SelectFiles fs, ClickUpload])) = d)
         \<and> (upstream fs = NetworkFailure \<longrightarrow>
            error (upload_serve parse upstream (upload_run s [SelectFiles fs, ClickUpload])) = Some AnalysisFailed)
         \<and> \<not> Upload.isLoading (upload_serve parse upstream (upload_run s [SelectFiles fs, ClickUpload]))
         \<and> upload_pending (upload_serve parse upstream (upload_run s [SelectFiles fs, ClickUpload])) = None"
  using assms
  by (auto simp: upload_serve_def handleFileSelect_ref analyze_image_route_def analyzeImages_def json_response_def
                 http_ok_def selection_shown_def drop_zone_shown_def split: fetch_result.split option.split)

text \<open>
  A failed search sends the home page to \<open>/error\<close>; its retry button goes
  back to the home page instead of repeating the call, and the home page
  mounts afresh, so the message typed for the search is gone.
\<close>

lemma retry_returns_to_fresh_home:
  assumes "pending s = Some (Primary ep d msg)" "msg \<noteq> []"
  shows "nav (home_run s [Reply (Inl e1), Reply (Inl e2)]) = Some ''/error''
         \<and> history (browser_run \<lparr>history = [''/'']\<rparr> [Follow ''/error'', Retry]) = [''/'']
         \<and> pending home_init = None \<and> userMessage home_init \<noteq> msg"
  using assms
  by (simp add: chat_fallback_request_def home_init_def page_links_def home_header_links_def card_targets_def
                featureCards_def home_redirects_def)

end
